theory Spec2Isabelle
  imports Main "HOL-Library.Word"
begin

section \<open>Machine integers of the wallet code\<close>

text \<open>
  The wallet computes on Go's \<open>int64\<close>. An \<open>int64\<close> is modelled as an \<open>int\<close> in the
  range \<open>-2^63 \<le> x < 2^63\<close>; every arithmetic operator of the source wraps around as Go's
  does. Go's \<open>/\<close> and \<open>%\<close> truncate towards zero.
\<close>

type_synonym int64 = int

definition in_int64 :: "int \<Rightarrow> bool" where
  "in_int64 x \<longleftrightarrow> - (2 ^ 63) \<le> x \<and> x < 2 ^ 63"

definition wrap64 :: "int \<Rightarrow> int64" where
  "wrap64 x = (x + 2 ^ 63) mod 2 ^ 64 - 2 ^ 63"

definition add64 :: "int64 \<Rightarrow> int64 \<Rightarrow> int64" where
  "add64 a b = wrap64 (a + b)"

definition sub64 :: "int64 \<Rightarrow> int64 \<Rightarrow> int64" where
  "sub64 a b = wrap64 (a - b)"

definition mul64 :: "int64 \<Rightarrow> int64 \<Rightarrow> int64" where
  "mul64 a b = wrap64 (a * b)"

text \<open>Go's \<open>a / b\<close> and \<open>a % b\<close> for a non-zero divisor (a zero divisor panics).\<close>

definition quo64 :: "int64 \<Rightarrow> int64 \<Rightarrow> int64" where
  "quo64 a b = wrap64 (sgn a * sgn b * (\<bar>a\<bar> div \<bar>b\<bar>))"

definition rem64 :: "int64 \<Rightarrow> int64 \<Rightarrow> int64" where
  "rem64 a b = sgn a * (\<bar>a\<bar> mod \<bar>b\<bar>)"

section \<open>Amount decomposer (wallet/privacy.go)\<close>

text \<open>
  \<open>decomAmount2Nature\<close>: the \<open>switch mul\<close> of the source, case by case; the
  \<open>default\<close> branch returns \<open>mul * order\<close>.
\<close>

definition decomAmount2Nature :: "int64 \<Rightarrow> int64 \<Rightarrow> int64 list" where
  "decomAmount2Nature amount order =
     (if order = 0 then []
      else let mul = quo64 amount order in
        if mul = 3 then [order, mul64 2 order]
        else if mul = 4 then [mul64 2 order, mul64 2 order]
        else if mul = 6 then [mul64 5 order, order]
        else if mul = 7 then [mul64 5 order, mul64 2 order]
        else if mul = 8 then [mul64 5 order, mul64 2 order, mul64 1 order]
        else if mul = 9 then [mul64 5 order, mul64 2 order, mul64 2 order]
        else [mul64 mul order])"

text \<open>
  The \<open>for 0 != amount\<close> loop of \<open>decomposeAmount2digits\<close>. The loop state is
  \<open>(amount, is_dust_handled, dust, order, res)\<close>; the loop returns the three variables
  that are read after it.
\<close>

function decompose_loop ::
  "int64 \<Rightarrow> int64 \<Rightarrow> bool \<Rightarrow> int64 \<Rightarrow> int64 \<Rightarrow> int64 list \<Rightarrow> bool \<times> int64 \<times> int64 list" where
  "decompose_loop dust_threshold amount is_dust_handled dust order res =
     (if amount = 0 then (is_dust_handled, dust, res)
      else
        let chunk = mul64 (rem64 amount 10) order;
            amount' = quo64 amount 10;
            order' = mul64 order 10
        in if add64 dust chunk < dust_threshold
           then decompose_loop dust_threshold amount' is_dust_handled (add64 dust chunk) order' res
           else
             let emit = (\<not> is_dust_handled \<and> dust \<noteq> 0);
                 res1 = (if emit then res @ [dust] else res);
                 handled1 = (if emit then True else is_dust_handled);
                 res2 = (if chunk \<noteq> 0
                         then res1 @ decomAmount2Nature chunk (quo64 order' 10)
                         else res1)
             in decompose_loop dust_threshold amount' handled1 dust order' res2)"
  by pat_completeness auto

lemma abs_wrap64_le: "\<bar>wrap64 x\<bar> \<le> \<bar>x\<bar>"
proof (cases "- (2 ^ 63) \<le> x \<and> x < (2 ^ 63 :: int)")
  case True
  then have "(x + 2 ^ 63) mod 2 ^ 64 = x + 2 ^ 63"
    by (intro mod_pos_pos_trivial) auto
  then show ?thesis by (simp add: wrap64_def)
next
  case False
  have "0 \<le> (x + 2 ^ 63) mod (2 ^ 64 :: int)" "(x + 2 ^ 63) mod (2 ^ 64 :: int) < 2 ^ 64"
    by simp_all
  then have "\<bar>wrap64 x\<bar> \<le> 2 ^ 63" by (simp add: wrap64_def abs_le_iff)
  with False show ?thesis by linarith
qed

lemma quo64_ten_decreases: "amount \<noteq> 0 \<Longrightarrow> \<bar>quo64 amount 10\<bar> < \<bar>amount\<bar>"
proof -
  assume nz: "amount \<noteq> 0"
  have "\<bar>quo64 amount 10\<bar> \<le> \<bar>sgn amount * sgn (10::int) * (\<bar>amount\<bar> div \<bar>10\<bar>)\<bar>"
    unfolding quo64_def by (rule abs_wrap64_le)
  also have "\<dots> = \<bar>amount\<bar> div 10" using nz by (simp add: abs_mult abs_sgn_eq)
  also have "\<dots> < \<bar>amount\<bar>" using nz by (simp add: div_less_iff_less_mult)
  finally show ?thesis .
qed

termination decompose_loop
  by (relation "measure (\<lambda>(t, amount, h, d, ord, res). nat \<bar>amount\<bar>)")
     (auto simp: quo64_ten_decreases)

declare decompose_loop.simps [simp del]

definition decomposeAmount2digits :: "int64 \<Rightarrow> int64 \<Rightarrow> int64 list" where
  "decomposeAmount2digits amount dust_threshold =
     (if 0 \<ge> amount then []
      else case decompose_loop dust_threshold amount False 0 1 [] of
             (is_dust_handled, dust, res) \<Rightarrow>
               if \<not> is_dust_handled \<and> dust \<noteq> 0 then res @ [dust] else res)"

subsection \<open>Denominations\<close>

text \<open>
  A denomination is \<open>d * 10^k\<close> with \<open>d\<close> one of 1, 2, 5. An element of a
  decomposition is good for the threshold \<open>t\<close> when it is positive and either below
  \<open>t\<close> or a denomination.
\<close>

definition denom125 :: "int \<Rightarrow> bool" where
  "denom125 x \<longleftrightarrow> (\<exists>k::nat. x = 10 ^ k \<or> x = 2 * 10 ^ k \<or> x = 5 * 10 ^ k)"

definition good_denom :: "int \<Rightarrow> int \<Rightarrow> bool" where
  "good_denom t x \<longleftrightarrow> 0 < x \<and> (x < t \<or> denom125 x)"

section \<open>The amount check (wallet/privacy.go, \<open>checkAmountValid\<close>)\<close>

subsection \<open>Go's \<open>float64\<close> on the operands of the check\<close>

text \<open>
  \<open>checkAmountValid\<close> converts both operands to \<open>float64\<close>, divides, and converts the
  quotient back to \<open>int64\<close>. A finite \<open>float64\<close> is kept as \<open>Float64 m e\<close>, the value
  \<open>m * 2^e\<close>. Conversion and division round the exact result to a significand of 53 bits,
  to nearest and ties to even (IEEE 754 binary64, as the Go specification requires);
  the conversion back to \<open>int64\<close> truncates towards zero. The operands of the check are
  an \<open>int64\<close> and the non-zero constant \<open>Coin\<close>, so neither infinities, NaN nor subnormal
  numbers arise, and the model leaves them out.
\<close>

datatype float64 = Float64 int int

function bit_length :: "int \<Rightarrow> int" where
  "bit_length n = (if n \<le> 0 then 0 else 1 + bit_length (n div 2))"
  by pat_completeness auto
termination
  by (relation "measure nat") auto

declare bit_length.simps [simp del]

text \<open>The integer nearest to \<open>p / q\<close> (for \<open>0 \<le> p\<close>, \<open>0 < q\<close>), ties to even.\<close>

definition round_half_even :: "int \<Rightarrow> int \<Rightarrow> int" where
  "round_half_even p q =
     (let f = p div q; r = p mod q
      in if 2 * r < q then f
         else if q < 2 * r then f + 1
         else if even f then f else f + 1)"

text \<open>The binary exponent of \<open>p / q\<close> (for \<open>0 < p\<close>, \<open>0 < q\<close>): \<open>2^e \<le> p / q < 2^(e+1)\<close>.\<close>

definition binary_exponent :: "int \<Rightarrow> int \<Rightarrow> int" where
  "binary_exponent p q =
     (let e0 = bit_length p - bit_length q
      in if (if 0 \<le> e0 then q * 2 ^ nat e0 \<le> p else q \<le> p * 2 ^ nat (- e0))
         then e0 else e0 - 1)"

text \<open>The \<open>float64\<close> nearest to \<open>p / q\<close> (for \<open>0 < p\<close>, \<open>0 < q\<close>).\<close>

definition round53 :: "int \<Rightarrow> int \<Rightarrow> float64" where
  "round53 p q =
     (let e = binary_exponent p q; s = 52 - e;
          m = (if 0 \<le> s then round_half_even (p * 2 ^ nat s) q
               else round_half_even p (q * 2 ^ nat (- s)))
      in Float64 m (- s))"

text \<open>Go's conversion \<open>float64(n)\<close> of an \<open>int64\<close>.\<close>

definition float64_of_int64 :: "int64 \<Rightarrow> float64" where
  "float64_of_int64 n =
     (if n = 0 then Float64 0 0
      else case round53 \<bar>n\<bar> 1 of Float64 m e \<Rightarrow> Float64 (sgn n * m) e)"

text \<open>Go's \<open>x / y\<close> on \<open>float64\<close>, for a non-zero divisor.\<close>

fun float64_quo :: "float64 \<Rightarrow> float64 \<Rightarrow> float64" where
  "float64_quo (Float64 m1 e1) (Float64 m2 e2) =
     (if m1 = 0 then Float64 0 0
      else
        let p = \<bar>m1\<bar> * (if e2 \<le> e1 then 2 ^ nat (e1 - e2) else 1);
            q = \<bar>m2\<bar> * (if e2 \<le> e1 then 1 else 2 ^ nat (e2 - e1))
        in case round53 p q of Float64 m e \<Rightarrow> Float64 (sgn m1 * sgn m2 * m) e)"

text \<open>Go's conversion \<open>int64(x)\<close> of a \<open>float64\<close> whose integer part fits \<open>int64\<close>.\<close>

fun int64_of_float64 :: "float64 \<Rightarrow> int64" where
  "int64_of_float64 (Float64 m e) =
     (if 0 \<le> e then m * 2 ^ nat e else sgn m * (\<bar>m\<bar> div 2 ^ nat (- e)))"

subsection \<open>\<open>checkAmountValid\<close>\<close>

text \<open>
  Modelled from the spec: the constant \<open>types.Coin\<close> is declared outside the source
  files at hand; the specification fixes \<open>Coin = 10^8\<close>.
\<close>

definition Coin :: int64 where
  "Coin = 100000000"

definition checkAmountValid :: "int64 \<Rightarrow> bool" where
  "checkAmountValid amount =
     (if amount \<le> 0 then False
      else if mul64 (int64_of_float64
                (float64_quo (float64_of_int64 amount) (float64_of_int64 Coin))) Coin \<noteq> amount
      then False
      else True)"

section \<open>Data model of the privacy wallet\<close>

text \<open>
  Byte slices are lists of bytes; \<open>bytes.Equal\<close> is equality of lists. Pointers to
  messages are modelled by the messages themselves; a pointer that the source leaves
  \<open>nil\<close> on a path that is modelled becomes an \<open>option\<close>. Fields of different messages
  that share a name in the source carry the message's initials as a suffix.
\<close>

type_synonym bytes = "8 word list"
type_synonym int32 = int

definition wrap32 :: "int \<Rightarrow> int32" where
  "wrap32 x = (x + 2 ^ 31) mod 2 ^ 32 - 2 ^ 31"

text \<open>
  Errors as values: the named errors of \<open>types\<close>, \<open>errors.New\<close>, an error handed back
  by a collaborator (crypto, chain, store, hex decoding), and a run-time panic.
\<close>

datatype error =
    ErrInputPara | ErrInvalidParams | ErrAmount | ErrPubKeyLen
  | ErrInsufficientBalance | ErrRescanFlagScaning
  | ErrNew string | ErrCollaborator string | Panic string

record UTXOGlobalIndex =
  Txhash :: bytes
  Outindex :: int32

record UTXOBasic =
  UtxoGlobalIndex :: UTXOGlobalIndex
  OnetimePubkey :: bytes

record UTXO =
  Amount_u :: int64
  UtxoBasic :: UTXOBasic

record UTXOIndex4Amount =
  Amount_ia :: int64
  Utxos :: "UTXOBasic list"

record ReqUTXOGlobalIndex =
  Tokenname_rq :: string
  MixCount :: int32
  Amount_rq :: "int64 list"

record ResUTXOGlobalIndex =
  UtxoIndex4Amount :: "UTXOIndex4Amount list"

record KeyInput =
  Amount_ki :: int64
  KeyImage :: bytes
  UtxoGlobalIndex_ki :: "UTXOGlobalIndex list"

record KeyOutput =
  Amount_ko :: int64
  Onetimepubkey :: bytes

record PrivacyOutput =
  RpubKeytx :: bytes
  Keyoutput :: "KeyOutput list"

record RealKeyInput =
  Realinputkey :: int32
  Onetimeprivkey :: bytes

record txOutputInfo =
  amount :: int64
  utxoGlobalIndex :: UTXOGlobalIndex
  txPublicKeyR :: bytes
  onetimePublicKey :: bytes

record walletUTXO =
  height :: int64
  outinfo :: txOutputInfo

record Privacy =
  ViewPubkey :: bytes
  ViewPrivKey :: bytes
  SpendPubkey :: bytes
  SpendPrivKey :: bytes

record buildInputInfo =
  tokenname :: string
  sender :: string
  amount_bi :: int64
  mixcount :: int32

text \<open>
  A \<open>PrivacyAction\<close> with its \<open>Ty\<close> as the constructor. The arguments are, in order,
  \<open>Tokenname\<close>, \<open>Amount\<close>, \<open>Note\<close>, then \<open>Input\<close> (where the action has one:
  the list \<open>Keyinput\<close>) and \<open>Output\<close>.
\<close>

datatype PrivacyAction =
    Public2Privacy string int64 string PrivacyOutput
  | Privacy2Privacy string int64 string "KeyInput list" PrivacyOutput
  | Privacy2Public string int64 string "KeyInput list" PrivacyOutput

text \<open>
  The signature field of a transaction: absent, a conventional signature
  (\<open>tx.Sign\<close>), a ring signature (the items of \<open>RingSignature\<close>; its type tag
  and the public key of the executor, which are constants, are left out), or the
  \<open>PrivacySignatureParam\<close> that the deferred path stores there (\<open>Utxobasics\<close> and
  \<open>RealKeyInputs\<close>; its \<open>ActionType\<close> is that of the payload).
\<close>

datatype Signature =
    PlainSignature bytes
  | RingSignature "bytes list"
  | PrivacySignatureParam "UTXOBasic list list" "RealKeyInput list"

record Transaction =
  Execer :: string
  Payload :: PrivacyAction
  Signature_tx :: "Signature option"
  Fee :: int64
  Expire :: int64
  Nonce :: int64
  To :: string

record PrivacyDBStore =
  Txhash_db :: bytes
  Tokenname_db :: string
  Amount_db :: int64
  OutIndex_db :: int32
  TxPublicKeyR_db :: bytes
  OnetimePublicKey_db :: bytes
  Owner_db :: string
  Height_db :: int64
  Txindex_db :: int32

text \<open>
  A write batch of the wallet database (\<open>db.Batch\<close>), as the list of the operations
  put into it: a \<open>Delete\<close> of a key, or the call of the store's \<open>moveUTXO2STXO\<close> with
  its arguments \<open>owner\<close>, \<open>token\<close>, \<open>txhash\<close> and \<open>utxos\<close>.
\<close>

datatype batch_op =
    Delete string
  | MoveUTXO2STXO string string string "UTXO list"

subsection \<open>Collaborators and constants outside the source files\<close>

text \<open>
  The constants of package \<open>types\<close> that the wallet reads are parameters of the model
  (\<open>PrivacyX\<close> is the name of the privacy executor as a string, \<open>ExecerPrivacy\<close> the
  same as bytes).
\<close>

record config =
  BTYDustThreshold :: int64
  PrivacyTxFee :: int64
  PrivacyMaxCount :: int32
  PrivacyMaturityDegree :: int64
  SignatureSize :: int64
  Size_1K_shiftlen :: nat
  FeePerKB :: int64
  PrivacyX :: string
  ExecerPrivacy :: string

text \<open>
  The collaborators of the wallet are parameters too: the random source (with its state
  \<open>'r\<close> passed along), the crypto primitives, library routines, the chain client
  \<open>wallet.api\<close> and the wallet store (with its state \<open>'st\<close>). Each is a function of
  the arguments the source passes; a collaborator that can fail returns \<open>error + _\<close>.
\<close>

record ('st, 'r) env =
  Perm :: "'r \<Rightarrow> nat \<Rightarrow> nat list \<times> 'r"
  Intn :: "'r \<Rightarrow> nat \<Rightarrow> nat \<times> 'r"
  Int63 :: "'r \<Rightarrow> int64 \<times> 'r"
  GenerateKeyPair :: "'r \<Rightarrow> (bytes \<times> bytes) \<times> 'r"
  GenerateOneTimeAddr :: "bytes option \<Rightarrow> bytes option \<Rightarrow> bytes \<Rightarrow> int64 \<Rightarrow> error + bytes"
  RecoverOnetimePriKey :: "bytes \<Rightarrow> bytes \<Rightarrow> bytes \<Rightarrow> int64 \<Rightarrow> error + bytes"
  GenerateKeyImage :: "bytes \<Rightarrow> bytes \<Rightarrow> error + bytes"
  GenerateRingSignature :: "bytes \<Rightarrow> UTXOBasic list \<Rightarrow> bytes \<Rightarrow> int \<Rightarrow> bytes \<Rightarrow> error + bytes"
  sort_selectedUtxo :: "(txOutputInfo \<Rightarrow> txOutputInfo \<Rightarrow> bool) \<Rightarrow> txOutputInfo list \<Rightarrow> txOutputInfo list"
  sort_UtxoIndex4Amount :: "(UTXOIndex4Amount \<Rightarrow> UTXOIndex4Amount \<Rightarrow> bool) \<Rightarrow> UTXOIndex4Amount list \<Rightarrow> UTXOIndex4Amount list"
  sort_unconfirmUTXOs :: "(walletUTXO \<Rightarrow> walletUTXO \<Rightarrow> bool) \<Rightarrow> walletUTXO list \<Rightarrow> walletUTXO list"
  FromHex :: "string \<Rightarrow> error + bytes"
  Bytes2Hex :: "bytes \<Rightarrow> string"
  ExecAddress :: "string \<Rightarrow> string"
  getExpire :: "int64 \<Rightarrow> int64"
  Size :: "Transaction \<Rightarrow> int64"
  Sign :: "Transaction \<Rightarrow> bytes \<Rightarrow> bytes"
  Hash :: "Transaction \<Rightarrow> bytes"
  EncodeToHash :: "Transaction \<Rightarrow> bytes"
  SendTx :: "Transaction \<Rightarrow> error option"
  BlockChainQuery :: "ReqUTXOGlobalIndex \<Rightarrow> error + ResUTXOGlobalIndex option"
  getPrivacykeyPair :: "'st \<Rightarrow> string \<Rightarrow> error + Privacy"
  getPrivacyTokenUTXOs :: "'st \<Rightarrow> string \<Rightarrow> string \<Rightarrow> error + walletUTXO list"
  moveUTXO2FTXO :: "Transaction \<Rightarrow> string \<Rightarrow> string \<Rightarrow> string \<Rightarrow> txOutputInfo list \<Rightarrow> 'st \<Rightarrow> 'st"
  GetScanPrivacyInputUTXO :: "'st \<Rightarrow> int32 \<Rightarrow> UTXOGlobalIndex list"
  IsUTXOExist :: "'st \<Rightarrow> string \<Rightarrow> int \<Rightarrow> error + PrivacyDBStore option"
  calcScanPrivacyInputUTXOKey :: "string \<Rightarrow> int \<Rightarrow> string"
  Write :: "batch_op list \<Rightarrow> 'st \<Rightarrow> 'st"

text \<open>The wallet: its store, its random source and the height of its last header.\<close>

record ('st, 'r) Wallet =
  walletStore :: 'st
  random :: 'r
  GetHeight :: int64

section \<open>UTXO selection (\<open>selectUTXO\<close>)\<close>

text \<open>
  The first loop of \<open>selectUTXO\<close>: it skips the outputs above the current height and
  splits the others by maturity; the state is \<open>(balance, confirmUTXOs, unconfirmUTXOs)\<close>.
\<close>

fun split_by_maturity ::
  "int64 \<Rightarrow> int64 \<Rightarrow> walletUTXO list \<Rightarrow> int64 \<Rightarrow> walletUTXO list \<Rightarrow> walletUTXO list
   \<Rightarrow> int64 \<times> walletUTXO list \<times> walletUTXO list" where
  "split_by_maturity curBlockHeight maturity [] balance confirmUTXOs unconfirmUTXOs =
     (balance, confirmUTXOs, unconfirmUTXOs)"
| "split_by_maturity curBlockHeight maturity (wutxo # rest) balance confirmUTXOs unconfirmUTXOs =
     (if curBlockHeight < height wutxo
      then split_by_maturity curBlockHeight maturity rest balance confirmUTXOs unconfirmUTXOs
      else if sub64 curBlockHeight (height wutxo) > maturity
      then split_by_maturity curBlockHeight maturity rest
             (add64 balance (amount (outinfo wutxo))) (confirmUTXOs @ [wutxo]) unconfirmUTXOs
      else split_by_maturity curBlockHeight maturity rest
             balance confirmUTXOs (unconfirmUTXOs @ [wutxo]))"

text \<open>The second loop: unconfirmed outputs are added until the balance suffices.\<close>

fun add_unconfirmed ::
  "int64 \<Rightarrow> walletUTXO list \<Rightarrow> int64 \<Rightarrow> walletUTXO list \<Rightarrow> int64 \<times> walletUTXO list" where
  "add_unconfirmed amt [] balance confirmUTXOs = (balance, confirmUTXOs)"
| "add_unconfirmed amt (wutxo # rest) balance confirmUTXOs =
     (let confirmUTXOs' = confirmUTXOs @ [wutxo];
          balance' = add64 balance (amount (outinfo wutxo))
      in if balance' \<ge> amt then (balance', confirmUTXOs')
         else add_unconfirmed amt rest balance' confirmUTXOs')"

text \<open>
  The third loop, \<open>for balance < amount\<close>: a random index is drawn and the output at it
  is moved to the selection. \<open>Intn\<close> panics on an empty pool.
\<close>

function pick_random ::
  "('st, 'r) env \<Rightarrow> int64 \<Rightarrow> int64 \<Rightarrow> walletUTXO list \<Rightarrow> txOutputInfo list \<Rightarrow> 'r
   \<Rightarrow> (error + txOutputInfo list) \<times> 'r" where
  "pick_random env amt balance confirmUTXOs selectedOuts rng =
     (if balance < amt
      then if confirmUTXOs = [] then (Inl (Panic ''invalid argument to Intn''), rng)
           else case Intn env rng (length confirmUTXOs) of
                  (index, rng') \<Rightarrow>
                    if index < length confirmUTXOs
                    then pick_random env amt
                           (add64 balance (amount (outinfo (confirmUTXOs ! index))))
                           (take index confirmUTXOs @ drop (Suc index) confirmUTXOs)
                           (selectedOuts @ [outinfo (confirmUTXOs ! index)]) rng'
                    else (Inl (Panic ''index out of range''), rng')
      else (Inr selectedOuts, rng))"
  by pat_completeness auto
termination
  by (relation "measure (\<lambda>(env, amt, balance, confirmUTXOs, selectedOuts, rng). length confirmUTXOs)")
     auto

declare pick_random.simps [simp del]

definition selectUTXO ::
  "('st, 'r) env \<Rightarrow> config \<Rightarrow> ('st, 'r) Wallet \<Rightarrow> string \<Rightarrow> string \<Rightarrow> int64
   \<Rightarrow> (error + txOutputInfo list) \<times> 'r" where
  "selectUTXO env cfg wallet token addr amt =
     (if length token = 0 \<or> length addr = 0 \<or> amt \<le> 0
      then (Inl ErrInvalidParams, random wallet)
      else case getPrivacyTokenUTXOs env (walletStore wallet) token addr of
        Inl err \<Rightarrow> (Inl ErrInsufficientBalance, random wallet)
      | Inr wutxos \<Rightarrow>
          (case split_by_maturity (GetHeight wallet) (PrivacyMaturityDegree cfg) wutxos 0 [] [] of
             (balance, confirmUTXOs, unconfirmUTXOs) \<Rightarrow>
               (case (if balance < amt \<and> length unconfirmUTXOs > 0
                      then add_unconfirmed amt
                             (sort_unconfirmUTXOs env (\<lambda>a b. height a < height b) unconfirmUTXOs)
                             balance confirmUTXOs
                      else (balance, confirmUTXOs)) of
                  (balance', confirmUTXOs') \<Rightarrow>
                    if balance' < amt then (Inl ErrInsufficientBalance, random wallet)
                    else pick_random env amt 0 confirmUTXOs' [] (random wallet))))"

section \<open>Ring inputs (\<open>buildInput\<close>)\<close>

text \<open>
  The inner loop over the decoys of one amount: the first decoy whose one-time public key
  equals the key of the output to pay is removed, and the loop breaks.
\<close>

fun remove_self :: "bytes \<Rightarrow> UTXOBasic list \<Rightarrow> UTXOBasic list" where
  "remove_self key [] = []"
| "remove_self key (utxo # rest) =
     (if OnetimePubkey utxo = key then rest else utxo # remove_self key rest)"

text \<open>
  The decoys fetched for the output at position \<open>i\<close>: the entry \<open>i\<close> of the response
  if there is a response, it has an entry \<open>i\<close> and the amounts agree; none otherwise.
\<close>

definition fetched_for :: "ResUTXOGlobalIndex option \<Rightarrow> nat \<Rightarrow> txOutputInfo \<Rightarrow> UTXOBasic list" where
  "fetched_for resUTXOGlobalIndex i utxo2pay =
     (case resUTXOGlobalIndex of
        None \<Rightarrow> []
      | Some res \<Rightarrow>
          if i < length (UtxoIndex4Amount res)
             \<and> amount utxo2pay = Amount_ia (UtxoIndex4Amount res ! i)
          then Utxos (UtxoIndex4Amount res ! i)
          else [])"

definition decoys_for :: "ResUTXOGlobalIndex option \<Rightarrow> nat \<Rightarrow> txOutputInfo \<Rightarrow> UTXOBasic list" where
  "decoys_for resUTXOGlobalIndex i utxo2pay =
     remove_self (onetimePublicKey utxo2pay) (fetched_for resUTXOGlobalIndex i utxo2pay)"

text \<open>
  \<open>if len(Utxos) > int(mixcount) { Utxos = Utxos[:len(Utxos)-1] }\<close>: one decoy, the last,
  is dropped. Slicing an empty list to \<open>[:-1]\<close> panics.
\<close>

definition drop_last_above :: "int32 \<Rightarrow> UTXOBasic list \<Rightarrow> error + UTXOBasic list" where
  "drop_last_above mix utxos =
     (if int (length utxos) > mix
      then if utxos = [] then Inl (Panic ''slice bounds out of range'') else Inr (butlast utxos)
      else Inr utxos)"

text \<open>
  \<open>for k, position := range positions { utxos[position] = Utxos[k] }\<close> on an array of
  \<open>nil\<close> pointers; an index out of range panics.
\<close>

fun place :: "nat \<Rightarrow> nat list \<Rightarrow> 'a list \<Rightarrow> 'a option list \<Rightarrow> error + 'a option list" where
  "place k [] src utxos = Inr utxos"
| "place k (position # rest) src utxos =
     (if k < length src \<and> position < length utxos
      then place (Suc k) rest src (utxos[position := Some (src ! k)])
      else Inl (Panic ''index out of range''))"

text \<open>Reading a field through every pointer of the array; a \<open>nil\<close> pointer panics.\<close>

fun deref_all :: "'a option list \<Rightarrow> error + 'a list" where
  "deref_all [] = Inr []"
| "deref_all (None # rest) = Inl (Panic ''nil pointer dereference'')"
| "deref_all (Some x # rest) =
     (case deref_all rest of Inl e \<Rightarrow> Inl e | Inr xs \<Rightarrow> Inr (x # xs))"

text \<open>The ring member for the output to pay itself (\<open>utxo := &types.UTXOBasic{...}\<close>).\<close>

definition real_utxo :: "txOutputInfo \<Rightarrow> UTXOBasic" where
  "real_utxo utxo2pay =
     \<lparr>UtxoGlobalIndex = utxoGlobalIndex utxo2pay, OnetimePubkey = onetimePublicKey utxo2pay\<rparr>"

text \<open>
  The body of the loop over the selected outputs, for the output \<open>utxo2pay\<close> at position
  \<open>i\<close>: it returns the \<open>KeyInput\<close>, the permuted ring and the \<open>RealKeyInput\<close>.
\<close>

definition buildInput_one ::
  "('st, 'r) env \<Rightarrow> Privacy \<Rightarrow> int32 \<Rightarrow> ResUTXOGlobalIndex option \<Rightarrow> nat \<Rightarrow> txOutputInfo \<Rightarrow> 'r
   \<Rightarrow> (error + KeyInput \<times> UTXOBasic list \<times> RealKeyInput) \<times> 'r" where
  "buildInput_one env privacykeyParirs mix resUTXOGlobalIndex i utxo2pay rng =
     (case drop_last_above mix (decoys_for resUTXOGlobalIndex i utxo2pay) of
        Inl e \<Rightarrow> (Inl e, rng)
      | Inr decoys \<Rightarrow>
          let Utxos' = decoys @ [real_utxo utxo2pay]
          in case Perm env rng (length Utxos') of
            (positions, rng') \<Rightarrow>
              (case place 0 positions Utxos' (replicate (length Utxos') None) of
                 Inl e \<Rightarrow> (Inl e, rng')
               | Inr utxos \<Rightarrow>
                   (case RecoverOnetimePriKey env (txPublicKeyR utxo2pay)
                           (ViewPrivKey privacykeyParirs) (SpendPrivKey privacykeyParirs)
                           (Outindex (utxoGlobalIndex utxo2pay)) of
                      Inl e \<Rightarrow> (Inl e, rng')
                    | Inr onetimePriv \<Rightarrow>
                        if positions = [] then (Inl (Panic ''index out of range''), rng')
                        else
                          let realkeyInput = \<lparr>Realinputkey = wrap32 (int (last positions)),
                                              Onetimeprivkey = onetimePriv\<rparr>
                          in case GenerateKeyImage env onetimePriv (onetimePublicKey utxo2pay) of
                            Inl e \<Rightarrow> (Inl e, rng')
                          | Inr keyImage \<Rightarrow>
                              (case deref_all utxos of
                                 Inl e \<Rightarrow> (Inl e, rng')
                               | Inr ring \<Rightarrow>
                                   (Inr (\<lparr>Amount_ki = amount utxo2pay, KeyImage = keyImage,
                                          UtxoGlobalIndex_ki = map UtxoGlobalIndex ring\<rparr>,
                                         ring, realkeyInput), rng')))))"

text \<open>
  The loop over the selected outputs; the accumulators are \<open>privacyInput.Keyinput\<close>,
  \<open>utxosInKeyInput\<close> and \<open>realkeyInputSlice\<close>.
\<close>

fun buildInput_loop ::
  "('st, 'r) env \<Rightarrow> Privacy \<Rightarrow> int32 \<Rightarrow> ResUTXOGlobalIndex option \<Rightarrow> nat \<Rightarrow> txOutputInfo list
   \<Rightarrow> KeyInput list \<times> UTXOBasic list list \<times> RealKeyInput list \<Rightarrow> 'r
   \<Rightarrow> (error + KeyInput list \<times> UTXOBasic list list \<times> RealKeyInput list) \<times> 'r" where
  "buildInput_loop env keys mix res i [] acc rng = (Inr acc, rng)"
| "buildInput_loop env keys mix res i (utxo2pay # rest) acc rng =
     (case buildInput_one env keys mix res i utxo2pay rng of
        (Inl e, rng') \<Rightarrow> (Inl e, rng')
      | (Inr (keyInput, ring, realkeyInput), rng') \<Rightarrow>
          (case acc of (keyinputs, rings, realkeys) \<Rightarrow>
             buildInput_loop env keys mix res (Suc i) rest
               (keyinputs @ [keyInput], rings @ [ring], realkeys @ [realkeyInput]) rng'))"

text \<open>
  The query for decoys: none when \<open>mixcount \<le> 0\<close>; otherwise one \<open>BlockChainQuery\<close>
  for the amounts of the selected outputs, whose answer (when it is not \<open>nil\<close>) is
  sorted by amount.
\<close>

datatype mix_response = NoQuery | NilResponse | Response ResUTXOGlobalIndex

fun response_of :: "mix_response \<Rightarrow> ResUTXOGlobalIndex option" where
  "response_of NoQuery = None"
| "response_of NilResponse = None"
| "response_of (Response res) = Some res"

definition query_mix ::
  "('st, 'r) env \<Rightarrow> config \<Rightarrow> buildInputInfo \<Rightarrow> txOutputInfo list \<Rightarrow> error + mix_response" where
  "query_mix env cfg buildInfo selectedUtxo =
     (let reqGetGlobalIndex =
            \<lparr>Tokenname_rq = tokenname buildInfo,
             MixCount = (if mixcount buildInfo > 0
                         then min (PrivacyMaxCount cfg) (max (mixcount buildInfo) 0) else 0),
             Amount_rq = map amount selectedUtxo\<rparr>
      in if mixcount buildInfo > 0
         then case BlockChainQuery env reqGetGlobalIndex of
             Inl e \<Rightarrow> Inl e
           | Inr None \<Rightarrow> Inr NilResponse
           | Inr (Some res) \<Rightarrow>
               Inr (Response (res\<lparr>UtxoIndex4Amount :=
                      sort_UtxoIndex4Amount env (\<lambda>a b. Amount_ia a \<le> Amount_ia b)
                        (UtxoIndex4Amount res)\<rparr>))
         else Inr NoQuery)"

text \<open>
  \<open>buildInput\<close> returns \<open>privacyInput.Keyinput\<close>, \<open>utxosInKeyInput\<close>,
  \<open>realkeyInputSlice\<close> and \<open>selectedUtxo\<close>. When the chain answers the query with a
  \<open>nil\<close> response and no error, the source returns \<open>nil\<close> results with a \<open>nil\<close> error:
  that is \<open>Inr None\<close>.
\<close>

type_synonym buildInput_result =
  "KeyInput list \<times> UTXOBasic list list \<times> RealKeyInput list \<times> txOutputInfo list"

definition buildInput ::
  "('st, 'r) env \<Rightarrow> config \<Rightarrow> ('st, 'r) Wallet \<Rightarrow> Privacy \<Rightarrow> buildInputInfo
   \<Rightarrow> (error + buildInput_result option) \<times> 'r" where
  "buildInput env cfg wallet privacykeyParirs buildInfo =
     (case selectUTXO env cfg wallet (tokenname buildInfo) (sender buildInfo) (amount_bi buildInfo) of
        (Inl e, rng) \<Rightarrow> (Inl e, rng)
      | (Inr selected, rng) \<Rightarrow>
          let selectedUtxo = sort_selectedUtxo env (\<lambda>a b. amount a \<le> amount b) selected
          in case query_mix env cfg buildInfo selectedUtxo of
               Inl e \<Rightarrow> (Inl e, rng)
             | Inr NilResponse \<Rightarrow> (Inr None, rng)
             | Inr q \<Rightarrow>
                 (case buildInput_loop env privacykeyParirs (mixcount buildInfo) (response_of q)
                         0 selectedUtxo ([], [], []) rng of
                    (Inl e, rng') \<Rightarrow> (Inl e, rng')
                  | (Inr (keyinputs, rings, realkeys), rng') \<Rightarrow>
                      (Inr (Some (keyinputs, rings, realkeys, selectedUtxo)), rng')))"

section \<open>Outputs (\<open>generateOuts\<close>)\<close>

definition parseViewSpendPubKeyPair :: "('st, 'r) env \<Rightarrow> string \<Rightarrow> error + bytes \<times> bytes" where
  "parseViewSpendPubKeyPair env inp =
     (case FromHex env inp of
        Inl err \<Rightarrow> Inl err
      | Inr src \<Rightarrow> if 64 \<noteq> length src then Inl ErrPubKeyLen else Inr (take 32 src, drop 32 src))"

text \<open>
  The two loops of \<open>generateOuts\<close> over a list of denominations: one \<open>KeyOutput\<close> per
  denomination, its one-time address derived for the position \<open>index\<close> of the output.
\<close>

fun outs_loop :: "(int64 \<Rightarrow> error + bytes) \<Rightarrow> nat \<Rightarrow> int64 list \<Rightarrow> error + KeyOutput list" where
  "outs_loop oneTimeAddr index [] = Inr []"
| "outs_loop oneTimeAddr index (digit # rest) =
     (case oneTimeAddr (int index) of
        Inl err \<Rightarrow> Inl err
      | Inr pubkeyOnetime \<Rightarrow>
          (case outs_loop oneTimeAddr (Suc index) rest of
             Inl err \<Rightarrow> Inl err
           | Inr outs \<Rightarrow> Inr (\<lparr>Amount_ko = digit, Onetimepubkey = pubkeyOnetime\<rparr> # outs)))"

definition generateOuts ::
  "('st, 'r) env \<Rightarrow> config \<Rightarrow> bytes option \<Rightarrow> bytes option \<Rightarrow> bytes option \<Rightarrow> bytes option
   \<Rightarrow> int64 \<Rightarrow> int64 \<Rightarrow> int64 \<Rightarrow> 'r \<Rightarrow> (error + PrivacyOutput) \<times> 'r" where
  "generateOuts env cfg viewpubTo spendpubto viewpubChangeto spendpubChangeto
       transAmount selectedAmount fee rng =
     (let decomDigit = decomposeAmount2digits transAmount (BTYDustThreshold cfg);
          changeAmount = sub64 (sub64 selectedAmount transAmount) fee;
          decomChange = (if 0 < changeAmount
                         then decomposeAmount2digits changeAmount (BTYDustThreshold cfg) else [])
      in case GenerateKeyPair env rng of
        ((sk, pk), rng') \<Rightarrow>
          (case outs_loop (GenerateOneTimeAddr env viewpubTo spendpubto sk) 0 decomDigit of
             Inl err \<Rightarrow> (Inl err, rng')
           | Inr outs \<Rightarrow>
               (case outs_loop (GenerateOneTimeAddr env viewpubChangeto spendpubChangeto sk)
                       (length decomDigit) decomChange of
                  Inl err \<Rightarrow> (Inl err, rng')
                | Inr change \<Rightarrow> (Inr \<lparr>RpubKeytx = pk, Keyoutput = outs @ change\<rparr>, rng'))))"

section \<open>Ring signature (\<open>signatureTx\<close>)\<close>

fun ring_sign_loop ::
  "('st, 'r) env \<Rightarrow> bytes \<Rightarrow> KeyInput list \<Rightarrow> UTXOBasic list list \<Rightarrow> RealKeyInput list
   \<Rightarrow> error + bytes list" where
  "ring_sign_loop env h [] utxosInKeyInput realkeyInputSlice = Inr []"
| "ring_sign_loop env h (input # rest) [] realkeyInputSlice = Inl (Panic ''index out of range'')"
| "ring_sign_loop env h (input # rest) (utxos # rings) [] = Inl (Panic ''index out of range'')"
| "ring_sign_loop env h (input # rest) (utxos # rings) (realkey # realkeys) =
     (case GenerateRingSignature env h utxos (Onetimeprivkey realkey) (Realinputkey realkey)
             (KeyImage input) of
        Inl err \<Rightarrow> Inl err
      | Inr item \<Rightarrow>
          (case ring_sign_loop env h rest rings realkeys of
             Inl err \<Rightarrow> Inl err
           | Inr items \<Rightarrow> Inr (item # items)))"

definition signatureTx ::
  "('st, 'r) env \<Rightarrow> Transaction \<Rightarrow> KeyInput list \<Rightarrow> UTXOBasic list list \<Rightarrow> RealKeyInput list
   \<Rightarrow> error + Transaction" where
  "signatureTx env tx keyinput utxosInKeyInput realkeyInputSlice =
     (let tx0 = tx\<lparr>Signature_tx := None\<rparr>
      in case ring_sign_loop env (EncodeToHash env tx0) keyinput utxosInKeyInput realkeyInputSlice of
        Inl err \<Rightarrow> Inl err
      | Inr items \<Rightarrow> Inr (tx0\<lparr>Signature_tx := Some (RingSignature items)\<rparr>))"

section \<open>Requests\<close>

record ReqPub2Pri =
  Sender_ps :: string
  Pubkeypair_ps :: string
  Amount_ps :: int64
  Note_ps :: string
  Tokenname_ps :: string
  Expire_ps :: int64

record ReqPri2Pri =
  Sender_ss :: string
  Pubkeypair_ss :: string
  Amount_ss :: int64
  Mixin_ss :: int32
  Note_ss :: string
  Tokenname_ss :: string
  Expire_ss :: int64

record ReqPri2Pub =
  Sender_sp :: string
  Receiver_sp :: string
  Amount_sp :: int64
  Note_sp :: string
  Tokenname_sp :: string
  Mixin_sp :: int32
  Expire_sp :: int64

record ReqCreateTransaction =
  Tokenname_ct :: string
  Type_ct :: int32
  Amount_ct :: int64
  Note_ct :: string
  From_ct :: string
  To_ct :: string
  Pubkeypair_ct :: string
  Mixcount_ct :: int32

section \<open>Direct builds\<close>

definition saveFTXOInfo ::
  "('st, 'r) env \<Rightarrow> Transaction \<Rightarrow> string \<Rightarrow> string \<Rightarrow> string \<Rightarrow> txOutputInfo list
   \<Rightarrow> ('st, 'r) Wallet \<Rightarrow> ('st, 'r) Wallet" where
  "saveFTXOInfo env tx token sender' txhash selectedUtxos wallet =
     wallet\<lparr>walletStore := moveUTXO2FTXO env tx token sender' txhash selectedUtxos (walletStore wallet)\<rparr>"

definition transPub2PriV2 ::
  "('st, 'r) env \<Rightarrow> config \<Rightarrow> ('st, 'r) Wallet \<Rightarrow> bytes \<Rightarrow> ReqPub2Pri
   \<Rightarrow> (error + bytes) \<times> ('st, 'r) Wallet" where
  "transPub2PriV2 env cfg wallet priv reqPub2Pri =
     (case parseViewSpendPubKeyPair env (Pubkeypair_ps reqPub2Pri) of
        Inl err \<Rightarrow> (Inl err, wallet)
      | Inr (viewPubSlice, spendPubSlice) \<Rightarrow>
          (case generateOuts env cfg (Some viewPubSlice) (Some spendPubSlice) None None
                  (Amount_ps reqPub2Pri) (Amount_ps reqPub2Pri) 0 (random wallet) of
             (Inl err, rng1) \<Rightarrow> (Inl err, wallet\<lparr>random := rng1\<rparr>)
           | (Inr privacyOutput, rng1) \<Rightarrow>
               (case Int63 env rng1 of
                  (nonce, rng2) \<Rightarrow>
                    let tx = \<lparr>Execer = ''privacy'',
                              Payload = Public2Privacy (Tokenname_ps reqPub2Pri)
                                (Amount_ps reqPub2Pri) (Note_ps reqPub2Pri) privacyOutput,
                              Signature_tx = None, Fee = 0,
                              Expire = getExpire env (Expire_ps reqPub2Pri),
                              Nonce = nonce, To = ExecAddress env (PrivacyX cfg)\<rparr>;
                        txSize = Size env tx + SignatureSize cfg;
                        realFee = mul64 ((txSize + 1023) div 2 ^ Size_1K_shiftlen cfg) (FeePerKB cfg);
                        tx1 = tx\<lparr>Fee := realFee\<rparr>;
                        tx2 = tx1\<lparr>Signature_tx := Some (PlainSignature (Sign env tx1 priv))\<rparr>;
                        wallet' = wallet\<lparr>random := rng2\<rparr>
                    in case SendTx env tx2 of
                         Some err \<Rightarrow> (Inl err, wallet')
                       | None \<Rightarrow> (Inr (Hash env tx2), wallet'))))"

text \<open>\<open>selectedAmounTotal\<close>: the sum of the amounts of the key inputs, in \<open>int64\<close>.\<close>

definition selectedAmounTotal :: "KeyInput list \<Rightarrow> int64" where
  "selectedAmounTotal keyinput = foldl add64 0 (map Amount_ki keyinput)"

definition transPri2PriV2 ::
  "('st, 'r) env \<Rightarrow> config \<Rightarrow> ('st, 'r) Wallet \<Rightarrow> Privacy \<Rightarrow> ReqPri2Pri
   \<Rightarrow> (error + bytes) \<times> ('st, 'r) Wallet" where
  "transPri2PriV2 env cfg wallet privacykeyParirs reqPri2Pri =
     (let buildInfo = \<lparr>tokenname = Tokenname_ss reqPri2Pri, sender = Sender_ss reqPri2Pri,
                        amount_bi = add64 (Amount_ss reqPri2Pri) (PrivacyTxFee cfg),
                        mixcount = Mixin_ss reqPri2Pri\<rparr>
      in case buildInput env cfg wallet privacykeyParirs buildInfo of
        (Inl err, rng1) \<Rightarrow> (Inl err, wallet\<lparr>random := rng1\<rparr>)
      | (Inr built, rng1) \<Rightarrow>
          (case parseViewSpendPubKeyPair env (Pubkeypair_ss reqPri2Pri) of
             Inl err \<Rightarrow> (Inl err, wallet\<lparr>random := rng1\<rparr>)
           | Inr (viewPublicSlice, spendPublicSlice) \<Rightarrow>
               (case built of
                  None \<Rightarrow> (Inl (Panic ''nil pointer dereference''), wallet\<lparr>random := rng1\<rparr>)
                | Some (keyinput, utxosInKeyInput, realkeyInputSlice, selectedUtxo) \<Rightarrow>
                    (case generateOuts env cfg (Some viewPublicSlice) (Some spendPublicSlice)
                            (Some (ViewPubkey privacykeyParirs)) (Some (SpendPubkey privacykeyParirs))
                            (Amount_ss reqPri2Pri) (selectedAmounTotal keyinput) (PrivacyTxFee cfg)
                            rng1 of
                       (Inl err, rng2) \<Rightarrow> (Inl err, wallet\<lparr>random := rng2\<rparr>)
                     | (Inr privacyOutput, rng2) \<Rightarrow>
                         (case Int63 env rng2 of
                            (nonce, rng3) \<Rightarrow>
                              let tx = \<lparr>Execer = PrivacyX cfg,
                                        Payload = Privacy2Privacy (Tokenname_ss reqPri2Pri)
                                          (Amount_ss reqPri2Pri) (Note_ss reqPri2Pri)
                                          keyinput privacyOutput,
                                        Signature_tx = None, Fee = PrivacyTxFee cfg,
                                        Expire = getExpire env (Expire_ss reqPri2Pri),
                                        Nonce = nonce, To = ExecAddress env (PrivacyX cfg)\<rparr>;
                                  wallet3 = wallet\<lparr>random := rng3\<rparr>
                              in case signatureTx env tx keyinput utxosInKeyInput realkeyInputSlice of
                                   Inl err \<Rightarrow> (Inl err, wallet3)
                                 | Inr tx' \<Rightarrow>
                                     (case SendTx env tx' of
                                        Some err \<Rightarrow> (Inl err, wallet3)
                                      | None \<Rightarrow>
                                          let hash = Hash env tx'
                                          in (Inr hash,
                                              saveFTXOInfo env tx' (Tokenname_ss reqPri2Pri)
                                                (Sender_ss reqPri2Pri) (Bytes2Hex env hash)
                                                selectedUtxo wallet3)))))))"

text \<open>
  The summing loop of the private-to-public builds: it fails with \<open>errors.New("")\<close> at
  the first input whose amount is not positive.
\<close>

fun sum_positive :: "KeyInput list \<Rightarrow> int64 \<Rightarrow> error + int64" where
  "sum_positive [] selectedTotal = Inr selectedTotal"
| "sum_positive (input # rest) selectedTotal =
     (if Amount_ki input \<le> 0 then Inl (ErrNew '''')
      else sum_positive rest (add64 selectedTotal (Amount_ki input)))"

definition transPri2PubV2 ::
  "('st, 'r) env \<Rightarrow> config \<Rightarrow> ('st, 'r) Wallet \<Rightarrow> Privacy \<Rightarrow> ReqPri2Pub
   \<Rightarrow> (error + bytes) \<times> ('st, 'r) Wallet" where
  "transPri2PubV2 env cfg wallet privacykeyParirs reqPri2Pub =
     (let buildInfo = \<lparr>tokenname = Tokenname_sp reqPri2Pub, sender = Sender_sp reqPri2Pub,
                        amount_bi = add64 (Amount_sp reqPri2Pub) (PrivacyTxFee cfg),
                        mixcount = Mixin_sp reqPri2Pub\<rparr>
      in case buildInput env cfg wallet privacykeyParirs buildInfo of
        (Inl err, rng1) \<Rightarrow> (Inl err, wallet\<lparr>random := rng1\<rparr>)
      | (Inr None, rng1) \<Rightarrow> (Inl (Panic ''nil pointer dereference''), wallet\<lparr>random := rng1\<rparr>)
      | (Inr (Some (keyinput, utxosInKeyInput, realkeyInputSlice, selectedUtxo)), rng1) \<Rightarrow>
          (case sum_positive keyinput 0 of
             Inl err \<Rightarrow> (Inl err, wallet\<lparr>random := rng1\<rparr>)
           | Inr selectedTotal \<Rightarrow>
               let changeAmount = sub64 selectedTotal (Amount_sp reqPri2Pub)
               in case generateOuts env cfg None None
                         (Some (ViewPubkey privacykeyParirs)) (Some (SpendPubkey privacykeyParirs))
                         0 changeAmount (PrivacyTxFee cfg) rng1 of
                    (Inl err, rng2) \<Rightarrow> (Inl err, wallet\<lparr>random := rng2\<rparr>)
                  | (Inr privacyOutput, rng2) \<Rightarrow>
                      (case Int63 env rng2 of
                         (nonce, rng3) \<Rightarrow>
                           let tx = \<lparr>Execer = PrivacyX cfg,
                                     Payload = Privacy2Public (Tokenname_sp reqPri2Pub)
                                       (Amount_sp reqPri2Pub) (Note_sp reqPri2Pub)
                                       keyinput privacyOutput,
                                     Signature_tx = None, Fee = PrivacyTxFee cfg,
                                     Expire = getExpire env (Expire_sp reqPri2Pub),
                                     Nonce = nonce, To = Receiver_sp reqPri2Pub\<rparr>;
                               wallet3 = wallet\<lparr>random := rng3\<rparr>
                           in case signatureTx env tx keyinput utxosInKeyInput realkeyInputSlice of
                                Inl err \<Rightarrow> (Inl err, wallet3)
                              | Inr tx' \<Rightarrow>
                                  (case SendTx env tx' of
                                     Some err \<Rightarrow> (Inl err, wallet3)
                                   | None \<Rightarrow>
                                       let hash = Hash env tx'
                                       in (Inr hash,
                                           saveFTXOInfo env tx' (Tokenname_sp reqPri2Pub)
                                             (Sender_sp reqPri2Pub) (Bytes2Hex env hash)
                                             selectedUtxo wallet3)))))"

section \<open>Deferred builds\<close>

text \<open>
  The deferred builds return the transaction for a later signature; its \<open>Signature\<close>
  holds the encoded \<open>PrivacySignatureParam\<close>, which for a public-to-privacy
  transaction has neither rings nor real keys.
\<close>

definition createPublic2PrivacyTx ::
  "('st, 'r) env \<Rightarrow> config \<Rightarrow> ('st, 'r) Wallet \<Rightarrow> ReqCreateTransaction
   \<Rightarrow> (error + Transaction) \<times> ('st, 'r) Wallet" where
  "createPublic2PrivacyTx env cfg wallet req =
     (case parseViewSpendPubKeyPair env (Pubkeypair_ct req) of
        Inl err \<Rightarrow> (Inl err, wallet)
      | Inr (viewPubSlice, spendPubSlice) \<Rightarrow>
          let amount' = Amount_ct req
          in case generateOuts env cfg (Some viewPubSlice) (Some spendPubSlice) None None
                    amount' amount' 0 (random wallet) of
               (Inl err, rng1) \<Rightarrow> (Inl err, wallet\<lparr>random := rng1\<rparr>)
             | (Inr privacyOutput, rng1) \<Rightarrow>
                 (case Int63 env rng1 of
                    (nonce, rng2) \<Rightarrow>
                      let tx = \<lparr>Execer = ExecerPrivacy cfg,
                                Payload = Public2Privacy (Tokenname_ct req) amount' (Note_ct req)
                                            privacyOutput,
                                Signature_tx = Some (PrivacySignatureParam [] []), Fee = 0,
                                Expire = 0, Nonce = nonce,
                                To = ExecAddress env (PrivacyX cfg)\<rparr>;
                          txSize = Size env tx + SignatureSize cfg;
                          realFee = mul64 ((txSize + 1023) div 2 ^ Size_1K_shiftlen cfg)
                                      (FeePerKB cfg)
                      in (Inr (tx\<lparr>Fee := realFee\<rparr>), wallet\<lparr>random := rng2\<rparr>)))"

definition createPrivacy2PrivacyTx ::
  "('st, 'r) env \<Rightarrow> config \<Rightarrow> ('st, 'r) Wallet \<Rightarrow> ReqCreateTransaction
   \<Rightarrow> (error + Transaction) \<times> ('st, 'r) Wallet" where
  "createPrivacy2PrivacyTx env cfg wallet req =
     (let buildInfo = \<lparr>tokenname = Tokenname_ct req, sender = From_ct req,
                        amount_bi = add64 (Amount_ct req) (PrivacyTxFee cfg),
                        mixcount = Mixcount_ct req\<rparr>
      in case getPrivacykeyPair env (walletStore wallet) (From_ct req) of
        Inl err \<Rightarrow> (Inl err, wallet)
      | Inr privacyInfo \<Rightarrow>
          (case buildInput env cfg wallet privacyInfo buildInfo of
             (Inl err, rng1) \<Rightarrow> (Inl err, wallet\<lparr>random := rng1\<rparr>)
           | (Inr built, rng1) \<Rightarrow>
               (case parseViewSpendPubKeyPair env (Pubkeypair_ct req) of
                  Inl err \<Rightarrow> (Inl err, wallet\<lparr>random := rng1\<rparr>)
                | Inr (viewPublicSlice, spendPublicSlice) \<Rightarrow>
                    (case built of
                       None \<Rightarrow> (Inl (Panic ''nil pointer dereference''), wallet\<lparr>random := rng1\<rparr>)
                     | Some (keyinput, utxosInKeyInput, realkeyInputSlice, selectedUtxo) \<Rightarrow>
                         (case generateOuts env cfg (Some viewPublicSlice) (Some spendPublicSlice)
                                 (Some (ViewPubkey privacyInfo)) (Some (SpendPubkey privacyInfo))
                                 (Amount_ct req) (selectedAmounTotal keyinput) (PrivacyTxFee cfg)
                                 rng1 of
                            (Inl err, rng2) \<Rightarrow> (Inl err, wallet\<lparr>random := rng2\<rparr>)
                          | (Inr privacyOutput, rng2) \<Rightarrow>
                              (case Int63 env rng2 of
                                 (nonce, rng3) \<Rightarrow>
                                   let tx = \<lparr>Execer = ExecerPrivacy cfg,
                                             Payload = Privacy2Privacy (Tokenname_ct req)
                                               (Amount_ct req) (Note_ct req) keyinput privacyOutput,
                                             Signature_tx = None, Fee = PrivacyTxFee cfg,
                                             Expire = 0, Nonce = nonce,
                                             To = ExecAddress env (PrivacyX cfg)\<rparr>;
                                       wallet' = saveFTXOInfo env tx (Tokenname_ct req) (From_ct req)
                                                   (Bytes2Hex env (Hash env tx)) selectedUtxo
                                                   (wallet\<lparr>random := rng3\<rparr>)
                                   in (Inr (tx\<lparr>Signature_tx :=
                                              Some (PrivacySignatureParam utxosInKeyInput
                                                      realkeyInputSlice)\<rparr>),
                                       wallet')))))))"

definition createPrivacy2PublicTx ::
  "('st, 'r) env \<Rightarrow> config \<Rightarrow> ('st, 'r) Wallet \<Rightarrow> ReqCreateTransaction
   \<Rightarrow> (error + Transaction) \<times> ('st, 'r) Wallet" where
  "createPrivacy2PublicTx env cfg wallet req =
     (let buildInfo = \<lparr>tokenname = Tokenname_ct req, sender = From_ct req,
                        amount_bi = add64 (Amount_ct req) (PrivacyTxFee cfg),
                        mixcount = Mixcount_ct req\<rparr>
      in case getPrivacykeyPair env (walletStore wallet) (From_ct req) of
        Inl err \<Rightarrow> (Inl err, wallet)
      | Inr privacyInfo \<Rightarrow>
          (case buildInput env cfg wallet privacyInfo buildInfo of
             (Inl err, rng1) \<Rightarrow> (Inl err, wallet\<lparr>random := rng1\<rparr>)
           | (Inr None, rng1) \<Rightarrow>
               (Inl (Panic ''nil pointer dereference''), wallet\<lparr>random := rng1\<rparr>)
           | (Inr (Some (keyinput, utxosInKeyInput, realkeyInputSlice, selectedUtxo)), rng1) \<Rightarrow>
               (case sum_positive keyinput 0 of
                  Inl err \<Rightarrow> (Inl err, wallet\<lparr>random := rng1\<rparr>)
                | Inr selectedTotal \<Rightarrow>
                    let changeAmount = sub64 selectedTotal (Amount_ct req)
                    in case generateOuts env cfg None None
                              (Some (ViewPubkey privacyInfo)) (Some (SpendPubkey privacyInfo))
                              0 changeAmount (PrivacyTxFee cfg) rng1 of
                         (Inl err, rng2) \<Rightarrow> (Inl err, wallet\<lparr>random := rng2\<rparr>)
                       | (Inr privacyOutput, rng2) \<Rightarrow>
                           (case Int63 env rng2 of
                              (nonce, rng3) \<Rightarrow>
                                let tx = \<lparr>Execer = PrivacyX cfg,
                                          Payload = Privacy2Public (Tokenname_ct req)
                                            (Amount_ct req) (Note_ct req) keyinput privacyOutput,
                                          Signature_tx = None, Fee = PrivacyTxFee cfg,
                                          Expire = 0, Nonce = nonce, To = To_ct req\<rparr>;
                                    wallet' = saveFTXOInfo env tx (Tokenname_ct req) (From_ct req)
                                                (Bytes2Hex env (Hash env tx)) selectedUtxo
                                                (wallet\<lparr>random := rng3\<rparr>)
                                in (Inr (tx\<lparr>Signature_tx :=
                                           Some (PrivacySignatureParam utxosInKeyInput
                                                   realkeyInputSlice)\<rparr>),
                                    wallet')))))"

section \<open>Flushing the observed-spend buffer (\<open>DeleteScanPrivacyInputUtxo\<close>)\<close>




section \<open>A concrete wallet for the examples\<close>

text \<open>
  A small store (available outputs, frozen outputs with their transaction by transaction
  hash, the buffer of observed inputs, the records of known outputs, the batches written),
  a counter as random source, and collaborators that always succeed, except that the
  answer of the chain to \<open>SendTx\<close> is a parameter.
\<close>

record demo_store =
  available :: "walletUTXO list"
  frozen :: "(string \<times> Transaction \<times> txOutputInfo list) list"
  scanned :: "UTXOGlobalIndex list"
  known :: "((string \<times> int) \<times> PrivacyDBStore) list"
  written :: "batch_op list list"

definition demo_hex :: "bytes \<Rightarrow> string" where
  "demo_hex b = (if b = [1] then ''01'' else if b = [2] then ''02'' else if b = [3] then ''03''
                 else ''00'')"

definition demo_decoy :: "8 word \<Rightarrow> UTXOBasic" where
  "demo_decoy k = \<lparr>UtxoGlobalIndex = \<lparr>Txhash = [k], Outindex = 0\<rparr>, OnetimePubkey = [k]\<rparr>"

definition demo_env_send :: "(Transaction \<Rightarrow> error option) \<Rightarrow> (demo_store, nat) env" where
  "demo_env_send send =
     \<lparr>Perm = (\<lambda>r n. (map (\<lambda>k. (k + 2) mod n) [0..<n], Suc r)),
      Intn = (\<lambda>r n. (0, Suc r)),
      Int63 = (\<lambda>r. (int r, Suc r)),
      GenerateKeyPair = (\<lambda>r. (([31], [32]), Suc r)),
      GenerateOneTimeAddr = (\<lambda>v s sk i. Inr [40]),
      RecoverOnetimePriKey = (\<lambda>R a b i. Inr [41]),
      GenerateKeyImage = (\<lambda>x P. Inr [42]),
      GenerateRingSignature = (\<lambda>h ring x i img. Inr [43]),
      sort_selectedUtxo = (\<lambda>less xs. xs),
      sort_UtxoIndex4Amount = (\<lambda>less xs. xs),
      sort_unconfirmUTXOs = (\<lambda>less xs. xs),
      FromHex = (\<lambda>s. Inr (replicate 32 1 @ replicate 32 2)),
      Bytes2Hex = demo_hex,
      ExecAddress = (\<lambda>s. s),
      getExpire = (\<lambda>e. e),
      Size = (\<lambda>tx. 300),
      Sign = (\<lambda>tx k. [44]),
      Hash = (\<lambda>tx. [1]),
      EncodeToHash = (\<lambda>tx. [45]),
      SendTx = send,
      BlockChainQuery = (\<lambda>req. Inr (Some \<lparr>UtxoIndex4Amount =
         map (\<lambda>a. \<lparr>Amount_ia = a, Utxos = map demo_decoy [21, 22, 11, 24]\<rparr>) (Amount_rq req)\<rparr>)),
      getPrivacykeyPair = (\<lambda>st addr. Inr \<lparr>ViewPubkey = [51], ViewPrivKey = [52],
                                             SpendPubkey = [53], SpendPrivKey = [54]\<rparr>),
      getPrivacyTokenUTXOs = (\<lambda>st token addr. Inr (available st)),
      moveUTXO2FTXO = (\<lambda>tx token sender' txhash selected st.
         st\<lparr>available := filter (\<lambda>w. outinfo w \<notin> set selected) (available st),
            frozen := (txhash, tx, selected) # frozen st\<rparr>),
      GetScanPrivacyInputUTXO = (\<lambda>st n. scanned st),
      IsUTXOExist = (\<lambda>st txhash outindex. Inr (map_of (known st) (txhash, outindex))),
      calcScanPrivacyInputUTXOKey = (\<lambda>txhash outindex. txhash),
      Write = (\<lambda>batch st. st\<lparr>scanned := [], written := written st @ [batch]\<rparr>)\<rparr>"

text \<open>The chain accepts every transaction.\<close>

definition demo_env :: "(demo_store, nat) env" where
  "demo_env = demo_env_send (\<lambda>tx. None)"

text \<open>The chain rejects every transaction.\<close>

definition demo_env_reject :: "(demo_store, nat) env" where
  "demo_env_reject = demo_env_send (\<lambda>tx. Some (ErrCollaborator ''rejected''))"

definition demo_cfg :: config where
  "demo_cfg = \<lparr>BTYDustThreshold = 1000000, PrivacyTxFee = 1000000, PrivacyMaxCount = 16,
               PrivacyMaturityDegree = 12, SignatureSize = 102, Size_1K_shiftlen = 10,
               FeePerKB = 100000, PrivacyX = ''privacy'', ExecerPrivacy = ''privacy''\<rparr>"

definition demo_out :: txOutputInfo where
  "demo_out = \<lparr>amount = 300000000, utxoGlobalIndex = \<lparr>Txhash = [2], Outindex = 0\<rparr>,
               txPublicKeyR = [9], onetimePublicKey = [11]\<rparr>"

definition demo_wallet :: "(demo_store, nat) Wallet" where
  "demo_wallet =
     \<lparr>walletStore = \<lparr>available = [\<lparr>height = 10, outinfo = demo_out\<rparr>], frozen = [],
                      scanned = [], known = [], written = []\<rparr>,
      random = 0, GetHeight = 100\<rparr>"

definition demo_keys :: Privacy where
  "demo_keys = \<lparr>ViewPubkey = [51], ViewPrivKey = [52], SpendPubkey = [53], SpendPrivKey = [54]\<rparr>"

definition demo_info :: buildInputInfo where
  "demo_info = \<lparr>tokenname = ''BTY'', sender = ''alice'', amount_bi = 101000000, mixcount = 5\<rparr>"

definition demo_req_ss :: ReqPri2Pri where
  "demo_req_ss = \<lparr>Sender_ss = ''alice'', Pubkeypair_ss = ''ab'', Amount_ss = 100000000,
                  Mixin_ss = 5, Note_ss = ''n'', Tokenname_ss = ''BTY'', Expire_ss = 0\<rparr>"

definition demo_req_sp :: ReqPri2Pub where
  "demo_req_sp = \<lparr>Sender_sp = ''alice'', Receiver_sp = ''bob'', Amount_sp = 100000000,
                  Note_sp = ''n'', Tokenname_sp = ''BTY'', Mixin_sp = 5, Expire_sp = 0\<rparr>"

definition demo_req_ps :: ReqPub2Pri where
  "demo_req_ps = \<lparr>Sender_ps = ''carol'', Pubkeypair_ps = ''ab'', Amount_ps = 300000000,
                  Note_ps = ''n'', Tokenname_ps = ''BTY'', Expire_ps = 0\<rparr>"

definition demo_req_ct :: ReqCreateTransaction where
  "demo_req_ct = \<lparr>Tokenname_ct = ''BTY'', Type_ct = 2, Amount_ct = 100000000, Note_ct = ''n'',
                  From_ct = ''alice'', To_ct = ''bob'', Pubkeypair_ct = ''ab'', Mixcount_ct = 5\<rparr>"

text \<open>The key input, the outputs and the transactions that the example builds produce.\<close>

definition demo_keyinput :: KeyInput where
  "demo_keyinput =
     \<lparr>Amount_ki = 300000000, KeyImage = [42],
      UtxoGlobalIndex_ki = [\<lparr>Txhash = [24], Outindex = 0\<rparr>, \<lparr>Txhash = [2], Outindex = 0\<rparr>,
                            \<lparr>Txhash = [21], Outindex = 0\<rparr>, \<lparr>Txhash = [22], Outindex = 0\<rparr>]\<rparr>"

definition demo_ring :: "UTXOBasic list" where
  "demo_ring = [demo_decoy 24, real_utxo demo_out, demo_decoy 21, demo_decoy 22]"

definition demo_realkey :: RealKeyInput where
  "demo_realkey = \<lparr>Realinputkey = 1, Onetimeprivkey = [41]\<rparr>"

definition demo_outputs :: "int64 list \<Rightarrow> PrivacyOutput" where
  "demo_outputs amounts =
     \<lparr>RpubKeytx = [32],
      Keyoutput = map (\<lambda>a. \<lparr>Amount_ko = a, Onetimepubkey = [40]\<rparr>) amounts\<rparr>"

definition demo_change :: "int64 list" where
  "demo_change = [5000000, 2000000, 2000000, 50000000, 20000000, 20000000, 100000000]"

definition demo_tx_ss :: Transaction where
  "demo_tx_ss =
     \<lparr>Execer = ''privacy'',
      Payload = Privacy2Privacy ''BTY'' 100000000 ''n'' [demo_keyinput]
                  (demo_outputs (100000000 # demo_change)),
      Signature_tx = None, Fee = 1000000, Expire = 0, Nonce = 3, To = ''privacy''\<rparr>"

definition demo_tx_sp :: Transaction where
  "demo_tx_sp =
     \<lparr>Execer = ''privacy'',
      Payload = Privacy2Public ''BTY'' 100000000 ''n'' [demo_keyinput] (demo_outputs demo_change),
      Signature_tx = None, Fee = 1000000, Expire = 0, Nonce = 3, To = ''bob''\<rparr>"

text \<open>The wallet after the outputs of \<open>demo_wallet\<close> were frozen for the transaction \<open>tx\<close>.\<close>

definition demo_frozen :: "Transaction \<Rightarrow> (demo_store, nat) Wallet" where
  "demo_frozen tx =
     \<lparr>walletStore = \<lparr>available = [], frozen = [(''01'', tx, [demo_out])],
                      scanned = [], known = [], written = []\<rparr>,
      random = 4, GetHeight = 100\<rparr>"

section \<open>The flush of the observed-spend buffer, in closed form\<close>






section \<open>More of the concrete wallet\<close>

text \<open>
  The transaction that a public-to-privacy build of the example sends, for an amount and
  the amounts of its outputs; a chain that accepts one transaction only; and a store
  with three observed inputs, of which the first is an output of alice and the third an
  output of bob.
\<close>

definition demo_tx_ps :: "int64 \<Rightarrow> int64 list \<Rightarrow> Transaction" where
  "demo_tx_ps a amounts =
     \<lparr>Execer = ''privacy'',
      Payload = Public2Privacy ''BTY'' a ''n'' (demo_outputs amounts),
      Signature_tx = Some (PlainSignature [44]), Fee = 100000, Expire = 0, Nonce = 1,
      To = ''privacy''\<rparr>"

definition demo_env_accept :: "Transaction \<Rightarrow> (demo_store, nat) env" where
  "demo_env_accept expected =
     demo_env_send (\<lambda>tx. if tx = expected then None else Some (ErrCollaborator ''unexpected''))"



section \<open>Facts on the decomposer\<close>

lemma wrap64_id: "in_int64 x \<Longrightarrow> wrap64 x = x"
proof -
  assume "in_int64 x"
  then have "0 \<le> x + 2 ^ 63" "x + 2 ^ 63 < (2 ^ 64 :: int)"
    by (simp_all add: in_int64_def)
  then have "(x + 2 ^ 63) mod 2 ^ 64 = x + 2 ^ 63"
    by (rule mod_pos_pos_trivial)
  then show ?thesis by (simp add: wrap64_def)
qed

lemma in_int64_I: "0 \<le> x \<Longrightarrow> x \<le> 10 ^ 18 \<Longrightarrow> in_int64 x"
  by (simp add: in_int64_def)

lemma decomAmount2Nature_digit:
  assumes d: "1 \<le> d" "d \<le> 9" and k: "k < 18"
  shows "decomAmount2Nature (d * 10 ^ k) (10 ^ k) =
     (if d = 3 then [10 ^ k, 2 * 10 ^ k]
      else if d = 4 then [2 * 10 ^ k, 2 * 10 ^ k]
      else if d = 6 then [5 * 10 ^ k, 10 ^ k]
      else if d = 7 then [5 * 10 ^ k, 2 * 10 ^ k]
      else if d = 8 then [5 * 10 ^ k, 2 * 10 ^ k, 10 ^ k]
      else if d = 9 then [5 * 10 ^ k, 2 * 10 ^ k, 2 * 10 ^ k]
      else [d * 10 ^ k])"
proof -
  have p: "(10::int) ^ k \<le> 10 ^ 17" using k by (intro power_increasing) auto
  have pos: "(0::int) < 10 ^ k" by simp
  have q: "quo64 (d * 10 ^ k) (10 ^ k) = d"
  proof -
    have "in_int64 d" using d by (simp add: in_int64_def)
    then show ?thesis using d pos by (simp add: quo64_def wrap64_id abs_mult)
  qed
  have m: "mul64 c (10 ^ k) = c * 10 ^ k" if "0 \<le> c" "c \<le> 9" for c
  proof -
    have "c * 10 ^ k \<le> 9 * 10 ^ 17" using that p by (intro mult_mono) auto
    moreover have "0 \<le> c * 10 ^ k" using that by simp
    ultimately have "in_int64 (c * 10 ^ k)" by (simp add: in_int64_def)
    then show ?thesis by (simp add: mul64_def wrap64_id)
  qed
  show ?thesis using d
    by (simp add: decomAmount2Nature_def q m Let_def)
qed

lemma decomAmount2Nature_sum:
  assumes "1 \<le> d" "d \<le> 9" "k < 18"
  shows "sum_list (decomAmount2Nature (d * 10 ^ k) (10 ^ k)) = d * 10 ^ k"
  using assms by (simp add: decomAmount2Nature_digit)

lemma decomAmount2Nature_good:
  assumes "1 \<le> d" "d \<le> 9" "k < 18" "x \<in> set (decomAmount2Nature (d * 10 ^ k) (10 ^ k))"
  shows "good_denom t x"
proof -
  have d: "d \<in> {1, 2, 3, 4, 5, 6, 7, 8, 9}" using assms(1,2) by auto
  have "0 < x \<and> denom125 x"
    using assms(4) d unfolding decomAmount2Nature_digit [OF assms(1-3)] denom125_def
    by (auto split: if_splits)
  then show ?thesis by (simp add: good_denom_def)
qed

text \<open>One iteration of the loop while no operation overflows.\<close>

lemma decompose_loop_step:
  assumes k: "k < 18" and a: "0 < amt" "amt < 10 ^ (18 - k)"
      and dust: "0 \<le> dust" "dust < 10 ^ k"
  shows "decompose_loop t amt h dust (10 ^ k) res =
     (let chunk = (amt mod 10) * 10 ^ k in
      if dust + chunk < t
      then decompose_loop t (amt div 10) h (dust + chunk) (10 ^ Suc k) res
      else decompose_loop t (amt div 10) (h \<or> dust \<noteq> 0) dust (10 ^ Suc k)
             ((if \<not> h \<and> dust \<noteq> 0 then res @ [dust] else res) @
              (if chunk \<noteq> 0 then decomAmount2Nature chunk (10 ^ k) else [])))"
proof -
  have p: "(10::int) ^ k \<le> 10 ^ 17" using k by (intro power_increasing) auto
  have pS: "(10::int) ^ Suc k \<le> 10 ^ 18" using k by (intro power_increasing) auto
  have r: "rem64 amt 10 = amt mod 10" using a by (simp add: rem64_def)
  have alt: "amt < 10 ^ 18"
  proof -
    have "(10::int) ^ (18 - k) \<le> 10 ^ 18" by (intro power_increasing) auto
    with a show ?thesis by linarith
  qed
  have q: "quo64 amt 10 = amt div 10"
  proof -
    have "0 \<le> amt div 10" "amt div 10 \<le> 10 ^ 18" using a alt by auto
    then have "in_int64 (amt div 10)" by (rule in_int64_I)
    then show ?thesis using a by (simp add: quo64_def wrap64_id)
  qed
  have m0: "0 \<le> amt mod 10" "amt mod 10 \<le> 9" by auto
  have cb: "(amt mod 10) * 10 ^ k \<le> 9 * 10 ^ k" using m0 by (intro mult_right_mono) auto
  have cb17: "(amt mod 10) * 10 ^ k \<le> 9 * 10 ^ 17" using cb p by linarith
  have c: "mul64 (amt mod 10) (10 ^ k) = (amt mod 10) * 10 ^ k"
  proof -
    have "0 \<le> (amt mod 10) * 10 ^ k" using m0 by simp
    moreover have "(amt mod 10) * 10 ^ k \<le> 10 ^ 18" using cb17 by simp
    ultimately have "in_int64 ((amt mod 10) * 10 ^ k)" by (rule in_int64_I)
    then show ?thesis by (simp add: mul64_def wrap64_id)
  qed
  have o: "mul64 (10 ^ k) 10 = 10 ^ Suc k"
  proof -
    have "in_int64 (10 ^ Suc k)" using pS by (intro in_int64_I) auto
    then show ?thesis by (simp add: mul64_def wrap64_id mult.commute)
  qed
  have o': "quo64 (10 ^ Suc k) 10 = 10 ^ k"
  proof -
    have "in_int64 (10 ^ k)" using p by (intro in_int64_I) auto
    then show ?thesis by (simp add: quo64_def wrap64_id)
  qed
  have s: "add64 dust ((amt mod 10) * 10 ^ k) = dust + (amt mod 10) * 10 ^ k"
  proof -
    have "dust + (amt mod 10) * 10 ^ k \<le> 10 * 10 ^ k" using dust cb by linarith
    also have "\<dots> \<le> 10 * 10 ^ 17" using p by linarith
    finally have "dust + (amt mod 10) * 10 ^ k \<le> 10 ^ 18" by simp
    moreover have "0 \<le> dust + (amt mod 10) * 10 ^ k" using dust m0 by simp
    ultimately have "in_int64 (dust + (amt mod 10) * 10 ^ k)" by (intro in_int64_I)
    then show ?thesis by (simp add: add64_def wrap64_id)
  qed
  have nz: "amt \<noteq> 0" using a by simp
  show ?thesis
    apply (subst decompose_loop.simps)
    apply (simp only: nz r q c o o' s Let_def if_False)
    apply (auto)
    done
qed

subsection \<open>The decomposer below \<open>10^18\<close>\<close>

lemma decompose_loop_zero:
  "decompose_loop t 0 h dust order res = (h, dust, res)"
  by (subst decompose_loop.simps) simp

lemma amount_bound_k: "0 < amt \<Longrightarrow> amt < 10 ^ (18 - k) \<Longrightarrow> k < 18" for amt :: int
  by (cases "k < 18") auto

lemma div10_bound:
  fixes amt :: int
  assumes "k < 18" "0 < amt" "amt < 10 ^ (18 - k)"
  shows "amt div 10 < 10 ^ (18 - Suc k)"
proof -
  have "(10::int) ^ (18 - k) = 10 * 10 ^ (18 - Suc k)"
    using assms(1) by (simp add: Suc_diff_Suc flip: power_Suc)
  moreover have "10 * (amt div 10) \<le> amt"
    using mult_div_mod_eq [of 10 amt] pos_mod_sign [of 10 amt] by linarith
  ultimately show ?thesis using assms(3) by linarith
qed

lemma split_amount: "amt * 10 ^ k = (amt mod 10) * 10 ^ k + (amt div 10) * 10 ^ Suc k"
  for amt :: int
proof -
  have g: "m * p + q * (10 * p) = (m + 10 * q) * p" for m q p :: int
    by (simp add: algebra_simps)
  have "(amt mod 10) * 10 ^ k + (amt div 10) * 10 ^ Suc k =
        (amt mod 10 + 10 * (amt div 10)) * 10 ^ k"
    unfolding power_Suc by (rule g)
  also have "\<dots> = amt * 10 ^ k" by (simp only: mod_mult_div_eq)
  finally show ?thesis by (rule sym)
qed

lemma decompose_loop_sum:
  assumes "0 \<le> amt" "amt < 10 ^ (18 - k)" "0 \<le> dust" "dust < 10 ^ k"
      and "h \<longrightarrow> t \<le> dust + 10 ^ k"
      and "decompose_loop t amt h dust (10 ^ k) res = (h', dust', res')"
  shows "sum_list res' + (if h' then 0 else dust') =
         sum_list res + (if h then 0 else dust) + amt * 10 ^ k"
  using assms
proof (induction "nat amt" arbitrary: amt k h dust res rule: less_induct)
  case less
  show ?case
  proof (cases "amt = 0")
    case True
    with less.prems(6) show ?thesis by (simp add: decompose_loop_zero)
  next
    case False
    then have pos: "0 < amt" using less.prems(1) by simp
    have k: "k < 18" using pos less.prems(2) by (rule amount_bound_k)
    define chunk where "chunk = (amt mod 10) * 10 ^ k"
    have chunk0: "0 \<le> chunk" by (simp add: chunk_def)
    have pk: "(0::int) < 10 ^ k" by simp
    have ps: "(10::int) ^ Suc k = 10 * 10 ^ k" by simp
    have chunk9: "chunk \<le> 9 * 10 ^ k"
      unfolding chunk_def by (intro mult_right_mono) auto
    have step: "decompose_loop t amt h dust (10 ^ k) res =
      (if dust + chunk < t
       then decompose_loop t (amt div 10) h (dust + chunk) (10 ^ Suc k) res
       else decompose_loop t (amt div 10) (h \<or> dust \<noteq> 0) dust (10 ^ Suc k)
             ((if \<not> h \<and> dust \<noteq> 0 then res @ [dust] else res) @
              (if chunk \<noteq> 0 then decomAmount2Nature chunk (10 ^ k) else [])))"
      using decompose_loop_step [OF k pos less.prems(2) less.prems(3) less.prems(4)]
      by (simp add: chunk_def Let_def)
    have smaller: "nat (amt div 10) < nat amt" using pos by simp
    have d0: "0 \<le> amt div 10" using pos by simp
    have dk: "amt div 10 < 10 ^ (18 - Suc k)" using k pos less.prems(2) by (rule div10_bound)
    have split: "amt * 10 ^ k = chunk + (amt div 10) * 10 ^ Suc k"
      unfolding chunk_def by (rule split_amount)
    have csum: "sum_list (if chunk \<noteq> 0 then decomAmount2Nature chunk (10 ^ k) else []) = chunk"
    proof (cases "chunk = 0")
      case True then show ?thesis by simp
    next
      case False
      then have "amt mod 10 \<noteq> 0" unfolding chunk_def by auto
      moreover have "0 \<le> amt mod 10" by simp
      ultimately have "1 \<le> amt mod 10" by linarith
      moreover have "amt mod 10 \<le> 9" by simp
      ultimately have "1 \<le> amt mod 10" "amt mod 10 \<le> 9" by simp_all
      then show ?thesis using False k unfolding chunk_def by (simp add: decomAmount2Nature_sum)
    qed
    show ?thesis
    proof (cases "dust + chunk < t")
      case True
      have chunk_h: "h \<Longrightarrow> chunk = 0"
      proof -
        assume h
        then have "t \<le> dust + 10 ^ k" using less.prems(5) by simp
        with True have "chunk < 10 ^ k" by linarith
        then have "amt mod 10 < 1" unfolding chunk_def by simp
        then show "chunk = 0" unfolding chunk_def by simp
      qed
      have rec: "decompose_loop t (amt div 10) h (dust + chunk) (10 ^ Suc k) res = (h', dust', res')"
        using less.prems(6) step True by simp
      have d1: "0 \<le> dust + chunk" using less.prems(3) chunk0 by simp
      have d2: "dust + chunk < 10 ^ Suc k" unfolding ps using less.prems(4) chunk9 by linarith
      have d3: "h \<longrightarrow> t \<le> (dust + chunk) + 10 ^ Suc k"
      proof
        assume h
        then have "t \<le> dust + 10 ^ k" using less.prems(5) by simp
        then show "t \<le> (dust + chunk) + 10 ^ Suc k"
          unfolding ps using chunk0 pk by linarith
      qed
      have "sum_list res' + (if h' then 0 else dust') =
            sum_list res + (if h then 0 else dust + chunk) + (amt div 10) * 10 ^ Suc k"
        by (rule less.hyps [OF smaller d0 dk d1 d2 d3 rec])
      then show ?thesis using split chunk_h by (cases h) simp_all
    next
      case False
      let ?res2 = "(if \<not> h \<and> dust \<noteq> 0 then res @ [dust] else res) @
              (if chunk \<noteq> 0 then decomAmount2Nature chunk (10 ^ k) else [])"
      have rec: "decompose_loop t (amt div 10) (h \<or> dust \<noteq> 0) dust (10 ^ Suc k) ?res2 = (h', dust', res')"
        using less.prems(6) step False by simp
      have d2: "dust < 10 ^ Suc k" unfolding ps using less.prems(4) pk by linarith
      have "t \<le> dust + 10 ^ Suc k" unfolding ps using False chunk9 pk by linarith
      then have d3: "(h \<or> dust \<noteq> 0) \<longrightarrow> t \<le> dust + 10 ^ Suc k" by simp
      have "sum_list res' + (if h' then 0 else dust') =
            sum_list ?res2 + (if (h \<or> dust \<noteq> 0) then 0 else dust) + (amt div 10) * 10 ^ Suc k"
        by (rule less.hyps [OF smaller d0 dk less.prems(3) d2 d3 rec])
      moreover have "sum_list ?res2 = sum_list res + (if \<not> h \<and> dust \<noteq> 0 then dust else 0) + chunk"
        using csum by simp
      ultimately show ?thesis using split by (cases h; cases "dust = 0") simp_all
    qed
  qed
qed

lemma decomposeAmount2digits_sum_below:
  assumes "0 \<le> a" "a < 10 ^ 18"
  shows "sum_list (decomposeAmount2digits a t) = a"
proof (cases "a = 0")
  case True
  then show ?thesis by (simp add: decomposeAmount2digits_def)
next
  case False
  obtain h' dust' res' where r: "decompose_loop t a False 0 (10 ^ 0) [] = (h', dust', res')"
    by (metis prod_cases3)
  have "sum_list res' + (if h' then 0 else dust') = sum_list [] + (if False then 0 else 0) + a * 10 ^ 0"
    by (rule decompose_loop_sum [OF _ _ _ _ _ r]) (use assms in auto)
  then have "sum_list res' + (if h' then 0 else dust') = a" by simp
  moreover have "decomposeAmount2digits a t = (if \<not> h' \<and> dust' \<noteq> 0 then res' @ [dust'] else res')"
    using False assms r by (simp add: decomposeAmount2digits_def)
  ultimately show ?thesis by (auto split: if_splits)
qed

lemma decompose_loop_good:
  assumes "0 \<le> amt" "amt < 10 ^ (18 - k)" "0 \<le> dust" "dust < 10 ^ k"
      and "dust = 0 \<or> dust < t"
      and "list_all (good_denom t) res"
      and "decompose_loop t amt h dust (10 ^ k) res = (h', dust', res')"
  shows "list_all (good_denom t) res' \<and> 0 \<le> dust' \<and> (dust' = 0 \<or> dust' < t)"
  using assms
proof (induction "nat amt" arbitrary: amt k h dust res rule: less_induct)
  case less
  show ?case
  proof (cases "amt = 0")
    case True
    with less.prems show ?thesis by (simp add: decompose_loop_zero)
  next
    case False
    then have pos: "0 < amt" using less.prems(1) by simp
    have k: "k < 18" using pos less.prems(2) by (rule amount_bound_k)
    define chunk where "chunk = (amt mod 10) * 10 ^ k"
    have chunk0: "0 \<le> chunk" by (simp add: chunk_def)
    have pk: "(0::int) < 10 ^ k" by simp
    have ps: "(10::int) ^ Suc k = 10 * 10 ^ k" by simp
    have chunk9: "chunk \<le> 9 * 10 ^ k"
      unfolding chunk_def by (intro mult_right_mono) auto
    have step: "decompose_loop t amt h dust (10 ^ k) res =
      (if dust + chunk < t
       then decompose_loop t (amt div 10) h (dust + chunk) (10 ^ Suc k) res
       else decompose_loop t (amt div 10) (h \<or> dust \<noteq> 0) dust (10 ^ Suc k)
             ((if \<not> h \<and> dust \<noteq> 0 then res @ [dust] else res) @
              (if chunk \<noteq> 0 then decomAmount2Nature chunk (10 ^ k) else [])))"
      using decompose_loop_step [OF k pos less.prems(2) less.prems(3) less.prems(4)]
      by (simp add: chunk_def Let_def)
    have smaller: "nat (amt div 10) < nat amt" using pos by simp
    have d0: "0 \<le> amt div 10" using pos by simp
    have dk: "amt div 10 < 10 ^ (18 - Suc k)" using k pos less.prems(2) by (rule div10_bound)
    have cgood: "list_all (good_denom t) (if chunk \<noteq> 0 then decomAmount2Nature chunk (10 ^ k) else [])"
    proof (cases "chunk = 0")
      case True then show ?thesis by simp
    next
      case False
      then have "amt mod 10 \<noteq> 0" unfolding chunk_def by auto
      moreover have "0 \<le> amt mod 10" by simp
      ultimately have d1: "1 \<le> amt mod 10" by linarith
      have d9: "amt mod 10 \<le> 9" by simp
      show ?thesis using False decomAmount2Nature_good [OF d1 d9 k]
        unfolding chunk_def by (simp add: list_all_iff)
    qed
    show ?thesis
    proof (cases "dust + chunk < t")
      case True
      have rec: "decompose_loop t (amt div 10) h (dust + chunk) (10 ^ Suc k) res = (h', dust', res')"
        using less.prems(7) step True by simp
      have d1: "0 \<le> dust + chunk" using less.prems(3) chunk0 by simp
      have d2: "dust + chunk < 10 ^ Suc k" unfolding ps using less.prems(4) chunk9 by linarith
      have d3: "dust + chunk = 0 \<or> dust + chunk < t" using True by simp
      show ?thesis
        by (rule less.hyps [OF smaller d0 dk d1 d2 d3 less.prems(6) rec])
    next
      case False
      let ?res2 = "(if \<not> h \<and> dust \<noteq> 0 then res @ [dust] else res) @
              (if chunk \<noteq> 0 then decomAmount2Nature chunk (10 ^ k) else [])"
      have rec: "decompose_loop t (amt div 10) (h \<or> dust \<noteq> 0) dust (10 ^ Suc k) ?res2 = (h', dust', res')"
        using less.prems(7) step False by simp
      have d2: "dust < 10 ^ Suc k" unfolding ps using less.prems(4) pk by linarith
      have "dust \<noteq> 0 \<Longrightarrow> good_denom t dust"
        using less.prems(3,5) by (simp add: good_denom_def)
      then have g: "list_all (good_denom t) ?res2"
        using less.prems(6) cgood by simp
      show ?thesis
        by (rule less.hyps [OF smaller d0 dk less.prems(3) d2 less.prems(5) g rec])
    qed
  qed
qed

lemma decomposeAmount2digits_good_below:
  assumes "a < 10 ^ 18"
  shows "list_all (good_denom t) (decomposeAmount2digits a t)"
proof (cases "a \<le> 0")
  case True
  then show ?thesis by (simp add: decomposeAmount2digits_def)
next
  case False
  obtain h' dust' res' where r: "decompose_loop t a False 0 (10 ^ 0) [] = (h', dust', res')"
    by (metis prod_cases3)
  have "list_all (good_denom t) res' \<and> 0 \<le> dust' \<and> (dust' = 0 \<or> dust' < t)"
    by (rule decompose_loop_good [OF _ _ _ _ _ _ r]) (use assms False in auto)
  moreover have "decomposeAmount2digits a t = (if \<not> h' \<and> dust' \<noteq> 0 then res' @ [dust'] else res')"
    using False r by (simp add: decomposeAmount2digits_def)
  ultimately show ?thesis by (auto simp: good_denom_def)
qed

lemma not_denom125: "\<not> denom125 844674407370955161"
proof
  assume "denom125 844674407370955161"
  then obtain k :: nat where k: "844674407370955161 = (10::int) ^ k \<or> 844674407370955161 = 2 * (10::int) ^ k
      \<or> 844674407370955161 = 5 * (10::int) ^ k"
    unfolding denom125_def by blast
  show False
  proof (cases k)
    case 0
    with k show False by simp
  next
    case (Suc j)
    have "even ((10::int) ^ Suc j)" by simp
    then have "even ((10::int) ^ k)" using Suc by simp
    then have "even ((10::int) ^ k)" "even (2 * (10::int) ^ k)" "even (5 * (10::int) ^ k)" by simp_all
    moreover have "odd (844674407370955161::int)" by simp
    ultimately show False using k by metis
  qed
qed

subsection \<open>The claims on the decomposer\<close>

text \<open>
  C1 (the decomposition sums to the amount, for every amount \<open>a \<ge> 0\<close>): the source
  multiplies \<open>order\<close> by ten before it passes \<open>order / 10\<close> to \<open>decomAmount2Nature\<close>.
  For an amount of nineteen decimal digits the product \<open>10^19\<close> wraps around in \<open>int64\<close>,
  and the top digit is emitted with a wrong value. At the amount \<open>10^18\<close> with the dust
  threshold \<open>10^6\<close> the returned list sums to \<open>844674407370955161\<close>, not to \<open>10^18\<close>.
  Below \<open>10^18\<close> the sum is exact (\<open>decomposeAmount2digits_sum_below\<close>).
\<close>

theorem decomposeAmount2digits_sum_wraps:
  "sum_list (decomposeAmount2digits 1000000000000000000 1000000) = 844674407370955161"
  by (simp add: decomposeAmount2digits_def decompose_loop.simps decomAmount2Nature_def
      quo64_def rem64_def mul64_def add64_def wrap64_def Let_def)

text \<open>
  C2 (every element is below the threshold or of the form \<open>d * 10^k\<close> with \<open>d\<close> in
  \<open>{1, 2, 5}\<close>): the same wrap-around of \<open>order\<close> breaks the form of the top element. At
  the amount \<open>10^18\<close> with the dust threshold \<open>10^6\<close> the list holds
  \<open>844674407370955161\<close>, which is neither below the threshold nor a 1-2-5 denomination.
  Below \<open>10^18\<close> every element has the form (\<open>decomposeAmount2digits_good_below\<close>).
\<close>

theorem decomposeAmount2digits_element_wraps:
  "844674407370955161 \<in> set (decomposeAmount2digits 1000000000000000000 1000000)
   \<and> \<not> good_denom 1000000 844674407370955161"
proof -
  have "decomposeAmount2digits 1000000000000000000 1000000 = [844674407370955161]"
    by (simp add: decomposeAmount2digits_def decompose_loop.simps decomAmount2Nature_def
        quo64_def rem64_def mul64_def add64_def wrap64_def Let_def)
  then show ?thesis using not_denom125 by (simp add: good_denom_def)
qed

text \<open>
  C3 (the vector returned for \<open>62387455827\<close> with threshold \<open>10^6\<close>): the claimed vector
  keeps each decade as one entry. The source splits every decade by
  \<open>decomAmount2Nature\<close>, so \<open>7000000\<close> is returned as \<open>5000000, 2000000\<close> and so on.
  First the claimed vector is refuted, then the returned vector is given: the dust chunk
  first, then the decades in ascending order, each in its 1-2-5 breakdown.
\<close>

theorem decomposeAmount2digits_example_not_per_decade:
  "decomposeAmount2digits 62387455827 1000000 \<noteq>
     [455827, 7000000, 80000000, 300000000, 2000000000, 60000000000]"
  by (simp add: decomposeAmount2digits_def decompose_loop.simps decomAmount2Nature_def
      quo64_def rem64_def mul64_def add64_def wrap64_def Let_def)

theorem decomposeAmount2digits_example:
  "decomposeAmount2digits 62387455827 1000000 =
     [455827, 5000000, 2000000, 50000000, 20000000, 10000000, 100000000, 200000000,
      2000000000, 50000000000, 10000000000]"
  by (simp add: decomposeAmount2digits_def decompose_loop.simps decomAmount2Nature_def
      quo64_def rem64_def mul64_def add64_def wrap64_def Let_def)

section \<open>The claim on the amount check\<close>

lemmas float64_eval =
  float64_of_int64_def round53_def binary_exponent_def round_half_even_def bit_length.simps
  mul64_def wrap64_def Let_def

text \<open>
  C4 (\<open>checkAmountValid\<close> accepts exactly the positive multiples of \<open>Coin\<close>, for every
  \<open>int64\<close>): the check divides in \<open>float64\<close>. The amount \<open>2305843009300000000\<close> is
  \<open>23058430093 * Coin\<close> and fits \<open>int64\<close>, but it has more than 53 significant bits:
  the conversion rounds it to \<open>2305843009299999744\<close>, the quotient rounds to a value just
  below \<open>23058430093\<close>, the truncation gives \<open>23058430092\<close>, and the check rejects the
  amount.
\<close>

theorem checkAmountValid_rejects_multiple:
  "in_int64 2305843009300000000 \<and> 0 < (2305843009300000000 :: int)
   \<and> 2305843009300000000 = 23058430093 * Coin
   \<and> \<not> checkAmountValid 2305843009300000000"
  by (simp add: checkAmountValid_def Coin_def in_int64_def float64_eval)

lemma checkAmountValid_examples:
  "checkAmountValid 100000000" "checkAmountValid 62300000000"
  "\<not> checkAmountValid 150000000" "\<not> checkAmountValid 0" "\<not> checkAmountValid (- 100000000)"
  by (simp_all add: checkAmountValid_def Coin_def float64_eval)

lemma float64_of_int64_rounds:
  "int64_of_float64 (float64_of_int64 2305843009300000000) = 2305843009299999744"
  by (simp add: float64_eval)

section \<open>Facts on the ring inputs\<close>

lemma deref_all_map: "deref_all xs = Inr ys \<Longrightarrow> xs = map Some ys"
proof (induction xs arbitrary: ys)
  case Nil
  then show ?case by simp
next
  case (Cons x xs)
  then show ?case by (cases x) (auto split: sum.splits)
qed

lemma place_length: "place k ps src dst = Inr u \<Longrightarrow> length u = length dst"
  by (induction k ps src dst rule: place.induct) (auto split: if_splits)

lemma place_src_bound: "place k ps src dst = Inr u \<Longrightarrow> k + length ps \<le> length src \<or> ps = []"
  by (induction k ps src dst rule: place.induct) (auto split: if_splits)

lemma place_entries:
  "place k ps src dst = Inr u \<Longrightarrow> x \<in> set u \<Longrightarrow> x \<in> set dst \<or> x \<in> Some ` set src"
proof (induction k ps src dst rule: place.induct)
  case (1 k src utxos)
  then show ?case by simp
next
  case (2 k position rest src utxos)
  from "2.prems"(1) have c: "k < length src" "position < length utxos"
    and r: "place (Suc k) rest src (utxos[position := Some (src ! k)]) = Inr u"
    by (auto split: if_splits)
  from "2.IH" [OF _ r "2.prems"(2)] c
  have "x \<in> set (utxos[position := Some (src ! k)]) \<or> x \<in> Some ` set src" by simp
  then show ?case
  proof
    assume "x \<in> set (utxos[position := Some (src ! k)])"
    then have "x \<in> insert (Some (src ! k)) (set utxos)"
      using set_update_subset_insert by fastforce
    then show ?thesis using c by auto
  qed simp
qed

lemma place_last:
  "place k ps src dst = Inr u \<Longrightarrow> ps \<noteq> [] \<Longrightarrow>
     last ps < length u \<and> u ! last ps = Some (src ! (k + length ps - 1))"
proof (induction k ps src dst rule: place.induct)
  case (1 k src utxos)
  then show ?case by simp
next
  case (2 k position rest src utxos)
  from "2.prems"(1) have c: "k < length src" "position < length utxos"
    and r: "place (Suc k) rest src (utxos[position := Some (src ! k)]) = Inr u"
    by (auto split: if_splits)
  show ?case
  proof (cases "rest = []")
    case True
    with r c show ?thesis by auto
  next
    case False
    with "2.IH" [OF _ r] c show ?thesis by simp
  qed
qed

lemma count_update_le:
  "length (filter P (xs[i := v])) \<le> Suc (length (filter P xs))"
proof (induction xs arbitrary: i)
  case Nil
  then show ?case by simp
next
  case (Cons x xs)
  show ?case
  proof (cases i)
    case 0
    then show ?thesis by simp
  next
    case (Suc j)
    with Cons.IH [of j] show ?thesis by simp
  qed
qed

lemma place_count:
  "place k ps src dst = Inr u \<Longrightarrow>
     length (filter (\<lambda>x. x \<noteq> None) u) \<le> length (filter (\<lambda>x. x \<noteq> None) dst) + length ps"
proof (induction k ps src dst rule: place.induct)
  case (1 k src utxos)
  then show ?case by simp
next
  case (2 k position rest src utxos)
  from "2.prems"(1) have c: "k < length src" "position < length utxos"
    and r: "place (Suc k) rest src (utxos[position := Some (src ! k)]) = Inr u"
    by (auto split: if_splits)
  have "length (filter (\<lambda>x. x \<noteq> None) u)
        \<le> length (filter (\<lambda>x. x \<noteq> None) (utxos[position := Some (src ! k)])) + length rest"
    using "2.IH" [OF _ r] c by simp
  also have "\<dots> \<le> Suc (length (filter (\<lambda>x. x \<noteq> None) utxos)) + length rest"
    using count_update_le [of "\<lambda>x. x \<noteq> None" utxos position "Some (src ! k)"] by simp
  finally show ?case by simp
qed

text \<open>
  When the array of \<open>n\<close> \<open>nil\<close> pointers is filled from \<open>n\<close> sources and no pointer is
  left \<open>nil\<close>, there were exactly \<open>n\<close> positions, and the last source sits at the last
  position.
\<close>

lemma place_full:
  assumes p: "place 0 ps src (replicate (length src) None) = Inr u"
      and d: "deref_all u = Inr ring" and ne: "src \<noteq> []"
  shows "length ps = length src" "length ring = length src"
        "last ps < length ring" "ring ! last ps = last src" "set ring \<subseteq> set src"
proof -
  have u: "u = map Some ring" using d by (rule deref_all_map)
  have lu: "length u = length src" using place_length [OF p] by simp
  then show lr: "length ring = length src" using u by simp
  have "length (filter (\<lambda>x. x \<noteq> None) u) = length ring"
    unfolding u by (induction ring) auto
  moreover have "length (filter (\<lambda>x. x \<noteq> None) u)
      \<le> length (filter (\<lambda>x. x \<noteq> None) (replicate (length src) (None :: 'a option))) + length ps"
    by (rule place_count [OF p])
  ultimately have ge: "length src \<le> length ps" using lr by simp
  then have psne: "ps \<noteq> []" using ne by auto
  have "0 + length ps \<le> length src" using place_src_bound [OF p] psne by simp
  with ge show lp: "length ps = length src" by simp
  have l: "last ps < length u \<and> u ! last ps = Some (src ! (0 + length ps - 1))"
    by (rule place_last [OF p psne])
  then show "last ps < length ring" using u by simp
  have lt: "last ps < length ring" using l u by simp
  have "u ! last ps = Some (ring ! last ps)" unfolding u using lt by simp
  then have "Some (ring ! last ps) = Some (src ! (length src - 1))"
    using l lp by simp
  then show "ring ! last ps = last src" using ne by (simp add: last_conv_nth)
  show "set ring \<subseteq> set src"
  proof
    fix x assume "x \<in> set ring"
    then have "Some x \<in> set u" unfolding u by simp
    then have "Some x \<in> set (replicate (length src) None) \<or> Some x \<in> Some ` set src"
      by (rule place_entries [OF p])
    then show "x \<in> set src" by auto
  qed
qed

lemma buildInput_one_Inr:
  assumes "buildInput_one env keys mix res i u rng = (Inr (ki, ring, rk), rng')"
  shows "\<exists>decoys positions.
           drop_last_above mix (decoys_for res i u) = Inr decoys
         \<and> Perm env rng (length decoys + 1) = (positions, rng')
         \<and> length ring = length decoys + 1
         \<and> last positions < length ring
         \<and> ring ! last positions = real_utxo u
         \<and> set ring \<subseteq> set decoys \<union> {real_utxo u}
         \<and> Realinputkey rk = wrap32 (int (last positions))
         \<and> Amount_ki ki = amount u
         \<and> UtxoGlobalIndex_ki ki = map UtxoGlobalIndex ring"
proof -
  from assms obtain decoys where d: "drop_last_above mix (decoys_for res i u) = Inr decoys"
    by (auto simp: buildInput_one_def split: sum.splits)
  obtain positions r1 where pm: "Perm env rng (length (decoys @ [real_utxo u])) = (positions, r1)"
    by (cases "Perm env rng (length (decoys @ [real_utxo u]))") auto
  from assms d pm obtain utxos where
    pl: "place 0 positions (decoys @ [real_utxo u])
           (replicate (length (decoys @ [real_utxo u])) None) = Inr utxos"
    by (auto simp: buildInput_one_def Let_def split: sum.splits)
  from assms d pm pl have
    r: "r1 = rng'" and de: "deref_all utxos = Inr ring"
    and rk: "Realinputkey rk = wrap32 (int (last positions))"
    and ki: "Amount_ki ki = amount u" "UtxoGlobalIndex_ki ki = map UtxoGlobalIndex ring"
    by (auto simp: buildInput_one_def Let_def split: sum.splits if_splits)
  have ne: "decoys @ [real_utxo u] \<noteq> []" by simp
  note f = place_full [OF pl de ne]
  have "length ring = length decoys + 1" using f(2) by simp
  moreover have "ring ! last positions = real_utxo u" using f(4) by simp
  moreover have "set ring \<subseteq> set decoys \<union> {real_utxo u}" using f(5) by auto
  ultimately show ?thesis using d pm r f(3) rk ki by auto
qed

lemma remove_self_subset: "set (remove_self key us) \<subseteq> set us"
  by (induction us) auto

lemma remove_self_length: "length (remove_self key us) \<le> length us"
  by (induction us) auto

lemma remove_self_length_found:
  "\<exists>d\<in>set us. OnetimePubkey d = key \<Longrightarrow> Suc (length (remove_self key us)) = length us"
  by (induction us) auto

lemma remove_self_none_left:
  "length (filter (\<lambda>d. OnetimePubkey d = key) us) \<le> 1 \<Longrightarrow> d \<in> set (remove_self key us)
   \<Longrightarrow> OnetimePubkey d \<noteq> key"
proof (induction us)
  case Nil
  then show ?case by simp
next
  case (Cons a us)
  show ?case
  proof (cases "OnetimePubkey a = key")
    case True
    with Cons.prems have "filter (\<lambda>d. OnetimePubkey d = key) us = []" "d \<in> set us" by auto
    then show ?thesis by (auto simp: filter_empty_conv)
  next
    case False
    with Cons show ?thesis by auto
  qed
qed

lemma drop_last_above_subset: "drop_last_above mix us = Inr ds \<Longrightarrow> set ds \<subseteq> set us"
  by (auto simp: drop_last_above_def split: if_splits dest: in_set_butlastD)

lemma drop_last_above_length:
  "drop_last_above mix us = Inr ds \<Longrightarrow> int (length us) \<le> mix + 1 \<Longrightarrow> int (length ds) \<le> mix"
  by (cases us rule: rev_cases) (auto simp: drop_last_above_def split: if_splits)

lemma drop_last_above_keep:
  "int (length us) \<le> mix \<Longrightarrow> drop_last_above mix us = Inr us"
  by (simp add: drop_last_above_def)

lemma buildInput_loop_elems:
  "buildInput_loop env keys mix res i us (kis, rings, reals) rng = (Inr (kis', rings', reals'), rng')
   \<Longrightarrow> \<exists>nk nr nre. kis' = kis @ nk \<and> rings' = rings @ nr \<and> reals' = reals @ nre
         \<and> length nk = length us \<and> length nr = length us \<and> length nre = length us
         \<and> (\<forall>j<length us. \<exists>r r'.
               buildInput_one env keys mix res (i + j) (us ! j) r = (Inr (nk ! j, nr ! j, nre ! j), r'))"
proof (induction us arbitrary: i kis rings reals rng)
  case Nil
  then show ?case by simp
next
  case (Cons u us)
  from Cons.prems obtain ki ring rk r1 where
    one: "buildInput_one env keys mix res i u rng = (Inr (ki, ring, rk), r1)"
    and rest: "buildInput_loop env keys mix res (Suc i) us
                 (kis @ [ki], rings @ [ring], reals @ [rk]) r1 = (Inr (kis', rings', reals'), rng')"
    by (auto split: prod.splits sum.splits)
  from Cons.IH [OF rest] obtain nk nr nre where
    e: "kis' = (kis @ [ki]) @ nk" "rings' = (rings @ [ring]) @ nr" "reals' = (reals @ [rk]) @ nre"
    and l: "length nk = length us" "length nr = length us" "length nre = length us"
    and a: "\<forall>j<length us. \<exists>r r'.
               buildInput_one env keys mix res (Suc i + j) (us ! j) r = (Inr (nk ! j, nr ! j, nre ! j), r')"
    by blast
  have "\<forall>j<length (u # us). \<exists>r r'.
          buildInput_one env keys mix res (i + j) ((u # us) ! j) r
            = (Inr ((ki # nk) ! j, (ring # nr) ! j, (rk # nre) ! j), r')"
  proof (intro allI impI)
    fix j assume j: "j < length (u # us)"
    show "\<exists>r r'. buildInput_one env keys mix res (i + j) ((u # us) ! j) r
            = (Inr ((ki # nk) ! j, (ring # nr) ! j, (rk # nre) ! j), r')"
    proof (cases j)
      case 0
      with one show ?thesis by auto
    next
      case (Suc m)
      with j a show ?thesis by auto
    qed
  qed
  with e l show ?case
    by (intro exI [of _ "ki # nk"] exI [of _ "ring # nr"] exI [of _ "rk # nre"]) simp
qed

text \<open>
  A successful \<open>buildInput\<close>: the query did not fail, and the input at every position
  \<open>j\<close> is the result of the loop body on the selected output \<open>j\<close>.
\<close>

lemma buildInput_inputs:
  assumes "buildInput env cfg wallet keys info = (Inr (Some (kis, rings, reals, sel)), rng')"
  shows "\<exists>q. query_mix env cfg info sel = Inr q
           \<and> length kis = length sel \<and> length rings = length sel \<and> length reals = length sel
           \<and> (\<forall>j<length sel. \<exists>r r'.
                 buildInput_one env keys (mixcount info) (response_of q) j (sel ! j) r
                   = (Inr (kis ! j, rings ! j, reals ! j), r'))"
proof -
  from assms obtain selected rng q where
    q: "query_mix env cfg info sel = Inr q"
    and l: "buildInput_loop env keys (mixcount info) (response_of q) 0 sel ([], [], []) rng
              = (Inr (kis, rings, reals), rng')"
    by (auto simp: buildInput_def Let_def split: prod.splits sum.splits mix_response.splits)
  from buildInput_loop_elems [OF l] q show ?thesis by auto
qed

lemma wrap32_id: "0 \<le> x \<Longrightarrow> x < 2 ^ 31 \<Longrightarrow> wrap32 x = x"
proof -
  assume "0 \<le> x" "x < 2 ^ 31"
  then have "0 \<le> x + 2 ^ 31" "x + 2 ^ 31 < (2 ^ 32 :: int)" by simp_all
  then have "(x + 2 ^ 31) mod 2 ^ 32 = x + 2 ^ 31" by (rule mod_pos_pos_trivial)
  then show ?thesis by (simp add: wrap32_def)
qed

section \<open>The example builds, evaluated\<close>

lemma selectUTXO_demo:
  "selectUTXO (demo_env_send send) demo_cfg demo_wallet ''BTY'' ''alice'' 101000000
     = (Inr [demo_out], 1)"
  by (simp add: selectUTXO_def demo_env_send_def demo_cfg_def demo_wallet_def demo_out_def
        pick_random.simps sub64_def add64_def wrap64_def)

lemmas demo_build_eval =
  demo_env_send_def query_mix_def demo_cfg_def buildInput_one_def decoys_for_def
  fetched_for_def drop_last_above_def demo_out_def demo_decoy_def real_utxo_def demo_keys_def
  demo_keyinput_def demo_ring_def demo_realkey_def wrap32_def upt_rec Let_def

lemma buildInput_demo_send:
  "buildInput (demo_env_send send) demo_cfg demo_wallet demo_keys demo_info =
     (Inr (Some ([demo_keyinput], [demo_ring], [demo_realkey], [demo_out])), 2)"
  unfolding buildInput_def demo_info_def
  apply (simp add: selectUTXO_demo [unfolded demo_info_def])
  apply (simp add: demo_build_eval)
  done

lemma buildInput_demo:
  "buildInput demo_env demo_cfg demo_wallet demo_keys demo_info =
     (Inr (Some ([demo_keyinput], [demo_ring], [demo_realkey], [demo_out])), 2)"
  unfolding demo_env_def by (rule buildInput_demo_send)

lemma buildInput_demo_mix1:
  "buildInput demo_env demo_cfg demo_wallet demo_keys (demo_info\<lparr>mixcount := 1\<rparr>) =
     (Inr (Some ([demo_keyinput\<lparr>UtxoGlobalIndex_ki :=
                    [\<lparr>Txhash = [22], Outindex = 0\<rparr>, \<lparr>Txhash = [2], Outindex = 0\<rparr>,
                     \<lparr>Txhash = [21], Outindex = 0\<rparr>]\<rparr>],
                 [[demo_decoy 22, real_utxo demo_out, demo_decoy 21]],
                 [demo_realkey], [demo_out])), 2)"
  unfolding buildInput_def demo_info_def demo_env_def
  apply (simp add: selectUTXO_demo [unfolded demo_info_def])
  apply (simp add: demo_build_eval)
  done

lemma query_mix_demo:
  "query_mix demo_env demo_cfg demo_info [demo_out] =
     Inr (Response \<lparr>UtxoIndex4Amount =
            [\<lparr>Amount_ia = 300000000, Utxos = map demo_decoy [21, 22, 11, 24]\<rparr>]\<rparr>)"
  by (simp add: query_mix_def demo_env_def demo_env_send_def demo_info_def demo_cfg_def
        demo_out_def)

section \<open>The claims on the ring inputs\<close>

text \<open>
  C6 (the ring entry at \<open>Realinputkey\<close> is the real output): for every successful
  \<open>buildInput\<close>, whatever the random source returned, and for every input \<open>j\<close> whose
  ring has fewer than \<open>2^31\<close> members (\<open>Realinputkey\<close> is an \<open>int32\<close>), the ring
  entry at the recorded position is the member built from the selected output \<open>j\<close>: it
  carries its one-time public key and its global index, and the global index of the
  \<open>KeyInput\<close> at that position is the same.
\<close>

theorem buildInput_real_position:
  assumes b: "buildInput env cfg wallet keys info = (Inr (Some (kis, rings, reals, sel)), rng')"
      and j: "j < length sel"
      and small: "length (rings ! j) < 2 ^ 31"
  shows "0 \<le> Realinputkey (reals ! j)
       \<and> nat (Realinputkey (reals ! j)) < length (rings ! j)
       \<and> rings ! j ! nat (Realinputkey (reals ! j)) = real_utxo (sel ! j)
       \<and> OnetimePubkey (rings ! j ! nat (Realinputkey (reals ! j))) = onetimePublicKey (sel ! j)
       \<and> UtxoGlobalIndex_ki (kis ! j) ! nat (Realinputkey (reals ! j)) = utxoGlobalIndex (sel ! j)"
proof -
  from buildInput_inputs [OF b] j obtain q r r' where
    one: "buildInput_one env keys (mixcount info) (response_of q) j (sel ! j) r
            = (Inr (kis ! j, rings ! j, reals ! j), r')"
    by blast
  from buildInput_one_Inr [OF one] obtain positions where
    lt: "last positions < length (rings ! j)"
    and at: "rings ! j ! last positions = real_utxo (sel ! j)"
    and rk: "Realinputkey (reals ! j) = wrap32 (int (last positions))"
    and ki: "UtxoGlobalIndex_ki (kis ! j) = map UtxoGlobalIndex (rings ! j)"
    by blast
  have "int (last positions) < 2 ^ 31" using lt small by simp
  moreover have "0 \<le> int (last positions)" by simp
  ultimately have "wrap32 (int (last positions)) = int (last positions)"
    by (rule wrap32_id [rotated])
  then have p: "Realinputkey (reals ! j) = int (last positions)" using rk by simp
  then have n: "nat (Realinputkey (reals ! j)) = last positions" by simp
  show ?thesis using p lt at ki unfolding n by (simp add: real_utxo_def)
qed

theorem buildInput_real_position_witness:
  "buildInput demo_env demo_cfg demo_wallet demo_keys demo_info =
     (Inr (Some ([demo_keyinput], [demo_ring], [demo_realkey], [demo_out])), 2)
   \<and> length demo_ring < 2 ^ 31
   \<and> nat (Realinputkey demo_realkey) = 1
   \<and> demo_ring ! nat (Realinputkey demo_realkey) = real_utxo demo_out
   \<and> OnetimePubkey (demo_ring ! nat (Realinputkey demo_realkey)) = onetimePublicKey demo_out
   \<and> UtxoGlobalIndex_ki demo_keyinput ! nat (Realinputkey demo_realkey)
       = utxoGlobalIndex demo_out"
proof -
  have small: "length ([demo_ring] ! 0) < 2 ^ 31" by (simp add: demo_ring_def)
  have "nat (Realinputkey demo_realkey) = 1" by (simp add: demo_realkey_def)
  then show ?thesis
    using buildInput_real_position [OF buildInput_demo, of 0] buildInput_demo small
    by (simp add: real_utxo_def)
qed

text \<open>
  What holds of the size of a ring. For every input \<open>j\<close> of a successful
  \<open>buildInput\<close>, with \<open>fetched\<close> the decoys that the chain returned for it and
  \<open>kept\<close> what is left of them once the first decoy with the real output's key has
  been removed: the ring holds the real output, its other members are among \<open>kept\<close>,
  and it has one member more than \<open>kept\<close>, less one when \<open>kept\<close> has more than
  \<open>mixcount\<close> members. So the ring has at most \<open>mixcount + 1\<close> members when the
  chain returned at most \<open>mixcount + 1\<close> decoys, and four members in the scenario
  with \<open>mixcount = 5\<close> and four fetched decoys of which one carries the real key.
\<close>

lemma buildInput_ring_size:
  assumes b: "buildInput env cfg wallet keys info = (Inr (Some (kis, rings, reals, sel)), rng')"
      and j: "j < length sel"
  shows "\<exists>q. query_mix env cfg info sel = Inr q \<and>
          (let fetched = fetched_for (response_of q) j (sel ! j);
               key = onetimePublicKey (sel ! j);
               kept = remove_self key fetched
           in real_utxo (sel ! j) \<in> set (rings ! j)
            \<and> set (rings ! j) \<subseteq> set kept \<union> {real_utxo (sel ! j)}
            \<and> int (length (rings ! j))
                = (if int (length kept) > mixcount info then int (length kept) - 1
                   else int (length kept)) + 1
            \<and> (length (filter (\<lambda>d. OnetimePubkey d = key) fetched) \<le> 1 \<longrightarrow>
                 (\<forall>d\<in>set (rings ! j). OnetimePubkey d = key \<longrightarrow> d = real_utxo (sel ! j)))
            \<and> (int (length fetched) \<le> mixcount info + 1 \<longrightarrow>
                 int (length (rings ! j)) \<le> mixcount info + 1)
            \<and> (mixcount info = 5 \<and> length fetched = 4 \<and> (\<exists>d\<in>set fetched. OnetimePubkey d = key)
                 \<longrightarrow> length (rings ! j) = 4))"
proof -
  from buildInput_inputs [OF b] j obtain q r r' where
    q: "query_mix env cfg info sel = Inr q"
    and one: "buildInput_one env keys (mixcount info) (response_of q) j (sel ! j) r
            = (Inr (kis ! j, rings ! j, reals ! j), r')"
    by blast
  let ?fetched = "fetched_for (response_of q) j (sel ! j)"
  let ?key = "onetimePublicKey (sel ! j)"
  let ?kept = "remove_self ?key ?fetched"
  let ?ring = "rings ! j"
  let ?real = "real_utxo (sel ! j)"
  from buildInput_one_Inr [OF one] obtain decoys positions where
    d: "drop_last_above (mixcount info) ?kept = Inr decoys"
    and len: "length ?ring = length decoys + 1"
    and lt: "last positions < length ?ring"
    and at: "?ring ! last positions = ?real"
    and sub: "set ?ring \<subseteq> set decoys \<union> {?real}"
    unfolding decoys_for_def by blast
  have dk: "set decoys \<subseteq> set ?kept" using d by (rule drop_last_above_subset)
  have mem: "?real \<in> set ?ring" using lt at nth_mem [of "last positions" ?ring] by simp
  have sub': "set ?ring \<subseteq> set ?kept \<union> {?real}"
  proof
    fix x assume "x \<in> set ?ring"
    then have "x \<in> set decoys \<union> {?real}" using sub by (rule subsetD [rotated])
    then show "x \<in> set ?kept \<union> {?real}" using dk by (auto simp only: Un_iff dest: subsetD)
  qed
  have exact: "int (length ?ring)
      = (if int (length ?kept) > mixcount info then int (length ?kept) - 1
         else int (length ?kept)) + 1"
  proof (cases "int (length ?kept) > mixcount info")
    case True
    with d have "?kept \<noteq> []" "decoys = butlast ?kept"
      by (auto simp: drop_last_above_def split: if_splits)
    then have "int (length decoys) = int (length ?kept) - 1"
      by (cases ?kept rule: rev_cases) auto
    with True len show ?thesis by simp
  next
    case False
    with d have "decoys = ?kept" by (auto simp: drop_last_above_def)
    with False len show ?thesis by simp
  qed
  have nodup: "length (filter (\<lambda>d. OnetimePubkey d = ?key) ?fetched) \<le> 1 \<longrightarrow>
                 (\<forall>d\<in>set ?ring. OnetimePubkey d = ?key \<longrightarrow> d = ?real)"
  proof (intro impI ballI)
    fix x
    assume one_key: "length (filter (\<lambda>d. OnetimePubkey d = ?key) ?fetched) \<le> 1"
      and x: "x \<in> set ?ring" "OnetimePubkey x = ?key"
    show "x = ?real"
    proof (rule ccontr)
      assume "x \<noteq> ?real"
      with x(1) sub' have "x \<in> set ?kept" by (auto simp only: Un_iff singleton_iff dest: subsetD)
      then have "OnetimePubkey x \<noteq> ?key"
        by (rule remove_self_none_left [OF one_key])
      with x(2) show False by simp
    qed
  qed
  have bound: "int (length ?fetched) \<le> mixcount info + 1 \<longrightarrow>
                 int (length ?ring) \<le> mixcount info + 1"
  proof
    assume a: "int (length ?fetched) \<le> mixcount info + 1"
    have "length ?kept \<le> length ?fetched" by (rule remove_self_length)
    with a have "int (length ?kept) \<le> mixcount info + 1" by simp
    then have "int (length decoys) \<le> mixcount info" by (rule drop_last_above_length [OF d])
    with len show "int (length ?ring) \<le> mixcount info + 1" by simp
  qed
  have scen: "mixcount info = 5 \<and> length ?fetched = 4
                \<and> (\<exists>d\<in>set ?fetched. OnetimePubkey d = ?key) \<longrightarrow> length ?ring = 4"
  proof
    assume a: "mixcount info = 5 \<and> length ?fetched = 4
                \<and> (\<exists>d\<in>set ?fetched. OnetimePubkey d = ?key)"
    then have "\<exists>d\<in>set ?fetched. OnetimePubkey d = ?key" by simp
    then have "Suc (length ?kept) = length ?fetched"
      by (rule remove_self_length_found)
    with a have k: "length ?kept = 3" by simp
    with exact a show "length ?ring = 4" by simp
  qed
  show ?thesis
    unfolding Let_def
  proof (intro exI [of _ q] conjI)
    show "query_mix env cfg info sel = Inr q" by (rule q)
    show "?real \<in> set ?ring" by (rule mem)
    show "set ?ring \<subseteq> set ?kept \<union> {?real}" by (rule sub')
    show "int (length ?ring)
      = (if int (length ?kept) > mixcount info then int (length ?kept) - 1
         else int (length ?kept)) + 1" by (rule exact)
    show "length (filter (\<lambda>d. OnetimePubkey d = ?key) ?fetched) \<le> 1 \<longrightarrow>
                 (\<forall>d\<in>set ?ring. OnetimePubkey d = ?key \<longrightarrow> d = ?real)" by (rule nodup)
    show "int (length ?fetched) \<le> mixcount info + 1 \<longrightarrow>
                 int (length ?ring) \<le> mixcount info + 1" by (rule bound)
    show "mixcount info = 5 \<and> length ?fetched = 4
                \<and> (\<exists>d\<in>set ?fetched. OnetimePubkey d = ?key) \<longrightarrow> length ?ring = 4" by (rule scen)
  qed
qed

lemma buildInput_ring_size_demo:
  "buildInput demo_env demo_cfg demo_wallet demo_keys demo_info =
     (Inr (Some ([demo_keyinput], [demo_ring], [demo_realkey], [demo_out])), 2)
   \<and> mixcount demo_info = 5
   \<and> fetched_for (Some \<lparr>UtxoIndex4Amount =
            [\<lparr>Amount_ia = 300000000, Utxos = map demo_decoy [21, 22, 11, 24]\<rparr>]\<rparr>) 0 demo_out
       = map demo_decoy [21, 22, 11, 24]
   \<and> OnetimePubkey (demo_decoy 11) = onetimePublicKey demo_out
   \<and> length demo_ring = 4
   \<and> int (length demo_ring) \<le> mixcount demo_info + 1
   \<and> demo_decoy 11 \<notin> set demo_ring"
proof -
  have f: "fetched_for (Some \<lparr>UtxoIndex4Amount =
            [\<lparr>Amount_ia = 300000000, Utxos = map demo_decoy [21, 22, 11, 24]\<rparr>]\<rparr>) 0 demo_out
       = map demo_decoy [21, 22, 11, 24]"
    by (simp add: fetched_for_def demo_out_def)
  have k: "OnetimePubkey (demo_decoy 11) = onetimePublicKey demo_out"
    by (simp add: demo_decoy_def demo_out_def)
  have m: "mixcount demo_info = 5" by (simp add: demo_info_def)
  have four: "length (map demo_decoy [21, 22, 11, 24]) = 4" by simp
  have ex: "\<exists>d\<in>set (map demo_decoy [21, 22, 11, 24]).
              OnetimePubkey d = onetimePublicKey demo_out"
    using k by simp
  have one: "length (filter (\<lambda>d. OnetimePubkey d = onetimePublicKey demo_out)
                      (map demo_decoy [21, 22, 11, 24])) \<le> 1"
    by (simp add: demo_decoy_def demo_out_def)
  from buildInput_ring_size [OF buildInput_demo, of 0]
  have r: "length demo_ring = 4"
    and b: "int (length demo_ring) \<le> mixcount demo_info + 1"
    and n: "\<forall>d\<in>set demo_ring. OnetimePubkey d = onetimePublicKey demo_out
              \<longrightarrow> d = real_utxo demo_out"
    using f m four ex one by (simp_all add: query_mix_demo Let_def)
  have "demo_decoy 11 \<noteq> real_utxo demo_out"
    by (simp add: demo_decoy_def real_utxo_def demo_out_def)
  with n k have "demo_decoy 11 \<notin> set demo_ring" by blast
  then show ?thesis using buildInput_demo f k m r b by simp
qed

text \<open>
  C5 (self-deduplication and size of the ring). The claim bounds the ring by
  \<open>mixcount + 1\<close> members whatever number of decoys the chain returns, and the comment
  above the truncation says that it keeps the mixing degree within the setting. The
  code drops one decoy only (\<open>Utxos[:len(Utxos)-1]\<close>). Here the wallet asks for
  \<open>mixcount = 1\<close> and the chain returns four decoys for the one selected output, the
  third of them with the key of the output itself. That one is removed, three are left,
  the last of these is dropped, and the ring that \<open>buildInput\<close> returns has three
  members: the decoys 22 and 21 and the real output, one more than \<open>mixcount + 1\<close>.
\<close>

theorem buildInput_ring_exceeds_mix:
  "query_mix demo_env demo_cfg (demo_info\<lparr>mixcount := 1\<rparr>) [demo_out] =
     Inr (Response \<lparr>UtxoIndex4Amount =
            [\<lparr>Amount_ia = 300000000, Utxos = map demo_decoy [21, 22, 11, 24]\<rparr>]\<rparr>)
   \<and> OnetimePubkey (demo_decoy 11) = onetimePublicKey demo_out
   \<and> buildInput demo_env demo_cfg demo_wallet demo_keys (demo_info\<lparr>mixcount := 1\<rparr>) =
     (Inr (Some ([demo_keyinput\<lparr>UtxoGlobalIndex_ki :=
                    [\<lparr>Txhash = [22], Outindex = 0\<rparr>, \<lparr>Txhash = [2], Outindex = 0\<rparr>,
                     \<lparr>Txhash = [21], Outindex = 0\<rparr>]\<rparr>],
                 [[demo_decoy 22, real_utxo demo_out, demo_decoy 21]],
                 [demo_realkey], [demo_out])), 2)
   \<and> mixcount (demo_info\<lparr>mixcount := 1\<rparr>) = 1
   \<and> length [demo_decoy 22, real_utxo demo_out, demo_decoy 21] = 3
   \<and> mixcount (demo_info\<lparr>mixcount := 1\<rparr>) + 1
       < int (length [demo_decoy 22, real_utxo demo_out, demo_decoy 21])"
proof -
  have q: "query_mix demo_env demo_cfg (demo_info\<lparr>mixcount := 1\<rparr>) [demo_out] =
     Inr (Response \<lparr>UtxoIndex4Amount =
            [\<lparr>Amount_ia = 300000000, Utxos = map demo_decoy [21, 22, 11, 24]\<rparr>]\<rparr>)"
    by (simp add: query_mix_def demo_env_def demo_env_send_def demo_info_def demo_cfg_def
          demo_out_def)
  have k: "OnetimePubkey (demo_decoy 11) = onetimePublicKey demo_out"
    by (simp add: demo_decoy_def demo_out_def)
  have m: "mixcount (demo_info\<lparr>mixcount := 1\<rparr>) = 1" by simp
  show ?thesis
    unfolding m by (intro conjI) (rule q, rule k, rule buildInput_demo_mix1, simp_all)
qed
section \<open>Facts on the outputs and the builds\<close>

lemma outs_loop_amounts: "outs_loop f i ds = Inr outs \<Longrightarrow> map Amount_ko outs = ds"
proof (induction ds arbitrary: i outs)
  case Nil
  then show ?case by simp
next
  case (Cons d ds)
  then show ?case by (auto split: sum.splits)
qed

text \<open>The amounts of the outputs of \<open>generateOuts\<close>: the transfer, then the change.\<close>

lemma generateOuts_amounts:
  assumes "generateOuts env cfg v s cv cs transAmount selectedAmount fee rng = (Inr out, rng')"
  shows "map Amount_ko (Keyoutput out) =
           decomposeAmount2digits transAmount (BTYDustThreshold cfg) @
           (if 0 < sub64 (sub64 selectedAmount transAmount) fee
            then decomposeAmount2digits (sub64 (sub64 selectedAmount transAmount) fee)
                   (BTYDustThreshold cfg)
            else [])"
proof -
  obtain sk pk r1 where kp: "GenerateKeyPair env rng = ((sk, pk), r1)"
    by (cases "GenerateKeyPair env rng"; cases "fst (GenerateKeyPair env rng)") auto
  let ?d = "decomposeAmount2digits transAmount (BTYDustThreshold cfg)"
  let ?c = "if 0 < sub64 (sub64 selectedAmount transAmount) fee
            then decomposeAmount2digits (sub64 (sub64 selectedAmount transAmount) fee)
                   (BTYDustThreshold cfg)
            else []"
  from assms kp obtain outs change where
    o: "outs_loop (GenerateOneTimeAddr env v s sk) 0 ?d = Inr outs"
    and c: "outs_loop (GenerateOneTimeAddr env cv cs sk) (length ?d) ?c = Inr change"
    and k: "Keyoutput out = outs @ change"
    by (auto simp: generateOuts_def Let_def split: sum.splits)
  show ?thesis
    unfolding k map_append outs_loop_amounts [OF o] outs_loop_amounts [OF c] ..
qed

lemma sum_list_nonneg_int: "list_all (\<lambda>x. 0 \<le> x) xs \<Longrightarrow> 0 \<le> sum_list xs" for xs :: "int list"
  by (induction xs) auto

lemma foldl_add64_sum:
  "0 \<le> acc \<Longrightarrow> list_all (\<lambda>x. 0 \<le> x) xs \<Longrightarrow> acc + sum_list xs < 2 ^ 63
   \<Longrightarrow> foldl add64 acc xs = acc + sum_list xs"
proof (induction xs arbitrary: acc)
  case Nil
  then show ?case by simp
next
  case (Cons x xs)
  have s: "0 \<le> sum_list xs" using Cons.prems(2) by (intro sum_list_nonneg_int) simp
  have "in_int64 (acc + x)" using Cons.prems s by (simp add: in_int64_def)
  then have a: "add64 acc x = acc + x" by (simp add: add64_def wrap64_id)
  have "foldl add64 (acc + x) xs = (acc + x) + sum_list xs"
    using Cons.prems by (intro Cons.IH) simp_all
  then show ?case using a by simp
qed

lemma selectedAmounTotal_sum:
  "list_all (\<lambda>x. 0 \<le> x) (map Amount_ki kis) \<Longrightarrow> sum_list (map Amount_ki kis) < 2 ^ 63
   \<Longrightarrow> selectedAmounTotal kis = sum_list (map Amount_ki kis)"
  unfolding selectedAmounTotal_def using foldl_add64_sum [of 0 "map Amount_ki kis"] by simp

lemma sum_positive_pos:
  "sum_positive kis acc = Inr t \<Longrightarrow> list_all (\<lambda>x. 0 < x) (map Amount_ki kis)"
  by (induction kis arbitrary: acc) (auto split: if_splits)

lemma sum_positive_sum:
  "sum_positive kis acc = Inr t \<Longrightarrow> 0 \<le> acc \<Longrightarrow> acc + sum_list (map Amount_ki kis) < 2 ^ 63
   \<Longrightarrow> t = acc + sum_list (map Amount_ki kis)"
proof (induction kis arbitrary: acc)
  case Nil
  then show ?case by simp
next
  case (Cons k kis)
  from Cons.prems(1) have pos: "0 < Amount_ki k"
    and rec: "sum_positive kis (add64 acc (Amount_ki k)) = Inr t"
    by (auto split: if_splits)
  have "list_all (\<lambda>x. 0 < x) (map Amount_ki kis)" using rec by (rule sum_positive_pos)
  then have "list_all (\<lambda>x. 0 \<le> x) (map Amount_ki kis)"
    by (simp add: list_all_iff less_imp_le)
  then have rest: "0 \<le> sum_list (map Amount_ki kis)" by (rule sum_list_nonneg_int)
  have "in_int64 (acc + Amount_ki k)"
    using Cons.prems(2,3) pos rest by (simp add: in_int64_def)
  then have a: "add64 acc (Amount_ki k) = acc + Amount_ki k" by (simp add: add64_def wrap64_id)
  have "t = (acc + Amount_ki k) + sum_list (map Amount_ki kis)"
    using Cons.IH [OF rec [unfolded a]] Cons.prems(2,3) pos by simp
  then show ?case by simp
qed

lemma buildInput_amounts:
  assumes "buildInput env cfg wallet keys info = (Inr (Some (kis, rings, reals, sel)), rng')"
  shows "map Amount_ki kis = map amount sel"
proof (rule nth_equalityI)
  from buildInput_inputs [OF assms] obtain q where
    l: "length kis = length sel"
    and a: "\<forall>j<length sel. \<exists>r r'.
              buildInput_one env keys (mixcount info) (response_of q) j (sel ! j) r
                = (Inr (kis ! j, rings ! j, reals ! j), r')"
    by blast
  show "length (map Amount_ki kis) = length (map amount sel)" using l by simp
  fix j assume "j < length (map Amount_ki kis)"
  then have j: "j < length sel" using l by simp
  with a obtain r r' where
    "buildInput_one env keys (mixcount info) (response_of q) j (sel ! j) r
       = (Inr (kis ! j, rings ! j, reals ! j), r')"
    by blast
  from buildInput_one_Inr [OF this] have "Amount_ki (kis ! j) = amount (sel ! j)" by blast
  then show "map Amount_ki kis ! j = map amount sel ! j" using j l by simp
qed

lemma signatureTx_Inr:
  "signatureTx env tx kis rings reals = Inr tx' \<Longrightarrow>
     \<exists>items. tx' = tx\<lparr>Signature_tx := Some (RingSignature items)\<rparr>"
  by (auto simp: signatureTx_def Let_def split: sum.splits)

lemma saveFTXOInfo_store:
  "walletStore (saveFTXOInfo env tx token snd' txhash sel wallet)
     = moveUTXO2FTXO env tx token snd' txhash sel (walletStore wallet)"
  by (simp add: saveFTXOInfo_def)

text \<open>What a successful direct private-to-private build did, step by step.\<close>

lemma transPri2PriV2_Inr:
  assumes "transPri2PriV2 env cfg wallet keys req = (Inr hash, wallet')"
  shows "\<exists>kis rings reals sel rng1 view spend out rng2 nonce rng3 tx'.
           buildInput env cfg wallet keys
             \<lparr>tokenname = Tokenname_ss req, sender = Sender_ss req,
              amount_bi = add64 (Amount_ss req) (PrivacyTxFee cfg), mixcount = Mixin_ss req\<rparr>
             = (Inr (Some (kis, rings, reals, sel)), rng1)
         \<and> generateOuts env cfg (Some view) (Some spend)
              (Some (ViewPubkey keys)) (Some (SpendPubkey keys))
              (Amount_ss req) (selectedAmounTotal kis) (PrivacyTxFee cfg) rng1 = (Inr out, rng2)
         \<and> Int63 env rng2 = (nonce, rng3)
         \<and> signatureTx env
              \<lparr>Execer = PrivacyX cfg,
               Payload = Privacy2Privacy (Tokenname_ss req) (Amount_ss req) (Note_ss req) kis out,
               Signature_tx = None, Fee = PrivacyTxFee cfg,
               Expire = getExpire env (Expire_ss req), Nonce = nonce,
               To = ExecAddress env (PrivacyX cfg)\<rparr> kis rings reals = Inr tx'
         \<and> SendTx env tx' = None
         \<and> hash = Hash env tx'
         \<and> wallet' = saveFTXOInfo env tx' (Tokenname_ss req) (Sender_ss req)
                        (Bytes2Hex env hash) sel (wallet\<lparr>random := rng3\<rparr>)"
  using assms unfolding transPri2PriV2_def Let_def
  by (simp split: prod.splits sum.splits option.splits) blast

lemma transPri2PriV2_Inl:
  assumes "transPri2PriV2 env cfg wallet keys req = (Inl err, wallet')"
  shows "walletStore wallet' = walletStore wallet"
  using assms unfolding transPri2PriV2_def Let_def
  by (auto split: prod.splits sum.splits option.splits)

lemma transPri2PubV2_Inr:
  assumes "transPri2PubV2 env cfg wallet keys req = (Inr hash, wallet')"
  shows "\<exists>kis rings reals sel rng1 selectedTotal out rng2 nonce rng3 tx'.
           buildInput env cfg wallet keys
             \<lparr>tokenname = Tokenname_sp req, sender = Sender_sp req,
              amount_bi = add64 (Amount_sp req) (PrivacyTxFee cfg), mixcount = Mixin_sp req\<rparr>
             = (Inr (Some (kis, rings, reals, sel)), rng1)
         \<and> sum_positive kis 0 = Inr selectedTotal
         \<and> generateOuts env cfg None None
              (Some (ViewPubkey keys)) (Some (SpendPubkey keys))
              0 (sub64 selectedTotal (Amount_sp req)) (PrivacyTxFee cfg) rng1 = (Inr out, rng2)
         \<and> Int63 env rng2 = (nonce, rng3)
         \<and> signatureTx env
              \<lparr>Execer = PrivacyX cfg,
               Payload = Privacy2Public (Tokenname_sp req) (Amount_sp req) (Note_sp req) kis out,
               Signature_tx = None, Fee = PrivacyTxFee cfg,
               Expire = getExpire env (Expire_sp req), Nonce = nonce,
               To = Receiver_sp req\<rparr> kis rings reals = Inr tx'
         \<and> SendTx env tx' = None
         \<and> hash = Hash env tx'
         \<and> wallet' = saveFTXOInfo env tx' (Tokenname_sp req) (Sender_sp req)
                        (Bytes2Hex env hash) sel (wallet\<lparr>random := rng3\<rparr>)"
  using assms unfolding transPri2PubV2_def Let_def
  by (simp split: prod.splits sum.splits option.splits) blast

lemma transPri2PubV2_Inl:
  assumes "transPri2PubV2 env cfg wallet keys req = (Inl err, wallet')"
  shows "walletStore wallet' = walletStore wallet"
  using assms unfolding transPri2PubV2_def Let_def
  by (auto split: prod.splits sum.splits option.splits)

lemma sub64_id: "in_int64 (a - b) \<Longrightarrow> sub64 a b = a - b"
  by (simp add: sub64_def wrap64_id)

text \<open>
  The outputs of \<open>generateOuts\<close> sum to the selected amount less the fee, when the
  selected amount covers transfer and fee and stays below \<open>10^18\<close>.
\<close>

lemma generateOuts_sum:
  assumes g: "generateOuts env cfg v s cv cs transAmount selectedAmount fee rng = (Inr out, rng')"
      and t: "0 \<le> transAmount" and f: "0 \<le> fee"
      and c: "transAmount + fee \<le> selectedAmount" and b: "selectedAmount < 10 ^ 18"
  shows "sum_list (map Amount_ko (Keyoutput out)) = selectedAmount - fee"
proof -
  let ?thr = "BTYDustThreshold cfg"
  have "in_int64 (selectedAmount - transAmount)" using t f c b by (simp add: in_int64_def)
  then have s1: "sub64 selectedAmount transAmount = selectedAmount - transAmount"
    by (rule sub64_id)
  have "in_int64 (selectedAmount - transAmount - fee)" using t f c b by (simp add: in_int64_def)
  then have s2: "sub64 (selectedAmount - transAmount) fee = selectedAmount - transAmount - fee"
    by (rule sub64_id)
  let ?change = "selectedAmount - transAmount - fee"
  have c0: "0 \<le> ?change" using c by simp
  have c1: "?change < 10 ^ 18" using t f b by simp
  have t1: "transAmount < 10 ^ 18" using f c b by simp
  have st: "sum_list (decomposeAmount2digits transAmount ?thr) = transAmount"
    using t t1 by (rule decomposeAmount2digits_sum_below)
  have sc: "sum_list (if 0 < ?change then decomposeAmount2digits ?change ?thr else []) = ?change"
  proof (cases "0 < ?change")
    case True
    then show ?thesis using decomposeAmount2digits_sum_below [OF c0 c1] by simp
  next
    case False
    with c0 show ?thesis by simp
  qed
  have "map Amount_ko (Keyoutput out) =
          decomposeAmount2digits transAmount ?thr @
          (if 0 < ?change then decomposeAmount2digits ?change ?thr else [])"
    using generateOuts_amounts [OF g] unfolding s1 s2 .
  then have "sum_list (map Amount_ko (Keyoutput out)) = transAmount + ?change"
    using st sc by (simp only: sum_list_append)
  then show ?thesis by simp
qed


lemma transPub2PriV2_Inr:
  assumes "transPub2PriV2 env cfg wallet priv req = (Inr hash, wallet')"
  shows "\<exists>view spend out rng1 tx.
           generateOuts env cfg (Some view) (Some spend) None None
             (Amount_ps req) (Amount_ps req) 0 (random wallet) = (Inr out, rng1)
         \<and> Payload tx = Public2Privacy (Tokenname_ps req) (Amount_ps req) (Note_ps req) out
         \<and> SendTx env tx = None
         \<and> hash = Hash env tx
         \<and> walletStore wallet' = walletStore wallet"
  using assms unfolding transPub2PriV2_def Let_def
  by (simp split: prod.splits sum.splits option.splits) force

text \<open>What a successful deferred build did: the outputs are frozen for the unsigned
  transaction, and the parameters of the signature are put into its signature field.\<close>

lemma createPrivacy2PrivacyTx_Inr:
  assumes "createPrivacy2PrivacyTx env cfg wallet req = (Inr tx, wallet')"
  shows "\<exists>sel rings reals.
           Signature_tx tx = Some (PrivacySignatureParam rings reals)
         \<and> walletStore wallet' =
             moveUTXO2FTXO env (tx\<lparr>Signature_tx := None\<rparr>) (Tokenname_ct req) (From_ct req)
               (Bytes2Hex env (Hash env (tx\<lparr>Signature_tx := None\<rparr>))) sel (walletStore wallet)"
  using assms unfolding createPrivacy2PrivacyTx_def Let_def
  by (simp split: prod.splits sum.splits option.splits) (force simp: saveFTXOInfo_def)

lemma createPrivacy2PublicTx_Inr:
  assumes "createPrivacy2PublicTx env cfg wallet req = (Inr tx, wallet')"
  shows "\<exists>sel rings reals.
           Signature_tx tx = Some (PrivacySignatureParam rings reals)
         \<and> walletStore wallet' =
             moveUTXO2FTXO env (tx\<lparr>Signature_tx := None\<rparr>) (Tokenname_ct req) (From_ct req)
               (Bytes2Hex env (Hash env (tx\<lparr>Signature_tx := None\<rparr>))) sel (walletStore wallet)"
  using assms unfolding createPrivacy2PublicTx_def Let_def
  by (simp split: prod.splits sum.splits option.splits) (force simp: saveFTXOInfo_def)

section \<open>The example transactions, evaluated\<close>

lemmas demo_decompose_eval =
  decomposeAmount2digits_def decompose_loop.simps decomAmount2Nature_def
  quo64_def rem64_def mul64_def add64_def sub64_def wrap64_def Let_def

lemma decompose_demo:
  "decomposeAmount2digits 100000000 1000000 = [100000000]"
  "decomposeAmount2digits 199000000 1000000 = demo_change"
  "decomposeAmount2digits 300000000 1000000 = [100000000, 200000000]"
  "decomposeAmount2digits 0 1000000 = []"
  by (simp_all add: demo_decompose_eval demo_change_def)

lemma buildInfo_demo:
  "\<lparr>tokenname = ''BTY'', sender = ''alice'', amount_bi = add64 100000000 1000000, mixcount = 5\<rparr>
     = demo_info"
  by (simp add: demo_info_def add64_def wrap64_def)

lemma generateOuts_demo_ss:
  "generateOuts (demo_env_send send) demo_cfg (Some v) (Some s) (Some cv) (Some cs)
     100000000 300000000 1000000 2 = (Inr (demo_outputs (100000000 # demo_change)), 3)"
proof -
  have c: "sub64 (sub64 300000000 100000000) 1000000 = 199000000"
    by (simp add: sub64_def wrap64_def)
  have thr: "BTYDustThreshold demo_cfg = 1000000" by (simp add: demo_cfg_def)
  show ?thesis
    unfolding generateOuts_def thr c Let_def decompose_demo
    by (simp add: demo_env_send_def demo_outputs_def demo_change_def)
qed

lemma generateOuts_demo_sp:
  "generateOuts (demo_env_send send) demo_cfg None None (Some cv) (Some cs)
     0 200000000 1000000 2 = (Inr (demo_outputs demo_change), 3)"
proof -
  have c: "sub64 (sub64 200000000 0) 1000000 = 199000000"
    by (simp add: sub64_def wrap64_def)
  have thr: "BTYDustThreshold demo_cfg = 1000000" by (simp add: demo_cfg_def)
  show ?thesis
    unfolding generateOuts_def thr c Let_def decompose_demo
    by (simp add: demo_env_send_def demo_outputs_def demo_change_def)
qed

lemma generateOuts_demo_ps:
  "generateOuts (demo_env_send send) demo_cfg (Some v) (Some s) None None
     300000000 300000000 0 0 = (Inr (demo_outputs [100000000, 200000000]), 1)"
proof -
  have c: "sub64 (sub64 300000000 300000000) 0 = 0"
    by (simp add: sub64_def wrap64_def)
  have thr: "BTYDustThreshold demo_cfg = 1000000" by (simp add: demo_cfg_def)
  show ?thesis
    unfolding generateOuts_def thr c Let_def decompose_demo
    by (simp add: demo_env_send_def demo_outputs_def)
qed

lemma selectedAmounTotal_demo: "selectedAmounTotal [demo_keyinput] = 300000000"
  by (simp add: selectedAmounTotal_def demo_keyinput_def add64_def wrap64_def)

lemma sum_positive_demo: "sum_positive [demo_keyinput] 0 = Inr 300000000"
  by (simp add: demo_keyinput_def add64_def wrap64_def)

lemma parse_demo:
  "parseViewSpendPubKeyPair (demo_env_send send) s = Inr (replicate 32 1, replicate 32 2)"
  by (simp add: parseViewSpendPubKeyPair_def demo_env_send_def)

lemmas demo_tx_eval =
  demo_env_send_def demo_tx_ss_def demo_tx_sp_def demo_frozen_def demo_wallet_def demo_cfg_def
  signatureTx_def saveFTXOInfo_def demo_hex_def demo_keyinput_def demo_ring_def
  demo_realkey_def demo_out_def

text \<open>
  The direct builds on the example wallet: what they return depends on the answer of the
  chain to the signed transaction.
\<close>

lemma transPri2PriV2_demo_send:
  "transPri2PriV2 (demo_env_send send) demo_cfg demo_wallet demo_keys demo_req_ss =
     (case send (demo_tx_ss\<lparr>Signature_tx := Some (RingSignature [[43]])\<rparr>) of
        Some err \<Rightarrow> (Inl err, demo_wallet\<lparr>random := 4\<rparr>)
      | None \<Rightarrow> (Inr [1], demo_frozen (demo_tx_ss\<lparr>Signature_tx := Some (RingSignature [[43]])\<rparr>)))"
proof -
  have fee: "PrivacyTxFee demo_cfg = 1000000" by (simp add: demo_cfg_def)
  show ?thesis
    unfolding transPri2PriV2_def demo_req_ss_def
    apply (simp only: ReqPri2Pri.simps fee Let_def buildInfo_demo buildInput_demo_send parse_demo
             selectedAmounTotal_demo generateOuts_demo_ss prod.case sum.case option.case)
    apply (simp add: demo_tx_eval split: option.split)
    done
qed

lemma transPri2PubV2_demo_send:
  "transPri2PubV2 (demo_env_send send) demo_cfg demo_wallet demo_keys demo_req_sp =
     (case send (demo_tx_sp\<lparr>Signature_tx := Some (RingSignature [[43]])\<rparr>) of
        Some err \<Rightarrow> (Inl err, demo_wallet\<lparr>random := 4\<rparr>)
      | None \<Rightarrow> (Inr [1], demo_frozen (demo_tx_sp\<lparr>Signature_tx := Some (RingSignature [[43]])\<rparr>)))"
proof -
  have fee: "PrivacyTxFee demo_cfg = 1000000" by (simp add: demo_cfg_def)
  have c: "sub64 300000000 100000000 = 200000000" by (simp add: sub64_def wrap64_def)
  show ?thesis
    unfolding transPri2PubV2_def demo_req_sp_def
    apply (simp only: ReqPri2Pub.simps fee Let_def buildInfo_demo buildInput_demo_send
             sum_positive_demo c generateOuts_demo_sp prod.case sum.case option.case)
    apply (simp add: demo_tx_eval split: option.split)
    done
qed

lemma transPri2PriV2_demo:
  "transPri2PriV2 demo_env demo_cfg demo_wallet demo_keys demo_req_ss =
     (Inr [1], demo_frozen (demo_tx_ss\<lparr>Signature_tx := Some (RingSignature [[43]])\<rparr>))"
  unfolding demo_env_def transPri2PriV2_demo_send by simp

lemma transPri2PubV2_demo:
  "transPri2PubV2 demo_env demo_cfg demo_wallet demo_keys demo_req_sp =
     (Inr [1], demo_frozen (demo_tx_sp\<lparr>Signature_tx := Some (RingSignature [[43]])\<rparr>))"
  unfolding demo_env_def transPri2PubV2_demo_send by simp

lemma transPri2PriV2_demo_reject:
  "transPri2PriV2 demo_env_reject demo_cfg demo_wallet demo_keys demo_req_ss =
     (Inl (ErrCollaborator ''rejected''), demo_wallet\<lparr>random := 4\<rparr>)"
  unfolding demo_env_reject_def transPri2PriV2_demo_send by simp

lemma transPri2PubV2_demo_reject:
  "transPri2PubV2 demo_env_reject demo_cfg demo_wallet demo_keys demo_req_sp =
     (Inl (ErrCollaborator ''rejected''), demo_wallet\<lparr>random := 4\<rparr>)"
  unfolding demo_env_reject_def transPri2PubV2_demo_send by simp

text \<open>The deferred builds on the example wallet.\<close>

lemma getPrivacykeyPair_demo:
  "getPrivacykeyPair (demo_env_send send) st addr = Inr demo_keys"
  by (simp add: demo_env_send_def demo_keys_def)

lemma createPrivacy2PrivacyTx_demo:
  "createPrivacy2PrivacyTx demo_env demo_cfg demo_wallet demo_req_ct =
     (Inr (demo_tx_ss\<lparr>Signature_tx := Some (PrivacySignatureParam [demo_ring] [demo_realkey])\<rparr>),
      demo_frozen demo_tx_ss)"
proof -
  have fee: "PrivacyTxFee demo_cfg = 1000000" by (simp add: demo_cfg_def)
  show ?thesis
    unfolding createPrivacy2PrivacyTx_def demo_req_ct_def demo_env_def
    apply (simp only: ReqCreateTransaction.simps fee Let_def buildInfo_demo getPrivacykeyPair_demo
             buildInput_demo_send parse_demo selectedAmounTotal_demo generateOuts_demo_ss
             prod.case sum.case option.case)
    apply (simp add: demo_tx_eval)
    done
qed

lemma createPrivacy2PublicTx_demo:
  "createPrivacy2PublicTx demo_env demo_cfg demo_wallet demo_req_ct =
     (Inr (demo_tx_sp\<lparr>Signature_tx := Some (PrivacySignatureParam [demo_ring] [demo_realkey])\<rparr>),
      demo_frozen demo_tx_sp)"
proof -
  have fee: "PrivacyTxFee demo_cfg = 1000000" by (simp add: demo_cfg_def)
  have c: "sub64 300000000 100000000 = 200000000" by (simp add: sub64_def wrap64_def)
  show ?thesis
    unfolding createPrivacy2PublicTx_def demo_req_ct_def demo_env_def
    apply (simp only: ReqCreateTransaction.simps fee Let_def buildInfo_demo getPrivacykeyPair_demo
             buildInput_demo_send sum_positive_demo c generateOuts_demo_sp
             prod.case sum.case option.case)
    apply (simp add: demo_tx_eval)
    done
qed

lemma generateOuts_demo_ps1:
  "generateOuts (demo_env_send send) demo_cfg (Some v) (Some s) None None
     100000000 100000000 0 0 = (Inr (demo_outputs [100000000]), 1)"
proof -
  have c: "sub64 (sub64 100000000 100000000) 0 = 0"
    by (simp add: sub64_def wrap64_def)
  have thr: "BTYDustThreshold demo_cfg = 1000000" by (simp add: demo_cfg_def)
  show ?thesis
    unfolding generateOuts_def thr c Let_def decompose_demo
    by (simp add: demo_env_send_def demo_outputs_def)
qed

lemma transPub2PriV2_demo_send:
  "transPub2PriV2 (demo_env_send send) demo_cfg demo_wallet [55] demo_req_ps =
     (case send (demo_tx_ps 300000000 [100000000, 200000000]) of
        Some err \<Rightarrow> (Inl err, demo_wallet\<lparr>random := 2\<rparr>)
      | None \<Rightarrow> (Inr [1], demo_wallet\<lparr>random := 2\<rparr>))"
proof -
  have r: "random demo_wallet = 0" by (simp add: demo_wallet_def)
  show ?thesis
    unfolding transPub2PriV2_def demo_req_ps_def
    apply (simp only: ReqPub2Pri.simps Let_def parse_demo r generateOuts_demo_ps
             prod.case sum.case option.case)
    apply (simp add: demo_env_send_def demo_cfg_def demo_tx_ps_def mul64_def
             wrap64_def split: option.split)
    done
qed

lemma transPub2PriV2_demo_coin:
  "transPub2PriV2 demo_env demo_cfg demo_wallet [55] (demo_req_ps\<lparr>Amount_ps := 100000000\<rparr>) =
     (Inr [1], demo_wallet\<lparr>random := 2\<rparr>)"
proof -
  have r: "random demo_wallet = 0" by (simp add: demo_wallet_def)
  show ?thesis
    unfolding transPub2PriV2_def demo_req_ps_def demo_env_def
    apply (simp only: ReqPub2Pri.simps Let_def parse_demo r generateOuts_demo_ps1
             prod.case sum.case option.case)
    apply (simp add: demo_env_send_def demo_cfg_def mul64_def wrap64_def)
    done
qed

lemma decomposeAmount2digits_coin: "decomposeAmount2digits 100000000 t = [100000000]"
proof (cases "0 < t")
  case False
  then show ?thesis by (simp add: demo_decompose_eval)
next
  case pos: True
  show ?thesis
  proof (cases "100000000 < t")
    case True
    with pos show ?thesis by (simp add: demo_decompose_eval)
  next
    case False
    with pos show ?thesis by (simp add: demo_decompose_eval)
  qed
qed

section \<open>Inversion of the deferred builds, conservation, the closed form of the flush\<close>

lemma createPrivacy2PrivacyTx_build:
  assumes "createPrivacy2PrivacyTx env cfg wallet req = (Inr tx, wallet')"
  shows "\<exists>keys kis rings reals sel rng1 view spend out rng2.
           getPrivacykeyPair env (walletStore wallet) (From_ct req) = Inr keys
         \<and> Signature_tx tx = Some (PrivacySignatureParam rings reals)
         \<and> buildInput env cfg wallet keys
             \<lparr>tokenname = Tokenname_ct req, sender = From_ct req,
              amount_bi = add64 (Amount_ct req) (PrivacyTxFee cfg), mixcount = Mixcount_ct req\<rparr>
             = (Inr (Some (kis, rings, reals, sel)), rng1)
         \<and> generateOuts env cfg (Some view) (Some spend)
              (Some (ViewPubkey keys)) (Some (SpendPubkey keys))
              (Amount_ct req) (selectedAmounTotal kis) (PrivacyTxFee cfg) rng1 = (Inr out, rng2)
         \<and> Payload tx = Privacy2Privacy (Tokenname_ct req) (Amount_ct req) (Note_ct req) kis out
         \<and> Fee tx = PrivacyTxFee cfg
         \<and> walletStore wallet' =
             moveUTXO2FTXO env (tx\<lparr>Signature_tx := None\<rparr>) (Tokenname_ct req) (From_ct req)
               (Bytes2Hex env (Hash env (tx\<lparr>Signature_tx := None\<rparr>))) sel (walletStore wallet)"
  using assms unfolding createPrivacy2PrivacyTx_def Let_def
  by (simp split: prod.splits sum.splits option.splits) (force simp: saveFTXOInfo_def)

lemma createPrivacy2PublicTx_build:
  assumes "createPrivacy2PublicTx env cfg wallet req = (Inr tx, wallet')"
  shows "\<exists>keys kis rings reals sel rng1 selectedTotal out rng2.
           getPrivacykeyPair env (walletStore wallet) (From_ct req) = Inr keys
         \<and> Signature_tx tx = Some (PrivacySignatureParam rings reals)
         \<and> buildInput env cfg wallet keys
             \<lparr>tokenname = Tokenname_ct req, sender = From_ct req,
              amount_bi = add64 (Amount_ct req) (PrivacyTxFee cfg), mixcount = Mixcount_ct req\<rparr>
             = (Inr (Some (kis, rings, reals, sel)), rng1)
         \<and> sum_positive kis 0 = Inr selectedTotal
         \<and> generateOuts env cfg None None
              (Some (ViewPubkey keys)) (Some (SpendPubkey keys))
              0 (sub64 selectedTotal (Amount_ct req)) (PrivacyTxFee cfg) rng1 = (Inr out, rng2)
         \<and> Payload tx = Privacy2Public (Tokenname_ct req) (Amount_ct req) (Note_ct req) kis out
         \<and> Fee tx = PrivacyTxFee cfg
         \<and> walletStore wallet' =
             moveUTXO2FTXO env (tx\<lparr>Signature_tx := None\<rparr>) (Tokenname_ct req) (From_ct req)
               (Bytes2Hex env (Hash env (tx\<lparr>Signature_tx := None\<rparr>))) sel (walletStore wallet)"
  using assms unfolding createPrivacy2PublicTx_def Let_def
  by (simp split: prod.splits sum.splits option.splits) (force simp: saveFTXOInfo_def)

lemma createPublic2PrivacyTx_Inr:
  assumes "createPublic2PrivacyTx env cfg wallet req = (Inr tx, wallet')"
  shows "\<exists>view spend out rng1.
           generateOuts env cfg (Some view) (Some spend) None None
             (Amount_ct req) (Amount_ct req) 0 (random wallet) = (Inr out, rng1)
         \<and> Payload tx = Public2Privacy (Tokenname_ct req) (Amount_ct req) (Note_ct req) out
         \<and> Signature_tx tx = Some (PrivacySignatureParam [] [])
         \<and> walletStore wallet' = walletStore wallet"
  using assms unfolding createPublic2PrivacyTx_def Let_def
  by (simp split: prod.splits sum.splits option.splits) force

lemma createPublic2PrivacyTx_demo:
  "createPublic2PrivacyTx demo_env demo_cfg demo_wallet (demo_req_ct\<lparr>Type_ct := 1\<rparr>) =
     (Inr (demo_tx_ps 100000000 [100000000]
             \<lparr>Signature_tx := Some (PrivacySignatureParam [] [])\<rparr>),
      demo_wallet\<lparr>random := 2\<rparr>)"
proof -
  have r: "random demo_wallet = 0" by (simp add: demo_wallet_def)
  show ?thesis
    unfolding createPublic2PrivacyTx_def demo_req_ct_def demo_env_def
    apply (simp only: ReqCreateTransaction.simps Let_def parse_demo r generateOuts_demo_ps1
             prod.case sum.case option.case)
    apply (simp add: demo_env_send_def demo_cfg_def demo_tx_ps_def mul64_def wrap64_def)
    done
qed

lemma conserve_private:
  assumes b: "buildInput env cfg wallet keys info = (Inr (Some (kis, rings, reals, sel)), rng1)"
      and g: "generateOuts env cfg v s cv cs a (selectedAmounTotal kis) fee rng1 = (Inr out, rng2)"
      and p: "0 < a" "0 \<le> fee" "list_all (\<lambda>u. 0 \<le> amount u) sel"
             "sum_list (map amount sel) < 10 ^ 18" "a + fee \<le> sum_list (map amount sel)"
  shows "sum_list (map amount sel) = sum_list (map Amount_ko (Keyoutput out)) + fee"
proof -
  have am: "map Amount_ki kis = map amount sel" by (rule buildInput_amounts [OF b])
  have nn: "list_all (\<lambda>x. 0 \<le> x) (map Amount_ki kis)"
    unfolding am using p(3) by (simp add: list_all_iff)
  have "(10::int) ^ 18 < 2 ^ 63" by simp
  with p(4) have lt: "sum_list (map Amount_ki kis) < 2 ^ 63" unfolding am by linarith
  have tot: "selectedAmounTotal kis = sum_list (map amount sel)"
    using selectedAmounTotal_sum [OF nn lt] unfolding am .
  from p(1) have a0: "0 \<le> a" by simp
  have "sum_list (map Amount_ko (Keyoutput out)) = sum_list (map amount sel) - fee"
    by (rule generateOuts_sum [OF g [unfolded tot] a0 p(2) p(5) p(4)])
  then show ?thesis by simp
qed

lemma conserve_public:
  assumes b: "buildInput env cfg wallet keys info = (Inr (Some (kis, rings, reals, sel)), rng1)"
      and sp: "sum_positive kis 0 = Inr t"
      and g: "generateOuts env cfg v s cv cs 0 (sub64 t a) fee rng1 = (Inr out, rng2)"
      and p: "0 < a" "0 \<le> fee"
             "sum_list (map amount sel) < 10 ^ 18" "a + fee \<le> sum_list (map amount sel)"
  shows "sum_list (map amount sel) = sum_list (map Amount_ko (Keyoutput out)) + a + fee"
proof -
  have am: "map Amount_ki kis = map amount sel" by (rule buildInput_amounts [OF b])
  have big: "(10::int) ^ 18 < 2 ^ 63" by simp
  with p(3) have lt: "0 + sum_list (map Amount_ki kis) < 2 ^ 63" unfolding am by linarith
  have t: "t = sum_list (map amount sel)"
    using sum_positive_sum [OF sp _ lt] unfolding am by simp
  have "in_int64 (t - a)"
    unfolding t using p big by (intro in_int64_I) linarith+
  then have ch: "sub64 t a = sum_list (map amount sel) - a" unfolding t by (rule sub64_id)
  have c: "0 + fee \<le> sum_list (map amount sel) - a" using p(4) by simp
  have d: "sum_list (map amount sel) - a < 10 ^ 18" using p(1) p(3) by linarith
  have "sum_list (map Amount_ko (Keyoutput out)) = sum_list (map amount sel) - a - fee"
    by (rule generateOuts_sum [OF g [unfolded ch] order_refl p(2) c d])
  then show ?thesis by simp
qed




section \<open>The claims on the builds\<close>

text \<open>
  C7 (value conservation), as amended. For every successful privacy-to-privacy build,
  direct (\<open>transPri2PriV2\<close>) or deferred (\<open>createPrivacy2PrivacyTx\<close>), with the
  selected outputs those that \<open>buildInput\<close> returned and that the build freezes, the
  amounts of the key inputs are those of the selected outputs, and when the transfer amount is
  positive, the fee and the selected amounts are not negative, the selected total is
  below \<open>10^18\<close> and covers amount plus fee, the selected total equals the total of
  the key outputs plus the fee. For every successful privacy-to-public build
  (\<open>transPri2PubV2\<close>, \<open>createPrivacy2PublicTx\<close>), under the same conditions, the
  selected total equals the total of the key outputs plus the transfer amount plus the
  fee: the transfer amount leaves for the public account and is in no key output.
\<close>

theorem value_conservation:
  "(transPri2PriV2 env cfg wallet keys rss = (Inr h1, w1) \<longrightarrow>
      (\<exists>tx kis rings reals out sel rng1.
           buildInput env cfg wallet keys
             \<lparr>tokenname = Tokenname_ss rss, sender = Sender_ss rss,
              amount_bi = add64 (Amount_ss rss) (PrivacyTxFee cfg), mixcount = Mixin_ss rss\<rparr>
             = (Inr (Some (kis, rings, reals, sel)), rng1)
         \<and> SendTx env tx = None \<and> h1 = Hash env tx
         \<and> Payload tx = Privacy2Privacy (Tokenname_ss rss) (Amount_ss rss) (Note_ss rss) kis out
         \<and> Fee tx = PrivacyTxFee cfg
         \<and> walletStore w1 = moveUTXO2FTXO env tx (Tokenname_ss rss) (Sender_ss rss)
                               (Bytes2Hex env h1) sel (walletStore wallet)
         \<and> map Amount_ki kis = map amount sel
         \<and> (0 < Amount_ss rss \<and> 0 \<le> PrivacyTxFee cfg \<and> list_all (\<lambda>u. 0 \<le> amount u) sel
              \<and> sum_list (map amount sel) < 10 ^ 18
              \<and> Amount_ss rss + PrivacyTxFee cfg \<le> sum_list (map amount sel)
            \<longrightarrow> sum_list (map amount sel)
                  = sum_list (map Amount_ko (Keyoutput out)) + Fee tx)))
   \<and> (transPri2PubV2 env cfg wallet keys rsp = (Inr h2, w2) \<longrightarrow>
      (\<exists>tx kis rings reals out sel rng1.
           buildInput env cfg wallet keys
             \<lparr>tokenname = Tokenname_sp rsp, sender = Sender_sp rsp,
              amount_bi = add64 (Amount_sp rsp) (PrivacyTxFee cfg), mixcount = Mixin_sp rsp\<rparr>
             = (Inr (Some (kis, rings, reals, sel)), rng1)
         \<and> SendTx env tx = None \<and> h2 = Hash env tx
         \<and> Payload tx = Privacy2Public (Tokenname_sp rsp) (Amount_sp rsp) (Note_sp rsp) kis out
         \<and> Fee tx = PrivacyTxFee cfg
         \<and> walletStore w2 = moveUTXO2FTXO env tx (Tokenname_sp rsp) (Sender_sp rsp)
                               (Bytes2Hex env h2) sel (walletStore wallet)
         \<and> map Amount_ki kis = map amount sel
         \<and> (0 < Amount_sp rsp \<and> 0 \<le> PrivacyTxFee cfg
              \<and> sum_list (map amount sel) < 10 ^ 18
              \<and> Amount_sp rsp + PrivacyTxFee cfg \<le> sum_list (map amount sel)
            \<longrightarrow> sum_list (map amount sel)
                  = sum_list (map Amount_ko (Keyoutput out)) + Amount_sp rsp + Fee tx)))
   \<and> (createPrivacy2PrivacyTx env cfg wallet rc3 = (Inr tx3, w3) \<longrightarrow>
      (\<exists>keys kis rings reals out sel rng1.
           getPrivacykeyPair env (walletStore wallet) (From_ct rc3) = Inr keys
         \<and> buildInput env cfg wallet keys
             \<lparr>tokenname = Tokenname_ct rc3, sender = From_ct rc3,
              amount_bi = add64 (Amount_ct rc3) (PrivacyTxFee cfg), mixcount = Mixcount_ct rc3\<rparr>
             = (Inr (Some (kis, rings, reals, sel)), rng1)
         \<and> Payload tx3 = Privacy2Privacy (Tokenname_ct rc3) (Amount_ct rc3) (Note_ct rc3) kis out
         \<and> Fee tx3 = PrivacyTxFee cfg
         \<and> walletStore w3 =
             moveUTXO2FTXO env (tx3\<lparr>Signature_tx := None\<rparr>) (Tokenname_ct rc3) (From_ct rc3)
               (Bytes2Hex env (Hash env (tx3\<lparr>Signature_tx := None\<rparr>))) sel (walletStore wallet)
         \<and> map Amount_ki kis = map amount sel
         \<and> (0 < Amount_ct rc3 \<and> 0 \<le> PrivacyTxFee cfg \<and> list_all (\<lambda>u. 0 \<le> amount u) sel
              \<and> sum_list (map amount sel) < 10 ^ 18
              \<and> Amount_ct rc3 + PrivacyTxFee cfg \<le> sum_list (map amount sel)
            \<longrightarrow> sum_list (map amount sel)
                  = sum_list (map Amount_ko (Keyoutput out)) + Fee tx3)))
   \<and> (createPrivacy2PublicTx env cfg wallet rc4 = (Inr tx4, w4) \<longrightarrow>
      (\<exists>keys kis rings reals out sel rng1.
           getPrivacykeyPair env (walletStore wallet) (From_ct rc4) = Inr keys
         \<and> buildInput env cfg wallet keys
             \<lparr>tokenname = Tokenname_ct rc4, sender = From_ct rc4,
              amount_bi = add64 (Amount_ct rc4) (PrivacyTxFee cfg), mixcount = Mixcount_ct rc4\<rparr>
             = (Inr (Some (kis, rings, reals, sel)), rng1)
         \<and> Payload tx4 = Privacy2Public (Tokenname_ct rc4) (Amount_ct rc4) (Note_ct rc4) kis out
         \<and> Fee tx4 = PrivacyTxFee cfg
         \<and> walletStore w4 =
             moveUTXO2FTXO env (tx4\<lparr>Signature_tx := None\<rparr>) (Tokenname_ct rc4) (From_ct rc4)
               (Bytes2Hex env (Hash env (tx4\<lparr>Signature_tx := None\<rparr>))) sel (walletStore wallet)
         \<and> map Amount_ki kis = map amount sel
         \<and> (0 < Amount_ct rc4 \<and> 0 \<le> PrivacyTxFee cfg
              \<and> sum_list (map amount sel) < 10 ^ 18
              \<and> Amount_ct rc4 + PrivacyTxFee cfg \<le> sum_list (map amount sel)
            \<longrightarrow> sum_list (map amount sel)
                  = sum_list (map Amount_ko (Keyoutput out)) + Amount_ct rc4 + Fee tx4)))"
proof (intro conjI impI)
  assume a: "transPri2PriV2 env cfg wallet keys rss = (Inr h1, w1)"
  from transPri2PriV2_Inr [OF a]
  obtain kis rings reals sel rng1 v s out rng2 nonce rng3 tx' where
    b: "buildInput env cfg wallet keys
             \<lparr>tokenname = Tokenname_ss rss, sender = Sender_ss rss,
              amount_bi = add64 (Amount_ss rss) (PrivacyTxFee cfg), mixcount = Mixin_ss rss\<rparr>
             = (Inr (Some (kis, rings, reals, sel)), rng1)"
    and g: "generateOuts env cfg (Some v) (Some s)
              (Some (ViewPubkey keys)) (Some (SpendPubkey keys))
              (Amount_ss rss) (selectedAmounTotal kis) (PrivacyTxFee cfg) rng1 = (Inr out, rng2)"
    and sg: "signatureTx env
              \<lparr>Execer = PrivacyX cfg,
               Payload = Privacy2Privacy (Tokenname_ss rss) (Amount_ss rss) (Note_ss rss) kis out,
               Signature_tx = None, Fee = PrivacyTxFee cfg,
               Expire = getExpire env (Expire_ss rss), Nonce = nonce,
               To = ExecAddress env (PrivacyX cfg)\<rparr> kis rings reals = Inr tx'"
    and st: "SendTx env tx' = None" and h: "h1 = Hash env tx'"
    and w: "w1 = saveFTXOInfo env tx' (Tokenname_ss rss) (Sender_ss rss)
                        (Bytes2Hex env h1) sel (wallet\<lparr>random := rng3\<rparr>)"
    by blast
  from signatureTx_Inr [OF sg]
  have pay: "Payload tx' = Privacy2Privacy (Tokenname_ss rss) (Amount_ss rss) (Note_ss rss) kis out"
    and fee: "Fee tx' = PrivacyTxFee cfg"
    by auto
  have am: "map Amount_ki kis = map amount sel" by (rule buildInput_amounts [OF b])
  have store: "walletStore w1 = moveUTXO2FTXO env tx' (Tokenname_ss rss) (Sender_ss rss)
                               (Bytes2Hex env h1) sel (walletStore wallet)"
    unfolding w saveFTXOInfo_store by simp
  have cons: "sum_list (map amount sel) = sum_list (map Amount_ko (Keyoutput out)) + Fee tx'"
    if "0 < Amount_ss rss \<and> 0 \<le> PrivacyTxFee cfg \<and> list_all (\<lambda>u. 0 \<le> amount u) sel
              \<and> sum_list (map amount sel) < 10 ^ 18
              \<and> Amount_ss rss + PrivacyTxFee cfg \<le> sum_list (map amount sel)"
    unfolding fee using that by (intro conserve_private [OF b g]) simp_all
  show "\<exists>tx kis rings reals out sel rng1.
           buildInput env cfg wallet keys
             \<lparr>tokenname = Tokenname_ss rss, sender = Sender_ss rss,
              amount_bi = add64 (Amount_ss rss) (PrivacyTxFee cfg), mixcount = Mixin_ss rss\<rparr>
             = (Inr (Some (kis, rings, reals, sel)), rng1)
         \<and> SendTx env tx = None \<and> h1 = Hash env tx
         \<and> Payload tx = Privacy2Privacy (Tokenname_ss rss) (Amount_ss rss) (Note_ss rss) kis out
         \<and> Fee tx = PrivacyTxFee cfg
         \<and> walletStore w1 = moveUTXO2FTXO env tx (Tokenname_ss rss) (Sender_ss rss)
                               (Bytes2Hex env h1) sel (walletStore wallet)
         \<and> map Amount_ki kis = map amount sel
         \<and> (0 < Amount_ss rss \<and> 0 \<le> PrivacyTxFee cfg \<and> list_all (\<lambda>u. 0 \<le> amount u) sel
              \<and> sum_list (map amount sel) < 10 ^ 18
              \<and> Amount_ss rss + PrivacyTxFee cfg \<le> sum_list (map amount sel)
            \<longrightarrow> sum_list (map amount sel)
                  = sum_list (map Amount_ko (Keyoutput out)) + Fee tx)"
    apply (rule exI [of _ tx'], rule exI [of _ kis], rule exI [of _ rings], rule exI [of _ reals],
        rule exI [of _ out], rule exI [of _ sel], rule exI [of _ rng1])
    using b st h pay fee store am cons by simp
next
  assume a: "transPri2PubV2 env cfg wallet keys rsp = (Inr h2, w2)"
  from transPri2PubV2_Inr [OF a]
  obtain kis rings reals sel rng1 t out rng2 nonce rng3 tx' where
    b: "buildInput env cfg wallet keys
             \<lparr>tokenname = Tokenname_sp rsp, sender = Sender_sp rsp,
              amount_bi = add64 (Amount_sp rsp) (PrivacyTxFee cfg), mixcount = Mixin_sp rsp\<rparr>
             = (Inr (Some (kis, rings, reals, sel)), rng1)"
    and sp: "sum_positive kis 0 = Inr t"
    and g: "generateOuts env cfg None None
              (Some (ViewPubkey keys)) (Some (SpendPubkey keys))
              0 (sub64 t (Amount_sp rsp)) (PrivacyTxFee cfg) rng1 = (Inr out, rng2)"
    and sg: "signatureTx env
              \<lparr>Execer = PrivacyX cfg,
               Payload = Privacy2Public (Tokenname_sp rsp) (Amount_sp rsp) (Note_sp rsp) kis out,
               Signature_tx = None, Fee = PrivacyTxFee cfg,
               Expire = getExpire env (Expire_sp rsp), Nonce = nonce,
               To = Receiver_sp rsp\<rparr> kis rings reals = Inr tx'"
    and st: "SendTx env tx' = None" and h: "h2 = Hash env tx'"
    and w: "w2 = saveFTXOInfo env tx' (Tokenname_sp rsp) (Sender_sp rsp)
                        (Bytes2Hex env h2) sel (wallet\<lparr>random := rng3\<rparr>)"
    by blast
  from signatureTx_Inr [OF sg]
  have pay: "Payload tx' = Privacy2Public (Tokenname_sp rsp) (Amount_sp rsp) (Note_sp rsp) kis out"
    and fee: "Fee tx' = PrivacyTxFee cfg"
    by auto
  have am: "map Amount_ki kis = map amount sel" by (rule buildInput_amounts [OF b])
  have store: "walletStore w2 = moveUTXO2FTXO env tx' (Tokenname_sp rsp) (Sender_sp rsp)
                               (Bytes2Hex env h2) sel (walletStore wallet)"
    unfolding w saveFTXOInfo_store by simp
  have cons: "sum_list (map amount sel)
                = sum_list (map Amount_ko (Keyoutput out)) + Amount_sp rsp + Fee tx'"
    if "0 < Amount_sp rsp \<and> 0 \<le> PrivacyTxFee cfg
              \<and> sum_list (map amount sel) < 10 ^ 18
              \<and> Amount_sp rsp + PrivacyTxFee cfg \<le> sum_list (map amount sel)"
    unfolding fee using that by (intro conserve_public [OF b sp g]) simp_all
  show "\<exists>tx kis rings reals out sel rng1.
           buildInput env cfg wallet keys
             \<lparr>tokenname = Tokenname_sp rsp, sender = Sender_sp rsp,
              amount_bi = add64 (Amount_sp rsp) (PrivacyTxFee cfg), mixcount = Mixin_sp rsp\<rparr>
             = (Inr (Some (kis, rings, reals, sel)), rng1)
         \<and> SendTx env tx = None \<and> h2 = Hash env tx
         \<and> Payload tx = Privacy2Public (Tokenname_sp rsp) (Amount_sp rsp) (Note_sp rsp) kis out
         \<and> Fee tx = PrivacyTxFee cfg
         \<and> walletStore w2 = moveUTXO2FTXO env tx (Tokenname_sp rsp) (Sender_sp rsp)
                               (Bytes2Hex env h2) sel (walletStore wallet)
         \<and> map Amount_ki kis = map amount sel
         \<and> (0 < Amount_sp rsp \<and> 0 \<le> PrivacyTxFee cfg
              \<and> sum_list (map amount sel) < 10 ^ 18
              \<and> Amount_sp rsp + PrivacyTxFee cfg \<le> sum_list (map amount sel)
            \<longrightarrow> sum_list (map amount sel)
                  = sum_list (map Amount_ko (Keyoutput out)) + Amount_sp rsp + Fee tx)"
    apply (rule exI [of _ tx'], rule exI [of _ kis], rule exI [of _ rings], rule exI [of _ reals],
        rule exI [of _ out], rule exI [of _ sel], rule exI [of _ rng1])
    using b st h pay fee store am cons by simp
next
  assume a: "createPrivacy2PrivacyTx env cfg wallet rc3 = (Inr tx3, w3)"
  from createPrivacy2PrivacyTx_build [OF a]
  obtain keys' kis rings reals sel rng1 v s out rng2 where
    gk: "getPrivacykeyPair env (walletStore wallet) (From_ct rc3) = Inr keys'"
    and b: "buildInput env cfg wallet keys'
             \<lparr>tokenname = Tokenname_ct rc3, sender = From_ct rc3,
              amount_bi = add64 (Amount_ct rc3) (PrivacyTxFee cfg), mixcount = Mixcount_ct rc3\<rparr>
             = (Inr (Some (kis, rings, reals, sel)), rng1)"
    and g: "generateOuts env cfg (Some v) (Some s)
              (Some (ViewPubkey keys')) (Some (SpendPubkey keys'))
              (Amount_ct rc3) (selectedAmounTotal kis) (PrivacyTxFee cfg) rng1 = (Inr out, rng2)"
    and pay: "Payload tx3
                = Privacy2Privacy (Tokenname_ct rc3) (Amount_ct rc3) (Note_ct rc3) kis out"
    and fee: "Fee tx3 = PrivacyTxFee cfg"
    and store: "walletStore w3 =
             moveUTXO2FTXO env (tx3\<lparr>Signature_tx := None\<rparr>) (Tokenname_ct rc3) (From_ct rc3)
               (Bytes2Hex env (Hash env (tx3\<lparr>Signature_tx := None\<rparr>))) sel (walletStore wallet)"
    by blast
  have am: "map Amount_ki kis = map amount sel" by (rule buildInput_amounts [OF b])
  have cons: "sum_list (map amount sel) = sum_list (map Amount_ko (Keyoutput out)) + Fee tx3"
    if "0 < Amount_ct rc3 \<and> 0 \<le> PrivacyTxFee cfg \<and> list_all (\<lambda>u. 0 \<le> amount u) sel
              \<and> sum_list (map amount sel) < 10 ^ 18
              \<and> Amount_ct rc3 + PrivacyTxFee cfg \<le> sum_list (map amount sel)"
    unfolding fee using that by (intro conserve_private [OF b g]) simp_all
  show "\<exists>keys kis rings reals out sel rng1.
           getPrivacykeyPair env (walletStore wallet) (From_ct rc3) = Inr keys
         \<and> buildInput env cfg wallet keys
             \<lparr>tokenname = Tokenname_ct rc3, sender = From_ct rc3,
              amount_bi = add64 (Amount_ct rc3) (PrivacyTxFee cfg), mixcount = Mixcount_ct rc3\<rparr>
             = (Inr (Some (kis, rings, reals, sel)), rng1)
         \<and> Payload tx3 = Privacy2Privacy (Tokenname_ct rc3) (Amount_ct rc3) (Note_ct rc3) kis out
         \<and> Fee tx3 = PrivacyTxFee cfg
         \<and> walletStore w3 =
             moveUTXO2FTXO env (tx3\<lparr>Signature_tx := None\<rparr>) (Tokenname_ct rc3) (From_ct rc3)
               (Bytes2Hex env (Hash env (tx3\<lparr>Signature_tx := None\<rparr>))) sel (walletStore wallet)
         \<and> map Amount_ki kis = map amount sel
         \<and> (0 < Amount_ct rc3 \<and> 0 \<le> PrivacyTxFee cfg \<and> list_all (\<lambda>u. 0 \<le> amount u) sel
              \<and> sum_list (map amount sel) < 10 ^ 18
              \<and> Amount_ct rc3 + PrivacyTxFee cfg \<le> sum_list (map amount sel)
            \<longrightarrow> sum_list (map amount sel)
                  = sum_list (map Amount_ko (Keyoutput out)) + Fee tx3)"
    apply (rule exI [of _ keys'], rule exI [of _ kis], rule exI [of _ rings], rule exI [of _ reals],
        rule exI [of _ out], rule exI [of _ sel], rule exI [of _ rng1])
    using gk b pay fee store am cons by simp
next
  assume a: "createPrivacy2PublicTx env cfg wallet rc4 = (Inr tx4, w4)"
  from createPrivacy2PublicTx_build [OF a]
  obtain keys' kis rings reals sel rng1 t out rng2 where
    gk: "getPrivacykeyPair env (walletStore wallet) (From_ct rc4) = Inr keys'"
    and b: "buildInput env cfg wallet keys'
             \<lparr>tokenname = Tokenname_ct rc4, sender = From_ct rc4,
              amount_bi = add64 (Amount_ct rc4) (PrivacyTxFee cfg), mixcount = Mixcount_ct rc4\<rparr>
             = (Inr (Some (kis, rings, reals, sel)), rng1)"
    and sp: "sum_positive kis 0 = Inr t"
    and g: "generateOuts env cfg None None
              (Some (ViewPubkey keys')) (Some (SpendPubkey keys'))
              0 (sub64 t (Amount_ct rc4)) (PrivacyTxFee cfg) rng1 = (Inr out, rng2)"
    and pay: "Payload tx4
                = Privacy2Public (Tokenname_ct rc4) (Amount_ct rc4) (Note_ct rc4) kis out"
    and fee: "Fee tx4 = PrivacyTxFee cfg"
    and store: "walletStore w4 =
             moveUTXO2FTXO env (tx4\<lparr>Signature_tx := None\<rparr>) (Tokenname_ct rc4) (From_ct rc4)
               (Bytes2Hex env (Hash env (tx4\<lparr>Signature_tx := None\<rparr>))) sel (walletStore wallet)"
    by blast
  have am: "map Amount_ki kis = map amount sel" by (rule buildInput_amounts [OF b])
  have cons: "sum_list (map amount sel)
                = sum_list (map Amount_ko (Keyoutput out)) + Amount_ct rc4 + Fee tx4"
    if "0 < Amount_ct rc4 \<and> 0 \<le> PrivacyTxFee cfg
              \<and> sum_list (map amount sel) < 10 ^ 18
              \<and> Amount_ct rc4 + PrivacyTxFee cfg \<le> sum_list (map amount sel)"
    unfolding fee using that by (intro conserve_public [OF b sp g]) simp_all
  show "\<exists>keys kis rings reals out sel rng1.
           getPrivacykeyPair env (walletStore wallet) (From_ct rc4) = Inr keys
         \<and> buildInput env cfg wallet keys
             \<lparr>tokenname = Tokenname_ct rc4, sender = From_ct rc4,
              amount_bi = add64 (Amount_ct rc4) (PrivacyTxFee cfg), mixcount = Mixcount_ct rc4\<rparr>
             = (Inr (Some (kis, rings, reals, sel)), rng1)
         \<and> Payload tx4 = Privacy2Public (Tokenname_ct rc4) (Amount_ct rc4) (Note_ct rc4) kis out
         \<and> Fee tx4 = PrivacyTxFee cfg
         \<and> walletStore w4 =
             moveUTXO2FTXO env (tx4\<lparr>Signature_tx := None\<rparr>) (Tokenname_ct rc4) (From_ct rc4)
               (Bytes2Hex env (Hash env (tx4\<lparr>Signature_tx := None\<rparr>))) sel (walletStore wallet)
         \<and> map Amount_ki kis = map amount sel
         \<and> (0 < Amount_ct rc4 \<and> 0 \<le> PrivacyTxFee cfg
              \<and> sum_list (map amount sel) < 10 ^ 18
              \<and> Amount_ct rc4 + PrivacyTxFee cfg \<le> sum_list (map amount sel)
            \<longrightarrow> sum_list (map amount sel)
                  = sum_list (map Amount_ko (Keyoutput out)) + Amount_ct rc4 + Fee tx4)"
    apply (rule exI [of _ keys'], rule exI [of _ kis], rule exI [of _ rings], rule exI [of _ reals],
        rule exI [of _ out], rule exI [of _ sel], rule exI [of _ rng1])
    using gk b pay fee store am cons by simp
qed

theorem value_conservation_witness:
  "transPri2PriV2 demo_env demo_cfg demo_wallet demo_keys demo_req_ss
     = (Inr [1], demo_frozen (demo_tx_ss\<lparr>Signature_tx := Some (RingSignature [[43]])\<rparr>))
   \<and> transPri2PubV2 demo_env demo_cfg demo_wallet demo_keys demo_req_sp
     = (Inr [1], demo_frozen (demo_tx_sp\<lparr>Signature_tx := Some (RingSignature [[43]])\<rparr>))
   \<and> createPrivacy2PrivacyTx demo_env demo_cfg demo_wallet demo_req_ct
     = (Inr (demo_tx_ss\<lparr>Signature_tx := Some (PrivacySignatureParam [demo_ring] [demo_realkey])\<rparr>),
        demo_frozen demo_tx_ss)
   \<and> createPrivacy2PublicTx demo_env demo_cfg demo_wallet demo_req_ct
     = (Inr (demo_tx_sp\<lparr>Signature_tx := Some (PrivacySignatureParam [demo_ring] [demo_realkey])\<rparr>),
        demo_frozen demo_tx_sp)
   \<and> 0 < Amount_ss demo_req_ss \<and> 0 < Amount_sp demo_req_sp \<and> 0 < Amount_ct demo_req_ct
   \<and> 0 \<le> PrivacyTxFee demo_cfg
   \<and> list_all (\<lambda>u. 0 \<le> amount u) [demo_out]
   \<and> sum_list (map amount [demo_out]) < 10 ^ 18
   \<and> Amount_ss demo_req_ss + PrivacyTxFee demo_cfg \<le> sum_list (map amount [demo_out])
   \<and> Amount_sp demo_req_sp + PrivacyTxFee demo_cfg \<le> sum_list (map amount [demo_out])
   \<and> Amount_ct demo_req_ct + PrivacyTxFee demo_cfg \<le> sum_list (map amount [demo_out])
   \<and> sum_list (map amount [demo_out])
       = sum_list (map Amount_ko (Keyoutput (demo_outputs (100000000 # demo_change)))) + 1000000
   \<and> sum_list (map amount [demo_out])
       = sum_list (map Amount_ko (Keyoutput (demo_outputs demo_change))) + 100000000 + 1000000
   \<and> sum_list (map amount [demo_out])
       = sum_list (map Amount_ko (Keyoutput (demo_outputs (100000000 # demo_change))))
         + Fee (demo_tx_ss\<lparr>Signature_tx :=
                  Some (PrivacySignatureParam [demo_ring] [demo_realkey])\<rparr>)
   \<and> sum_list (map amount [demo_out])
       = sum_list (map Amount_ko (Keyoutput (demo_outputs demo_change)))
         + Amount_ct demo_req_ct
         + Fee (demo_tx_sp\<lparr>Signature_tx :=
                  Some (PrivacySignatureParam [demo_ring] [demo_realkey])\<rparr>)"
proof -
  let ?sss = "demo_tx_ss\<lparr>Signature_tx := Some (RingSignature [[43]])\<rparr>"
  let ?ssp = "demo_tx_sp\<lparr>Signature_tx := Some (RingSignature [[43]])\<rparr>"
  let ?dss = "demo_tx_ss\<lparr>Signature_tx := Some (PrivacySignatureParam [demo_ring] [demo_realkey])\<rparr>"
  let ?dsp = "demo_tx_sp\<lparr>Signature_tx := Some (PrivacySignatureParam [demo_ring] [demo_realkey])\<rparr>"
  note v = value_conservation [of demo_env demo_cfg demo_wallet demo_keys
      demo_req_ss "[1]" "demo_frozen ?sss" demo_req_sp "[1]" "demo_frozen ?ssp"
      demo_req_ct ?dss "demo_frozen demo_tx_ss" demo_req_ct ?dsp "demo_frozen demo_tx_sp"]
  have hyp: "0 < Amount_ss demo_req_ss" "0 < Amount_sp demo_req_sp" "0 < Amount_ct demo_req_ct"
    "0 \<le> PrivacyTxFee demo_cfg"
    "list_all (\<lambda>u. 0 \<le> amount u) [demo_out]"
    "sum_list (map amount [demo_out]) < 10 ^ 18"
    "Amount_ss demo_req_ss + PrivacyTxFee demo_cfg \<le> sum_list (map amount [demo_out])"
    "Amount_sp demo_req_sp + PrivacyTxFee demo_cfg \<le> sum_list (map amount [demo_out])"
    "Amount_ct demo_req_ct + PrivacyTxFee demo_cfg \<le> sum_list (map amount [demo_out])"
    by (simp_all add: demo_req_ss_def demo_req_sp_def demo_req_ct_def demo_cfg_def demo_out_def)
  have r1: "sum_list (map amount [demo_out])
       = sum_list (map Amount_ko (Keyoutput (demo_outputs (100000000 # demo_change)))) + 1000000"
  proof -
    from v [THEN conjunct1, rule_format, OF transPri2PriV2_demo]
    obtain tx kis out sel where
      p: "Payload tx = Privacy2Privacy (Tokenname_ss demo_req_ss) (Amount_ss demo_req_ss)
                         (Note_ss demo_req_ss) kis out"
      and f: "Fee tx = PrivacyTxFee demo_cfg"
      and s: "walletStore (demo_frozen ?sss)
                = moveUTXO2FTXO demo_env tx (Tokenname_ss demo_req_ss) (Sender_ss demo_req_ss)
                    (Bytes2Hex demo_env [1]) sel (walletStore demo_wallet)"
      and c: "0 < Amount_ss demo_req_ss \<and> 0 \<le> PrivacyTxFee demo_cfg
              \<and> list_all (\<lambda>u. 0 \<le> amount u) sel
              \<and> sum_list (map amount sel) < 10 ^ 18
              \<and> Amount_ss demo_req_ss + PrivacyTxFee demo_cfg \<le> sum_list (map amount sel)
            \<longrightarrow> sum_list (map amount sel)
                  = sum_list (map Amount_ko (Keyoutput out)) + Fee tx"
      by blast
    from s have e: "tx = ?sss" "sel = [demo_out]"
      by (simp_all add: demo_frozen_def demo_env_def demo_env_send_def demo_wallet_def)
    from p have o: "out = demo_outputs (100000000 # demo_change)"
      unfolding e by (simp add: demo_tx_ss_def)
    have "Fee ?sss = 1000000" by (simp add: demo_tx_ss_def)
    with c hyp show ?thesis unfolding e o by simp
  qed
  have r2: "sum_list (map amount [demo_out])
       = sum_list (map Amount_ko (Keyoutput (demo_outputs demo_change))) + 100000000 + 1000000"
  proof -
    from v [THEN conjunct2, THEN conjunct1, rule_format, OF transPri2PubV2_demo]
    obtain tx kis out sel where
      p: "Payload tx = Privacy2Public (Tokenname_sp demo_req_sp) (Amount_sp demo_req_sp)
                         (Note_sp demo_req_sp) kis out"
      and f: "Fee tx = PrivacyTxFee demo_cfg"
      and s: "walletStore (demo_frozen ?ssp)
                = moveUTXO2FTXO demo_env tx (Tokenname_sp demo_req_sp) (Sender_sp demo_req_sp)
                    (Bytes2Hex demo_env [1]) sel (walletStore demo_wallet)"
      and c: "0 < Amount_sp demo_req_sp \<and> 0 \<le> PrivacyTxFee demo_cfg
              \<and> sum_list (map amount sel) < 10 ^ 18
              \<and> Amount_sp demo_req_sp + PrivacyTxFee demo_cfg \<le> sum_list (map amount sel)
            \<longrightarrow> sum_list (map amount sel)
                  = sum_list (map Amount_ko (Keyoutput out)) + Amount_sp demo_req_sp + Fee tx"
      by blast
    from s have e: "tx = ?ssp" "sel = [demo_out]"
      by (simp_all add: demo_frozen_def demo_env_def demo_env_send_def demo_wallet_def)
    from p have o: "out = demo_outputs demo_change"
      unfolding e by (simp add: demo_tx_sp_def)
    have "Fee ?ssp = 1000000" "Amount_sp demo_req_sp = 100000000"
      by (simp_all add: demo_tx_sp_def demo_req_sp_def)
    with c hyp show ?thesis unfolding e o by simp
  qed
  have r3: "sum_list (map amount [demo_out])
       = sum_list (map Amount_ko (Keyoutput (demo_outputs (100000000 # demo_change)))) + Fee ?dss"
  proof -
    from v [THEN conjunct2, THEN conjunct2, THEN conjunct1, rule_format,
            OF createPrivacy2PrivacyTx_demo]
    obtain kis out sel where
      p: "Payload ?dss = Privacy2Privacy (Tokenname_ct demo_req_ct) (Amount_ct demo_req_ct)
                         (Note_ct demo_req_ct) kis out"
      and s: "walletStore (demo_frozen demo_tx_ss)
                = moveUTXO2FTXO demo_env (?dss\<lparr>Signature_tx := None\<rparr>)
                    (Tokenname_ct demo_req_ct) (From_ct demo_req_ct)
                    (Bytes2Hex demo_env (Hash demo_env (?dss\<lparr>Signature_tx := None\<rparr>))) sel
                    (walletStore demo_wallet)"
      and c: "0 < Amount_ct demo_req_ct \<and> 0 \<le> PrivacyTxFee demo_cfg
              \<and> list_all (\<lambda>u. 0 \<le> amount u) sel
              \<and> sum_list (map amount sel) < 10 ^ 18
              \<and> Amount_ct demo_req_ct + PrivacyTxFee demo_cfg \<le> sum_list (map amount sel)
            \<longrightarrow> sum_list (map amount sel)
                  = sum_list (map Amount_ko (Keyoutput out)) + Fee ?dss"
      by blast
    from s have e: "sel = [demo_out]"
      by (simp add: demo_frozen_def demo_env_def demo_env_send_def demo_wallet_def)
    from p have o: "out = demo_outputs (100000000 # demo_change)"
      by (simp add: demo_tx_ss_def)
    from c hyp show ?thesis unfolding e o by simp
  qed
  have r4: "sum_list (map amount [demo_out])
       = sum_list (map Amount_ko (Keyoutput (demo_outputs demo_change)))
         + Amount_ct demo_req_ct + Fee ?dsp"
  proof -
    from v [THEN conjunct2, THEN conjunct2, THEN conjunct2, rule_format,
            OF createPrivacy2PublicTx_demo]
    obtain kis out sel where
      p: "Payload ?dsp = Privacy2Public (Tokenname_ct demo_req_ct) (Amount_ct demo_req_ct)
                         (Note_ct demo_req_ct) kis out"
      and s: "walletStore (demo_frozen demo_tx_sp)
                = moveUTXO2FTXO demo_env (?dsp\<lparr>Signature_tx := None\<rparr>)
                    (Tokenname_ct demo_req_ct) (From_ct demo_req_ct)
                    (Bytes2Hex demo_env (Hash demo_env (?dsp\<lparr>Signature_tx := None\<rparr>))) sel
                    (walletStore demo_wallet)"
      and c: "0 < Amount_ct demo_req_ct \<and> 0 \<le> PrivacyTxFee demo_cfg
              \<and> sum_list (map amount sel) < 10 ^ 18
              \<and> Amount_ct demo_req_ct + PrivacyTxFee demo_cfg \<le> sum_list (map amount sel)
            \<longrightarrow> sum_list (map amount sel)
                  = sum_list (map Amount_ko (Keyoutput out)) + Amount_ct demo_req_ct + Fee ?dsp"
      by blast
    from s have e: "sel = [demo_out]"
      by (simp add: demo_frozen_def demo_env_def demo_env_send_def demo_wallet_def)
    from p have o: "out = demo_outputs demo_change"
      by (simp add: demo_tx_sp_def)
    from c hyp show ?thesis unfolding e o by simp
  qed
  show ?thesis
    by (intro conjI) (rule transPri2PriV2_demo, rule transPri2PubV2_demo,
        rule createPrivacy2PrivacyTx_demo, rule createPrivacy2PublicTx_demo,
        rule hyp(1), rule hyp(2), rule hyp(3), rule hyp(4), rule hyp(5), rule hyp(6),
        rule hyp(7), rule hyp(8), rule hyp(9), rule r1, rule r2, rule r3, rule r4)
qed

text \<open>
  The claim as stated fails for a privacy-to-public build: the example build selects one
  output of 300000000 for the amount 100000000 and the fee 1000000; its key outputs
  (the change) total 199000000, which with the fee makes 200000000.
\<close>

theorem conservation_fails_private_to_public:
  "transPri2PubV2 demo_env demo_cfg demo_wallet demo_keys demo_req_sp
     = (Inr [1], demo_frozen (demo_tx_sp\<lparr>Signature_tx := Some (RingSignature [[43]])\<rparr>))
   \<and> Payload demo_tx_sp
       = Privacy2Public ''BTY'' 100000000 ''n'' [demo_keyinput] (demo_outputs demo_change)
   \<and> frozen (walletStore (demo_frozen (demo_tx_sp\<lparr>Signature_tx := Some (RingSignature [[43]])\<rparr>)))
       = [(''01'', demo_tx_sp\<lparr>Signature_tx := Some (RingSignature [[43]])\<rparr>, [demo_out])]
   \<and> Amount_sp demo_req_sp + PrivacyTxFee demo_cfg \<le> sum_list (map amount [demo_out])
   \<and> sum_list (map amount [demo_out]) = 300000000
   \<and> sum_list (map Amount_ko (Keyoutput (demo_outputs demo_change))) + Fee demo_tx_sp = 200000000
   \<and> sum_list (map amount [demo_out])
       \<noteq> sum_list (map Amount_ko (Keyoutput (demo_outputs demo_change))) + Fee demo_tx_sp"
  using transPri2PubV2_demo
  by (simp add: demo_tx_sp_def demo_frozen_def demo_out_def demo_outputs_def demo_change_def
        demo_req_sp_def demo_cfg_def)

text \<open>
  C8 (when the selected outputs are frozen). In the direct path (\<open>transPri2PriV2\<close>,
  \<open>transPri2PubV2\<close>) a build that fails, at whatever step and so also when
  \<open>SendTx\<close> rejects the transaction, leaves the wallet store as it was; a build that
  succeeds has had the signed transaction accepted by \<open>SendTx\<close> and then its selected
  outputs (those that \<open>buildInput\<close> returned) frozen under the hash of that
  transaction. In the deferred path
  (\<open>createPrivacy2PrivacyTx\<close>, \<open>createPrivacy2PublicTx\<close>) the store returned with the
  transaction already has the selected outputs frozen under the hash of the
  transaction without its signature, and the transaction returned carries the rings
  and the real keys for the later signature; no \<open>SendTx\<close> takes place.
\<close>

theorem ftxo_write_order:
  "(transPri2PriV2 env cfg wallet keys rss = (r1, w1) \<longrightarrow>
      (case r1 of
          Inl err \<Rightarrow> walletStore w1 = walletStore wallet
        | Inr hash \<Rightarrow>
            (\<exists>tx kis rings reals sel rng1.
                 buildInput env cfg wallet keys
                   \<lparr>tokenname = Tokenname_ss rss, sender = Sender_ss rss,
                    amount_bi = add64 (Amount_ss rss) (PrivacyTxFee cfg), mixcount = Mixin_ss rss\<rparr>
                   = (Inr (Some (kis, rings, reals, sel)), rng1)
               \<and> SendTx env tx = None \<and> hash = Hash env tx
               \<and> walletStore w1 = moveUTXO2FTXO env tx (Tokenname_ss rss) (Sender_ss rss)
                                     (Bytes2Hex env hash) sel (walletStore wallet))))
   \<and> (transPri2PubV2 env cfg wallet keys rsp = (r2, w2) \<longrightarrow>
      (case r2 of
          Inl err \<Rightarrow> walletStore w2 = walletStore wallet
        | Inr hash \<Rightarrow>
            (\<exists>tx kis rings reals sel rng1.
                 buildInput env cfg wallet keys
                   \<lparr>tokenname = Tokenname_sp rsp, sender = Sender_sp rsp,
                    amount_bi = add64 (Amount_sp rsp) (PrivacyTxFee cfg), mixcount = Mixin_sp rsp\<rparr>
                   = (Inr (Some (kis, rings, reals, sel)), rng1)
               \<and> SendTx env tx = None \<and> hash = Hash env tx
               \<and> walletStore w2 = moveUTXO2FTXO env tx (Tokenname_sp rsp) (Sender_sp rsp)
                                     (Bytes2Hex env hash) sel (walletStore wallet))))
   \<and> (createPrivacy2PrivacyTx env cfg wallet rc3 = (Inr tx3, w3) \<longrightarrow>
      (\<exists>keys kis rings reals sel rng1.
            getPrivacykeyPair env (walletStore wallet) (From_ct rc3) = Inr keys
          \<and> buildInput env cfg wallet keys
              \<lparr>tokenname = Tokenname_ct rc3, sender = From_ct rc3,
               amount_bi = add64 (Amount_ct rc3) (PrivacyTxFee cfg), mixcount = Mixcount_ct rc3\<rparr>
              = (Inr (Some (kis, rings, reals, sel)), rng1)
          \<and> Signature_tx tx3 = Some (PrivacySignatureParam rings reals)
          \<and> walletStore w3 =
              moveUTXO2FTXO env (tx3\<lparr>Signature_tx := None\<rparr>) (Tokenname_ct rc3) (From_ct rc3)
                (Bytes2Hex env (Hash env (tx3\<lparr>Signature_tx := None\<rparr>))) sel (walletStore wallet)))
   \<and> (createPrivacy2PublicTx env cfg wallet rc4 = (Inr tx4, w4) \<longrightarrow>
      (\<exists>keys kis rings reals sel rng1.
            getPrivacykeyPair env (walletStore wallet) (From_ct rc4) = Inr keys
          \<and> buildInput env cfg wallet keys
              \<lparr>tokenname = Tokenname_ct rc4, sender = From_ct rc4,
               amount_bi = add64 (Amount_ct rc4) (PrivacyTxFee cfg), mixcount = Mixcount_ct rc4\<rparr>
              = (Inr (Some (kis, rings, reals, sel)), rng1)
          \<and> Signature_tx tx4 = Some (PrivacySignatureParam rings reals)
          \<and> walletStore w4 =
              moveUTXO2FTXO env (tx4\<lparr>Signature_tx := None\<rparr>) (Tokenname_ct rc4) (From_ct rc4)
                (Bytes2Hex env (Hash env (tx4\<lparr>Signature_tx := None\<rparr>))) sel (walletStore wallet)))"
proof (intro conjI impI)
  assume a: "transPri2PriV2 env cfg wallet keys rss = (r1, w1)"
  show "case r1 of
           Inl err \<Rightarrow> walletStore w1 = walletStore wallet
         | Inr hash \<Rightarrow>
             (\<exists>tx kis rings reals sel rng1.
                  buildInput env cfg wallet keys
                    \<lparr>tokenname = Tokenname_ss rss, sender = Sender_ss rss,
                     amount_bi = add64 (Amount_ss rss) (PrivacyTxFee cfg), mixcount = Mixin_ss rss\<rparr>
                    = (Inr (Some (kis, rings, reals, sel)), rng1)
                \<and> SendTx env tx = None \<and> hash = Hash env tx
                \<and> walletStore w1 = moveUTXO2FTXO env tx (Tokenname_ss rss) (Sender_ss rss)
                                      (Bytes2Hex env hash) sel (walletStore wallet))"
  proof (cases r1)
    case (Inl err)
    with a show ?thesis by (simp add: transPri2PriV2_Inl)
  next
    case (Inr hash)
    from transPri2PriV2_Inr [OF a [unfolded Inr]] obtain kis rings reals sel rng1 tx' rng3 where
      b: "buildInput env cfg wallet keys
            \<lparr>tokenname = Tokenname_ss rss, sender = Sender_ss rss,
             amount_bi = add64 (Amount_ss rss) (PrivacyTxFee cfg), mixcount = Mixin_ss rss\<rparr>
            = (Inr (Some (kis, rings, reals, sel)), rng1)"
      and st: "SendTx env tx' = None" and h: "hash = Hash env tx'"
      and w: "w1 = saveFTXOInfo env tx' (Tokenname_ss rss) (Sender_ss rss)
              (Bytes2Hex env hash) sel (wallet\<lparr>random := rng3\<rparr>)"
      by blast
    have store: "walletStore w1 = moveUTXO2FTXO env tx' (Tokenname_ss rss) (Sender_ss rss)
                              (Bytes2Hex env hash) sel (walletStore wallet)"
      unfolding w saveFTXOInfo_store by simp
    have "\<exists>tx kis rings reals sel rng1.
               buildInput env cfg wallet keys
                 \<lparr>tokenname = Tokenname_ss rss, sender = Sender_ss rss,
                  amount_bi = add64 (Amount_ss rss) (PrivacyTxFee cfg), mixcount = Mixin_ss rss\<rparr>
                 = (Inr (Some (kis, rings, reals, sel)), rng1)
             \<and> SendTx env tx = None \<and> hash = Hash env tx
             \<and> walletStore w1 = moveUTXO2FTXO env tx (Tokenname_ss rss) (Sender_ss rss)
                                   (Bytes2Hex env hash) sel (walletStore wallet)"
      apply (rule exI [of _ tx'], rule exI [of _ kis], rule exI [of _ rings], rule exI [of _ reals],
          rule exI [of _ sel], rule exI [of _ rng1])
      using b st h store by simp
    then show ?thesis unfolding Inr sum.case .
  qed
next
  assume a: "transPri2PubV2 env cfg wallet keys rsp = (r2, w2)"
  show "case r2 of
           Inl err \<Rightarrow> walletStore w2 = walletStore wallet
         | Inr hash \<Rightarrow>
             (\<exists>tx kis rings reals sel rng1.
                  buildInput env cfg wallet keys
                    \<lparr>tokenname = Tokenname_sp rsp, sender = Sender_sp rsp,
                     amount_bi = add64 (Amount_sp rsp) (PrivacyTxFee cfg), mixcount = Mixin_sp rsp\<rparr>
                    = (Inr (Some (kis, rings, reals, sel)), rng1)
                \<and> SendTx env tx = None \<and> hash = Hash env tx
                \<and> walletStore w2 = moveUTXO2FTXO env tx (Tokenname_sp rsp) (Sender_sp rsp)
                                      (Bytes2Hex env hash) sel (walletStore wallet))"
  proof (cases r2)
    case (Inl err)
    with a show ?thesis by (simp add: transPri2PubV2_Inl)
  next
    case (Inr hash)
    from transPri2PubV2_Inr [OF a [unfolded Inr]] obtain kis rings reals sel rng1 tx' rng3 where
      b: "buildInput env cfg wallet keys
            \<lparr>tokenname = Tokenname_sp rsp, sender = Sender_sp rsp,
             amount_bi = add64 (Amount_sp rsp) (PrivacyTxFee cfg), mixcount = Mixin_sp rsp\<rparr>
            = (Inr (Some (kis, rings, reals, sel)), rng1)"
      and st: "SendTx env tx' = None" and h: "hash = Hash env tx'"
      and w: "w2 = saveFTXOInfo env tx' (Tokenname_sp rsp) (Sender_sp rsp)
              (Bytes2Hex env hash) sel (wallet\<lparr>random := rng3\<rparr>)"
      by blast
    have store: "walletStore w2 = moveUTXO2FTXO env tx' (Tokenname_sp rsp) (Sender_sp rsp)
                              (Bytes2Hex env hash) sel (walletStore wallet)"
      unfolding w saveFTXOInfo_store by simp
    have "\<exists>tx kis rings reals sel rng1.
               buildInput env cfg wallet keys
                 \<lparr>tokenname = Tokenname_sp rsp, sender = Sender_sp rsp,
                  amount_bi = add64 (Amount_sp rsp) (PrivacyTxFee cfg), mixcount = Mixin_sp rsp\<rparr>
                 = (Inr (Some (kis, rings, reals, sel)), rng1)
             \<and> SendTx env tx = None \<and> hash = Hash env tx
             \<and> walletStore w2 = moveUTXO2FTXO env tx (Tokenname_sp rsp) (Sender_sp rsp)
                                   (Bytes2Hex env hash) sel (walletStore wallet)"
      apply (rule exI [of _ tx'], rule exI [of _ kis], rule exI [of _ rings], rule exI [of _ reals],
          rule exI [of _ sel], rule exI [of _ rng1])
      using b st h store by simp
    then show ?thesis unfolding Inr sum.case .
  qed
next
  assume a: "createPrivacy2PrivacyTx env cfg wallet rc3 = (Inr tx3, w3)"
  from createPrivacy2PrivacyTx_build [OF a] obtain keys' kis rings reals sel rng1 where
    f: "getPrivacykeyPair env (walletStore wallet) (From_ct rc3) = Inr keys'
        \<and> buildInput env cfg wallet keys'
            \<lparr>tokenname = Tokenname_ct rc3, sender = From_ct rc3,
             amount_bi = add64 (Amount_ct rc3) (PrivacyTxFee cfg), mixcount = Mixcount_ct rc3\<rparr>
            = (Inr (Some (kis, rings, reals, sel)), rng1)
        \<and> Signature_tx tx3 = Some (PrivacySignatureParam rings reals)
        \<and> walletStore w3 =
            moveUTXO2FTXO env (tx3\<lparr>Signature_tx := None\<rparr>) (Tokenname_ct rc3) (From_ct rc3)
              (Bytes2Hex env (Hash env (tx3\<lparr>Signature_tx := None\<rparr>))) sel (walletStore wallet)"
    by blast
  show "\<exists>keys kis rings reals sel rng1.
             getPrivacykeyPair env (walletStore wallet) (From_ct rc3) = Inr keys
           \<and> buildInput env cfg wallet keys
               \<lparr>tokenname = Tokenname_ct rc3, sender = From_ct rc3,
                amount_bi = add64 (Amount_ct rc3) (PrivacyTxFee cfg), mixcount = Mixcount_ct rc3\<rparr>
               = (Inr (Some (kis, rings, reals, sel)), rng1)
           \<and> Signature_tx tx3 = Some (PrivacySignatureParam rings reals)
           \<and> walletStore w3 =
               moveUTXO2FTXO env (tx3\<lparr>Signature_tx := None\<rparr>) (Tokenname_ct rc3) (From_ct rc3)
                 (Bytes2Hex env (Hash env (tx3\<lparr>Signature_tx := None\<rparr>))) sel (walletStore wallet)"
    apply (rule exI [of _ keys'], rule exI [of _ kis], rule exI [of _ rings], rule exI [of _ reals],
        rule exI [of _ sel], rule exI [of _ rng1])
    using f by simp
next
  assume a: "createPrivacy2PublicTx env cfg wallet rc4 = (Inr tx4, w4)"
  from createPrivacy2PublicTx_build [OF a] obtain keys' kis rings reals sel rng1 where
    f: "getPrivacykeyPair env (walletStore wallet) (From_ct rc4) = Inr keys'
        \<and> buildInput env cfg wallet keys'
            \<lparr>tokenname = Tokenname_ct rc4, sender = From_ct rc4,
             amount_bi = add64 (Amount_ct rc4) (PrivacyTxFee cfg), mixcount = Mixcount_ct rc4\<rparr>
            = (Inr (Some (kis, rings, reals, sel)), rng1)
        \<and> Signature_tx tx4 = Some (PrivacySignatureParam rings reals)
        \<and> walletStore w4 =
            moveUTXO2FTXO env (tx4\<lparr>Signature_tx := None\<rparr>) (Tokenname_ct rc4) (From_ct rc4)
              (Bytes2Hex env (Hash env (tx4\<lparr>Signature_tx := None\<rparr>))) sel (walletStore wallet)"
    by blast
  show "\<exists>keys kis rings reals sel rng1.
             getPrivacykeyPair env (walletStore wallet) (From_ct rc4) = Inr keys
           \<and> buildInput env cfg wallet keys
               \<lparr>tokenname = Tokenname_ct rc4, sender = From_ct rc4,
                amount_bi = add64 (Amount_ct rc4) (PrivacyTxFee cfg), mixcount = Mixcount_ct rc4\<rparr>
               = (Inr (Some (kis, rings, reals, sel)), rng1)
           \<and> Signature_tx tx4 = Some (PrivacySignatureParam rings reals)
           \<and> walletStore w4 =
               moveUTXO2FTXO env (tx4\<lparr>Signature_tx := None\<rparr>) (Tokenname_ct rc4) (From_ct rc4)
                 (Bytes2Hex env (Hash env (tx4\<lparr>Signature_tx := None\<rparr>))) sel (walletStore wallet)"
    apply (rule exI [of _ keys'], rule exI [of _ kis], rule exI [of _ rings], rule exI [of _ reals],
        rule exI [of _ sel], rule exI [of _ rng1])
    using f by simp
qed

theorem ftxo_write_order_witness:
  "transPri2PriV2 demo_env_reject demo_cfg demo_wallet demo_keys demo_req_ss =
     (Inl (ErrCollaborator ''rejected''), demo_wallet\<lparr>random := 4\<rparr>)
   \<and> walletStore (demo_wallet\<lparr>random := 4\<rparr>) = walletStore demo_wallet
   \<and> transPri2PubV2 demo_env_reject demo_cfg demo_wallet demo_keys demo_req_sp =
     (Inl (ErrCollaborator ''rejected''), demo_wallet\<lparr>random := 4\<rparr>)
   \<and> transPri2PriV2 demo_env demo_cfg demo_wallet demo_keys demo_req_ss =
     (Inr [1], demo_frozen (demo_tx_ss\<lparr>Signature_tx := Some (RingSignature [[43]])\<rparr>))
   \<and> SendTx demo_env (demo_tx_ss\<lparr>Signature_tx := Some (RingSignature [[43]])\<rparr>) = None
   \<and> frozen (walletStore (demo_frozen (demo_tx_ss\<lparr>Signature_tx := Some (RingSignature [[43]])\<rparr>)))
       = [(''01'', demo_tx_ss\<lparr>Signature_tx := Some (RingSignature [[43]])\<rparr>, [demo_out])]
   \<and> createPrivacy2PrivacyTx demo_env demo_cfg demo_wallet demo_req_ct =
     (Inr (demo_tx_ss\<lparr>Signature_tx := Some (PrivacySignatureParam [demo_ring] [demo_realkey])\<rparr>),
      demo_frozen demo_tx_ss)
   \<and> createPrivacy2PublicTx demo_env demo_cfg demo_wallet demo_req_ct =
     (Inr (demo_tx_sp\<lparr>Signature_tx := Some (PrivacySignatureParam [demo_ring] [demo_realkey])\<rparr>),
      demo_frozen demo_tx_sp)
   \<and> walletStore (demo_frozen demo_tx_ss) =
       moveUTXO2FTXO demo_env demo_tx_ss ''BTY'' ''alice'' ''01'' [demo_out] (walletStore demo_wallet)
   \<and> frozen (walletStore (demo_frozen demo_tx_ss)) = [(''01'', demo_tx_ss, [demo_out])]"
proof -
  note t = ftxo_write_order [of demo_env_reject demo_cfg demo_wallet demo_keys demo_req_ss
      "Inl (ErrCollaborator ''rejected'')" "demo_wallet\<lparr>random := 4\<rparr>"
      demo_req_sp "Inl (ErrCollaborator ''rejected'')" "demo_wallet\<lparr>random := 4\<rparr>"]
  from t [THEN conjunct1, rule_format, OF transPri2PriV2_demo_reject]
  have u: "walletStore (demo_wallet\<lparr>random := 4\<rparr>) = walletStore demo_wallet" by simp
  have s: "SendTx demo_env (demo_tx_ss\<lparr>Signature_tx := Some (RingSignature [[43]])\<rparr>) = None"
    by (simp add: demo_env_def demo_env_send_def)
  have m: "walletStore (demo_frozen demo_tx_ss) =
       moveUTXO2FTXO demo_env demo_tx_ss ''BTY'' ''alice'' ''01'' [demo_out] (walletStore demo_wallet)"
    by (simp add: demo_frozen_def demo_env_def demo_env_send_def demo_wallet_def)
  have f1: "frozen (walletStore (demo_frozen (demo_tx_ss\<lparr>Signature_tx := Some (RingSignature [[43]])\<rparr>)))
       = [(''01'', demo_tx_ss\<lparr>Signature_tx := Some (RingSignature [[43]])\<rparr>, [demo_out])]"
    by (simp add: demo_frozen_def)
  have f2: "frozen (walletStore (demo_frozen demo_tx_ss)) = [(''01'', demo_tx_ss, [demo_out])]"
    by (simp add: demo_frozen_def)
  show ?thesis
    by (intro conjI)
      (rule transPri2PriV2_demo_reject, rule u, rule transPri2PubV2_demo_reject,
       rule transPri2PriV2_demo, rule s, rule f1, rule createPrivacy2PrivacyTx_demo,
       rule createPrivacy2PublicTx_demo, rule m, rule f2)
qed

text \<open>
  C9 (outputs of a public-to-privacy build), as amended. The transaction sent by a
  successful \<open>transPub2PriV2\<close>, and the transaction returned by a successful
  \<open>createPublic2PrivacyTx\<close>, carries one privacy output whose key outputs have the
  amounts of \<open>decomposeAmount2digits\<close> of the requested amount, in that order, and no
  change outputs; for the amount 100000000 (one coin) that is the single key output of
  100000000, whatever the dust threshold.
\<close>

theorem public_to_private_outputs:
  "(transPub2PriV2 env cfg wallet priv req = (Inr hash, wallet') \<longrightarrow>
      (\<exists>tx out. SendTx env tx = None \<and> hash = Hash env tx
         \<and> Payload tx = Public2Privacy (Tokenname_ps req) (Amount_ps req) (Note_ps req) out
         \<and> map Amount_ko (Keyoutput out)
             = decomposeAmount2digits (Amount_ps req) (BTYDustThreshold cfg)))
   \<and> (createPublic2PrivacyTx env cfg wallet rc = (Inr tx1, w1) \<longrightarrow>
      (\<exists>out. Payload tx1
                = Public2Privacy (Tokenname_ct rc) (Amount_ct rc) (Note_ct rc) out
         \<and> map Amount_ko (Keyoutput out)
             = decomposeAmount2digits (Amount_ct rc) (BTYDustThreshold cfg)))
   \<and> decomposeAmount2digits 100000000 (BTYDustThreshold cfg) = [100000000]"
proof (intro conjI impI)
  assume a: "transPub2PriV2 env cfg wallet priv req = (Inr hash, wallet')"
  from transPub2PriV2_Inr [OF a] obtain v s out rng1 tx where
    g: "generateOuts env cfg (Some v) (Some s) None None
             (Amount_ps req) (Amount_ps req) 0 (random wallet) = (Inr out, rng1)"
    and p: "Payload tx = Public2Privacy (Tokenname_ps req) (Amount_ps req) (Note_ps req) out"
    and st: "SendTx env tx = None" and h: "hash = Hash env tx"
    by blast
  have z: "sub64 (sub64 (Amount_ps req) (Amount_ps req)) 0 = 0"
    by (simp add: sub64_def wrap64_def)
  have "map Amount_ko (Keyoutput out)
          = decomposeAmount2digits (Amount_ps req) (BTYDustThreshold cfg)"
    using generateOuts_amounts [OF g] unfolding z by simp
  with st h p show "\<exists>tx out. SendTx env tx = None \<and> hash = Hash env tx
         \<and> Payload tx = Public2Privacy (Tokenname_ps req) (Amount_ps req) (Note_ps req) out
         \<and> map Amount_ko (Keyoutput out)
             = decomposeAmount2digits (Amount_ps req) (BTYDustThreshold cfg)"
    by (intro exI [of _ tx] exI [of _ out]) simp
next
  assume a: "createPublic2PrivacyTx env cfg wallet rc = (Inr tx1, w1)"
  from createPublic2PrivacyTx_Inr [OF a] obtain v s out rng1 where
    g: "generateOuts env cfg (Some v) (Some s) None None
             (Amount_ct rc) (Amount_ct rc) 0 (random wallet) = (Inr out, rng1)"
    and p: "Payload tx1 = Public2Privacy (Tokenname_ct rc) (Amount_ct rc) (Note_ct rc) out"
    by blast
  have z: "sub64 (sub64 (Amount_ct rc) (Amount_ct rc)) 0 = 0"
    by (simp add: sub64_def wrap64_def)
  have "map Amount_ko (Keyoutput out)
          = decomposeAmount2digits (Amount_ct rc) (BTYDustThreshold cfg)"
    using generateOuts_amounts [OF g] unfolding z by simp
  with p show "\<exists>out. Payload tx1
                = Public2Privacy (Tokenname_ct rc) (Amount_ct rc) (Note_ct rc) out
         \<and> map Amount_ko (Keyoutput out)
             = decomposeAmount2digits (Amount_ct rc) (BTYDustThreshold cfg)"
    by (intro exI [of _ out]) simp
next
  show "decomposeAmount2digits 100000000 (BTYDustThreshold cfg) = [100000000]"
    by (rule decomposeAmount2digits_coin)
qed

theorem public_to_private_outputs_witness:
  "transPub2PriV2 demo_env demo_cfg demo_wallet [55] (demo_req_ps\<lparr>Amount_ps := 100000000\<rparr>) =
     (Inr [1], demo_wallet\<lparr>random := 2\<rparr>)
   \<and> (\<exists>tx out. SendTx demo_env tx = None
         \<and> Payload tx = Public2Privacy ''BTY'' 100000000 ''n'' out
         \<and> map Amount_ko (Keyoutput out) = [100000000])
   \<and> createPublic2PrivacyTx demo_env demo_cfg demo_wallet (demo_req_ct\<lparr>Type_ct := 1\<rparr>) =
     (Inr (demo_tx_ps 100000000 [100000000]
             \<lparr>Signature_tx := Some (PrivacySignatureParam [] [])\<rparr>),
      demo_wallet\<lparr>random := 2\<rparr>)
   \<and> map Amount_ko (Keyoutput (demo_outputs [100000000]))
       = decomposeAmount2digits (Amount_ct (demo_req_ct\<lparr>Type_ct := 1\<rparr>))
           (BTYDustThreshold demo_cfg)
   \<and> map Amount_ko (Keyoutput (demo_outputs [100000000])) = [100000000]"
proof -
  let ?dtx = "demo_tx_ps 100000000 [100000000]
                \<lparr>Signature_tx := Some (PrivacySignatureParam [] [])\<rparr>"
  note t = public_to_private_outputs [of demo_env demo_cfg demo_wallet "[55]"
      "demo_req_ps\<lparr>Amount_ps := 100000000\<rparr>" "[1]" "demo_wallet\<lparr>random := 2\<rparr>"
      "demo_req_ct\<lparr>Type_ct := 1\<rparr>" ?dtx "demo_wallet\<lparr>random := 2\<rparr>"]
  note coin = t [THEN conjunct2, THEN conjunct2]
  from t [THEN conjunct1, rule_format, OF transPub2PriV2_demo_coin]
  obtain tx out where s: "SendTx demo_env tx = None"
    and p: "Payload tx = Public2Privacy (Tokenname_ps (demo_req_ps\<lparr>Amount_ps := 100000000\<rparr>))
              (Amount_ps (demo_req_ps\<lparr>Amount_ps := 100000000\<rparr>))
              (Note_ps (demo_req_ps\<lparr>Amount_ps := 100000000\<rparr>)) out"
    and m: "map Amount_ko (Keyoutput out)
              = decomposeAmount2digits (Amount_ps (demo_req_ps\<lparr>Amount_ps := 100000000\<rparr>))
                  (BTYDustThreshold demo_cfg)"
    by auto
  from p have p': "Payload tx = Public2Privacy ''BTY'' 100000000 ''n'' out"
    by (simp add: demo_req_ps_def)
  from m coin have m': "map Amount_ko (Keyoutput out) = [100000000]"
    by simp
  have e: "\<exists>tx out. SendTx demo_env tx = None
         \<and> Payload tx = Public2Privacy ''BTY'' 100000000 ''n'' out
         \<and> map Amount_ko (Keyoutput out) = [100000000]"
    by (rule exI [of _ tx], rule exI [of _ out]) (intro conjI, rule s, rule p', rule m')
  from t [THEN conjunct2, THEN conjunct1, rule_format, OF createPublic2PrivacyTx_demo]
  obtain out' where
    q: "Payload ?dtx = Public2Privacy (Tokenname_ct (demo_req_ct\<lparr>Type_ct := 1\<rparr>))
                         (Amount_ct (demo_req_ct\<lparr>Type_ct := 1\<rparr>))
                         (Note_ct (demo_req_ct\<lparr>Type_ct := 1\<rparr>)) out'"
    and n: "map Amount_ko (Keyoutput out')
              = decomposeAmount2digits (Amount_ct (demo_req_ct\<lparr>Type_ct := 1\<rparr>))
                  (BTYDustThreshold demo_cfg)"
    by auto
  from q have o: "out' = demo_outputs [100000000]" by (simp add: demo_tx_ps_def)
  have d: "map Amount_ko (Keyoutput (demo_outputs [100000000]))
       = decomposeAmount2digits (Amount_ct (demo_req_ct\<lparr>Type_ct := 1\<rparr>))
           (BTYDustThreshold demo_cfg)"
    using n unfolding o .
  have c: "map Amount_ko (Keyoutput (demo_outputs [100000000])) = [100000000]"
    by (simp add: demo_outputs_def)
  show ?thesis
    by (intro conjI) (rule transPub2PriV2_demo_coin, rule e, rule createPublic2PrivacyTx_demo,
        rule d, rule c)
qed

text \<open>
  The claim as stated (a single key output of the full amount) fails for the amount
  300000000: the chain of this example accepts one transaction only, and the build
  succeeds when that is the transaction with the two key outputs 100000000 and
  200000000, and fails when it is the transaction with one key output of 300000000.
\<close>

theorem public_to_private_two_outputs:
  "transPub2PriV2 (demo_env_accept (demo_tx_ps 300000000 [100000000, 200000000]))
     demo_cfg demo_wallet [55] demo_req_ps = (Inr [1], demo_wallet\<lparr>random := 2\<rparr>)
   \<and> Amount_ps demo_req_ps = 300000000
   \<and> Payload (demo_tx_ps 300000000 [100000000, 200000000])
       = Public2Privacy ''BTY'' 300000000 ''n'' (demo_outputs [100000000, 200000000])
   \<and> map Amount_ko (Keyoutput (demo_outputs [100000000, 200000000])) = [100000000, 200000000]
   \<and> transPub2PriV2 (demo_env_accept (demo_tx_ps 300000000 [300000000]))
     demo_cfg demo_wallet [55] demo_req_ps
       = (Inl (ErrCollaborator ''unexpected''), demo_wallet\<lparr>random := 2\<rparr>)"
proof -
  have a: "transPub2PriV2 (demo_env_accept (demo_tx_ps 300000000 [100000000, 200000000]))
     demo_cfg demo_wallet [55] demo_req_ps = (Inr [1], demo_wallet\<lparr>random := 2\<rparr>)"
    unfolding demo_env_accept_def transPub2PriV2_demo_send by simp
  have b: "transPub2PriV2 (demo_env_accept (demo_tx_ps 300000000 [300000000]))
     demo_cfg demo_wallet [55] demo_req_ps
       = (Inl (ErrCollaborator ''unexpected''), demo_wallet\<lparr>random := 2\<rparr>)"
    unfolding demo_env_accept_def transPub2PriV2_demo_send
    by (simp add: demo_tx_ps_def demo_outputs_def)
  show ?thesis
    using a b by (simp add: demo_req_ps_def demo_tx_ps_def demo_outputs_def)
qed

section \<open>The claim on the flush of the observed-spend buffer\<close>



end
